theory Spec2Isabelle
  imports Complex_Main "HOL-Library.Word"
begin

section \<open>ThermoMPNN-D: the mutation indexing and aggregation logic of \<open>v2_model.py\<close>\<close>

text \<open>
  The module wires a pretrained backbone to a small prediction head. The backbone, the
  side-chain module, LightAttention, the learned aggregator and the head are external
  networks: they are functions handed to the model. What is embedded here is the code of
  \<open>v2_model.py\<close> itself: the sequence check, the gathers at the mutated positions, the
  edge features between mutated residues, the masked aggregation, the indexing of the
  head's output, and the dimensions computed by \<open>_set_model_dims\<close>.

  Tensors are nested lists, outermost axis first, of the shapes the source's comments
  give. A tensor whose axes do not fit its partner's, which torch rejects, has no
  counterpart here: where two tensors are combined entry by entry the lists are zipped,
  and the properties below state the shapes they assume. Out-of-range indices, empty
  lists handed to \<open>stack\<close> or \<open>cat\<close>, and variables or attributes that were never
  bound do raise in the model, as they do in the code. Index tensors hold 64-bit integers
  (\<open>torch.gather\<close> accepts no other index type), so their sums wrap around.
  Floating-point entries are the values of \<open>fl\<close>: a real number, the two infinities,
  or NaN; arithmetic on the finite values is exact, so rounding and the sign of zero are
  outside this development.
\<close>

subsection \<open>Values and exceptions\<close>

type_synonym int64 = "64 word"

datatype fl = Fin real | PInf | NInf | NaN

type_synonym vec = "fl list"
type_synonym mat = "fl list list"
type_synonym ten3 = "fl list list list"
type_synonym ten4 = "fl list list list list"
type_synonym idx2 = "int64 list list"

text \<open>
  The exceptions a call of \<open>forward\<close> can end in: an index out of bounds in
  \<open>torch.gather\<close> or in plain indexing, \<open>torch.stack\<close> of an empty list,
  \<open>torch.cat\<close> of tensors of different rank, a local variable read before assignment,
  an attribute that \<open>__init__\<close> did not create, a tuple index into a Python list, the
  \<open>assert\<close> on the first mutation slot, and the \<open>ValueError\<close> of the aggregation
  dispatch. \<open>Unmodelled\<close> is no exception of the code: it marks the one place where
  this development stops following it (a position tensor wider than one column on the
  single-mutation path, where \<open>squeeze\<close> leaves a rank-3 tensor).
\<close>

datatype error =
    GatherIndexError
  | IndexError
  | EmptyStackError
  | CatRankError
  | UnboundLocalError
  | AttributeError
  | TypeError
  | AssertionError
  | ValueError
  | Unmodelled

definition ebind :: "error + 'a \<Rightarrow> ('a \<Rightarrow> error + 'b) \<Rightarrow> error + 'b" where
  "ebind m f = (case m of Inl e \<Rightarrow> Inl e | Inr x \<Rightarrow> f x)"

fun mapM :: "('a \<Rightarrow> error + 'b) \<Rightarrow> 'a list \<Rightarrow> error + 'b list" where
  "mapM f [] = Inr []"
| "mapM f (x # xs) = ebind (f x) (\<lambda>y. ebind (mapM f xs) (\<lambda>ys. Inr (y # ys)))"

subsection \<open>The tensor operations the module calls\<close>

text \<open>Size of the last axis of a matrix and of a rank-3 tensor.\<close>

definition ncols :: "'a list list \<Rightarrow> nat" where
  "ncols t = (case t of [] \<Rightarrow> 0 | r # _ \<Rightarrow> length r)"

definition size2 :: "'a list list list \<Rightarrow> nat" where
  "size2 t = (case t of [] \<Rightarrow> 0 | m # _ \<Rightarrow> ncols m)"

text \<open>Column \<open>k\<close> of an index tensor: \<open>t[..., k]\<close>.\<close>

definition col :: "'a list list \<Rightarrow> nat \<Rightarrow> 'a list" where
  "col t k = map (\<lambda>r. r ! k) t"

text \<open>
  \<open>torch.gather(input, -1, index)\<close> on a matrix: \<open>out[b][j] = input[b][index[b][j]]\<close>,
  and an index outside \<open>[0, size)\<close> raises.
\<close>

definition in_range :: "int64 \<Rightarrow> nat \<Rightarrow> bool" where
  "in_range i n \<longleftrightarrow> 0 \<le> sint i \<and> sint i < int n"

definition index_at :: "'a list \<Rightarrow> int64 \<Rightarrow> error + 'a" where
  "index_at xs i = (if in_range i (length xs) then Inr (xs ! nat (sint i)) else Inl GatherIndexError)"

definition gather_last :: "'a list list \<Rightarrow> idx2 \<Rightarrow> error + 'a list list" where
  "gather_last input index = mapM (\<lambda>(row, ix). mapM (index_at row) ix) (zip input index)"

text \<open>
  \<open>S.scatter_(dim=1, index, src)\<close> with \<open>index\<close> and \<open>src\<close> of shape \<open>(B, 1)\<close>:
  \<open>S[b][index[b][0]] = src[b][0]\<close>.
\<close>

definition scatter_row :: "'a list \<Rightarrow> int64 \<Rightarrow> 'a \<Rightarrow> error + 'a list" where
  "scatter_row row i v =
     (if in_range i (length row) then Inr (row[nat (sint i) := v]) else Inl GatherIndexError)"

definition scatter1 :: "'a list list \<Rightarrow> int64 list \<Rightarrow> 'a list \<Rightarrow> error + 'a list list" where
  "scatter1 S index src = mapM (\<lambda>(row, i, v). scatter_row row i v) (zip S (zip index src))"

subsection \<open>\<open>_check_sequence_match\<close>\<close>

text \<open>
  For each mutation slot the code gathers \<open>S\<close> at the slot's positions, which gives
  \<open>S_check\<close> of shape \<open>(B, 1)\<close>, and subtracts \<open>wt[..., mut_idx]\<close> of shape \<open>(B)\<close>.
  Broadcasting makes the difference a \<open>(B, B)\<close> matrix with entry \<open>(i, j)\<close> equal to
  \<open>S_check[i] - wt[j]\<close>; the test is whether the sum of all its entries is nonzero.
  Only then are the wild-type values scattered into \<open>S\<close>.
\<close>

definition broadcast_diff_sum :: "int64 list \<Rightarrow> int64 list \<Rightarrow> int64" where
  "broadcast_diff_sum S_check wtcol =
     sum_list (concat (map (\<lambda>s. map (\<lambda>w. s - w) wtcol) S_check))"

fun check_loop :: "idx2 \<Rightarrow> idx2 \<Rightarrow> idx2 \<Rightarrow> nat list \<Rightarrow> error + idx2" where
  "check_loop S wt pos [] = Inr S"
| "check_loop S wt pos (mut_idx # rest) =
     ebind (gather_last S (map (\<lambda>p. [p]) (col pos mut_idx))) (\<lambda>S_check.
       if broadcast_diff_sum (concat S_check) (col wt mut_idx) \<noteq> 0
       then ebind (scatter1 S (col pos mut_idx) (col wt mut_idx)) (\<lambda>S'.
              check_loop S' wt pos rest)
       else check_loop S wt pos rest)"

definition check_sequence_match :: "idx2 \<Rightarrow> idx2 \<Rightarrow> idx2 \<Rightarrow> idx2 \<Rightarrow> error + idx2" where
  "check_sequence_match S wt mut pos = check_loop S wt pos [0..<ncols wt]"

subsection \<open>Floating-point values\<close>

text \<open>
  IEEE arithmetic on the extended values: NaN propagates, opposite infinities cancel to
  NaN, zero times infinity is NaN, and \<open>0 / 0\<close> is NaN.
\<close>

fun fadd :: "fl \<Rightarrow> fl \<Rightarrow> fl" where
  "fadd NaN y = NaN"
| "fadd x NaN = NaN"
| "fadd PInf NInf = NaN"
| "fadd NInf PInf = NaN"
| "fadd PInf y = PInf"
| "fadd x PInf = PInf"
| "fadd NInf y = NInf"
| "fadd x NInf = NInf"
| "fadd (Fin a) (Fin b) = Fin (a + b)"

fun fneg :: "fl \<Rightarrow> fl" where
  "fneg NaN = NaN"
| "fneg PInf = NInf"
| "fneg NInf = PInf"
| "fneg (Fin a) = Fin (- a)"

definition fsub :: "fl \<Rightarrow> fl \<Rightarrow> fl" where
  "fsub x y = fadd x (fneg y)"

definition signed_inf :: "bool \<Rightarrow> fl" where
  "signed_inf positive = (if positive then PInf else NInf)"

fun fmul :: "fl \<Rightarrow> fl \<Rightarrow> fl" where
  "fmul NaN y = NaN"
| "fmul x NaN = NaN"
| "fmul (Fin a) (Fin b) = Fin (a * b)"
| "fmul (Fin a) PInf = (if a = 0 then NaN else signed_inf (0 < a))"
| "fmul (Fin a) NInf = (if a = 0 then NaN else signed_inf (a < 0))"
| "fmul PInf (Fin b) = (if b = 0 then NaN else signed_inf (0 < b))"
| "fmul NInf (Fin b) = (if b = 0 then NaN else signed_inf (b < 0))"
| "fmul PInf PInf = PInf"
| "fmul NInf NInf = PInf"
| "fmul PInf NInf = NInf"
| "fmul NInf PInf = NInf"

fun fdiv :: "fl \<Rightarrow> fl \<Rightarrow> fl" where
  "fdiv NaN y = NaN"
| "fdiv x NaN = NaN"
| "fdiv (Fin a) (Fin b) =
     (if b = 0 then (if a = 0 then NaN else signed_inf (0 < a)) else Fin (a / b))"
| "fdiv (Fin a) PInf = Fin 0"
| "fdiv (Fin a) NInf = Fin 0"
| "fdiv PInf (Fin b) = signed_inf (0 \<le> b)"
| "fdiv NInf (Fin b) = signed_inf (b < 0)"
| "fdiv PInf PInf = NaN"
| "fdiv PInf NInf = NaN"
| "fdiv NInf PInf = NaN"
| "fdiv NInf NInf = NaN"

text \<open>\<open>torch.max\<close> propagates NaN.\<close>

fun fmax :: "fl \<Rightarrow> fl \<Rightarrow> fl" where
  "fmax NaN y = NaN"
| "fmax x NaN = NaN"
| "fmax PInf y = PInf"
| "fmax x PInf = PInf"
| "fmax NInf y = y"
| "fmax x NInf = x"
| "fmax (Fin a) (Fin b) = Fin (max a b)"

text \<open>
  \<open>torch.nan_to_num(x, nan=0)\<close>: NaN becomes 0 and, since \<open>posinf\<close> and \<open>neginf\<close>
  are left at their defaults, the infinities become the largest and the smallest finite
  value of the tensor's type (single precision is torch's default).
\<close>

definition FLT_MAX :: real where
  "FLT_MAX = 340282346638528859811704183484516925440"

fun nan_to_num :: "fl \<Rightarrow> fl" where
  "nan_to_num NaN = Fin 0"
| "nan_to_num PInf = Fin FLT_MAX"
| "nan_to_num NInf = Fin (- FLT_MAX)"
| "nan_to_num (Fin a) = Fin a"

subsection \<open>Reductions along the last axis\<close>

definition torch_sum :: "fl list \<Rightarrow> fl" where
  "torch_sum xs = foldl fadd (Fin 0) xs"

definition torch_prod :: "fl list \<Rightarrow> fl" where
  "torch_prod xs = foldl fmul (Fin 1) xs"

definition torch_mean :: "fl list \<Rightarrow> fl" where
  "torch_mean xs = fdiv (torch_sum xs) (Fin (real (length xs)))"

text \<open>\<open>torch.max(t, dim)\<close> raises on an axis of size zero.\<close>

definition torch_max :: "fl list \<Rightarrow> error + fl" where
  "torch_max xs = (case xs of [] \<Rightarrow> Inl IndexError | x # rest \<Rightarrow> Inr (foldl fmax x rest))"

text \<open>
  \<open>torch.nanmean\<close> is \<open>nansum\<close> divided by the number of entries that are not NaN;
  \<open>nansum\<close> adds the entries with every NaN read as zero.
\<close>

definition torch_nansum :: "fl list \<Rightarrow> fl" where
  "torch_nansum xs = torch_sum (map (\<lambda>x. if x = NaN then Fin 0 else x) xs)"

definition torch_nanmean :: "fl list \<Rightarrow> fl" where
  "torch_nanmean xs = fdiv (torch_nansum xs) (Fin (real (length (filter (\<lambda>x. x \<noteq> NaN) xs))))"

text \<open>
  \<open>torch.stack\<close> and \<open>torch.cat\<close> raise on an empty list. A stacked tensor that the
  code only ever slices again along the new axis is kept as the list of its slices.
\<close>

definition torch_stack :: "'a list \<Rightarrow> error + 'a list" where
  "torch_stack ts = (if ts = [] then Inl EmptyStackError else Inr ts)"

definition nth_err :: "'a list \<Rightarrow> nat \<Rightarrow> error + 'a" where
  "nth_err xs i = (if i < length xs then Inr (xs ! i) else Inl IndexError)"

text \<open>\<open>torch.cat([a, b], -1)\<close> on matrices and on rank-3 tensors of equal leading shape.\<close>

definition cat2 :: "'a list list \<Rightarrow> 'a list list \<Rightarrow> 'a list list" where
  "cat2 a b = map (\<lambda>(x, y). x @ y) (zip a b)"

definition cat3 :: "'a list list list \<Rightarrow> 'a list list list \<Rightarrow> 'a list list list" where
  "cat3 a b = map (\<lambda>(x, y). cat2 x y) (zip a b)"

definition cat3_list :: "'a list list list list \<Rightarrow> error + 'a list list list" where
  "cat3_list ts = (case ts of [] \<Rightarrow> Inl EmptyStackError | t # rest \<Rightarrow> Inr (foldl cat3 t rest))"

subsection \<open>Configuration and \<open>__init__\<close>\<close>

text \<open>
  The fields of \<open>cfg.model\<close> that \<open>v2_model.py\<close> reads. Flags are read for their truth
  value only. \<open>dist_flag\<close> is \<open>cfg.model.dist\<close>. Of \<open>__init__\<close> the development
  keeps what the properties need: the flag \<open>multi_mutations\<close>, the dimensions, and the
  list of layers of the head; building the networks themselves is left to torch.
\<close>

record cfg =
  aggregation :: "string option"
  num_final_layers :: int
  hidden_dims :: "int list"
  dropout :: "real option"
  mutant_embedding :: bool
  edges :: bool
  dist_flag :: bool
  side_chain_module :: bool
  lightattn :: bool
  auxiliary_embedding :: "string option"
  subtract_mut :: bool
  single_target :: bool

definition multi_mutations :: "cfg \<Rightarrow> bool" where
  "multi_mutations c = (if aggregation c \<noteq> None then True else False)"

definition set_model_dims :: "cfg \<Rightarrow> int \<times> int \<times> int" where
  "set_model_dims c =
     (let EMBED_DIM = 128;
          EMBED_DIM = (if mutant_embedding c then EMBED_DIM + 128 else EMBED_DIM);
          EMBED_DIM = (if edges c then EMBED_DIM + 128
                       else if dist_flag c then EMBED_DIM + 25 else EMBED_DIM);
          EMBED_DIM = (if side_chain_module c then EMBED_DIM + 128 else EMBED_DIM);
          EMBED_DIM = (if auxiliary_embedding c = Some ''globalMPNN'' then EMBED_DIM + 128
                       else if auxiliary_embedding c = Some ''localESM'' then EMBED_DIM + 320
                       else EMBED_DIM);
          HIDDEN_DIM = 128;
          VOCAB_DIM = (if \<not> single_target c then 21 else 1)
      in (HIDDEN_DIM, EMBED_DIM, VOCAB_DIM))"

definition hid_sizes :: "cfg \<Rightarrow> int list" where
  "hid_sizes c =
     (case set_model_dims c of (HIDDEN_DIM, EMBED_DIM, VOCAB_DIM) \<Rightarrow>
        [HIDDEN_DIM * num_final_layers c + EMBED_DIM] @ hidden_dims c @ [VOCAB_DIM])"

text \<open>The layers that \<open>__init__\<close> appends to \<open>self.ddg_out\<close>, in order.\<close>

datatype layer = LayerNorm int | Dropout real | ReLU | Linear int int

definition ddg_out_layers :: "cfg \<Rightarrow> layer list" where
  "ddg_out_layers c =
     (case set_model_dims c of (HIDDEN_DIM, EMBED_DIM, VOCAB_DIM) \<Rightarrow>
        (if multi_mutations c then [LayerNorm (HIDDEN_DIM * num_final_layers c + EMBED_DIM)] else [])
        @ concat (map (\<lambda>(sz1, sz2).
                    (case dropout c of None \<Rightarrow> [] | Some drop_p \<Rightarrow> [Dropout drop_p])
                    @ [ReLU, Linear sz1 sz2])
                  (zip (hid_sizes c) (tl (hid_sizes c)))))"

subsection \<open>External networks and the arguments of \<open>forward\<close>\<close>

text \<open>
  The networks the model owns, as functions of their tensor arguments. \<open>prot_mpnn\<close>
  returns the hidden states of each layer, the sequence embedding and the edge features
  (its third output is discarded by the code). \<open>aggregator_mlp\<close> is
  \<open>self.aggregator[0:2]\<close>; \<open>self.aggregator[-1]\<close> is called with three arguments on
  single-mutant batches (\<open>aggregator_mpnn_masked\<close>) and with an embedding and a list of
  embeddings otherwise (\<open>aggregator_mpnn\<close>).

  Two pieces of floating-point geometry of the source are kept abstract as well:
  \<open>dist_topk\<close> is the index tensor \<open>E_idx\<close> returned by \<open>_dist\<close> (square roots and
  a top-k selection), and \<open>pair_dist t m\<close> is the distance
  \<open>sqrt(sum((t - m) ** 2, -1) + 1e-6)\<close> between two atoms.
\<close>

record nets =
  prot_mpnn :: "ten4 \<Rightarrow> idx2 \<Rightarrow> mat \<Rightarrow> mat \<Rightarrow> idx2 \<Rightarrow> idx2 \<Rightarrow> ten3 list \<times> ten3 \<times> ten4"
  W_s :: "int64 list \<Rightarrow> mat"
  side_chain_features :: "ten4 \<Rightarrow> idx2 \<Rightarrow> mat \<Rightarrow> mat \<Rightarrow> idx2 \<Rightarrow> idx2 \<Rightarrow> ten3 \<Rightarrow> ten3 \<Rightarrow> ten3"
  light_attention :: "ten3 \<Rightarrow> mat"
  dist_norm :: "mat \<Rightarrow> mat"
  aggregator_mlp :: "mat \<Rightarrow> mat"
  aggregator_mpnn_masked :: "mat \<Rightarrow> mat \<Rightarrow> mat \<Rightarrow> mat"
  aggregator_mpnn :: "mat \<Rightarrow> mat list \<Rightarrow> mat"
  ddg_out :: "mat \<Rightarrow> mat"
  dist_topk :: "mat list \<Rightarrow> mat \<Rightarrow> int64 list list list"
  pair_dist :: "vec \<Rightarrow> vec \<Rightarrow> fl"

text \<open>
  The arguments of \<open>forward\<close>. \<open>X_arg\<close>, \<open>S_arg\<close> and \<open>mask_arg\<close> are the
  parameters \<open>X\<close>, \<open>S\<close> and \<open>mask\<close>; \<open>esm_emb\<close> defaults to \<open>None\<close>.
\<close>

record inputs =
  X_arg :: ten4
  S_arg :: idx2
  mask_arg :: mat
  chain_M :: mat
  residue_idx :: idx2
  chain_encoding_all :: idx2
  mut_positions :: idx2
  mut_wildtype_AAs :: idx2
  mut_mutant_AAs :: idx2
  mut_ddGs :: mat
  atom_mask :: ten3
  esm_emb :: "ten3 option"

subsection \<open>\<open>_get_cbeta\<close>\<close>

definition cross :: "vec \<Rightarrow> vec \<Rightarrow> vec" where
  "cross b c =
     [fsub (fmul (b ! 1) (c ! 2)) (fmul (b ! 2) (c ! 1)),
      fsub (fmul (b ! 2) (c ! 0)) (fmul (b ! 0) (c ! 2)),
      fsub (fmul (b ! 0) (c ! 1)) (fmul (b ! 1) (c ! 0))]"

definition get_cbeta :: "ten4 \<Rightarrow> ten4" where
  "get_cbeta X =
     map (map (\<lambda>r.
       let b = map (\<lambda>(u, v). fsub u v) (zip (r ! 1) (r ! 0));
           c = map (\<lambda>(u, v). fsub u v) (zip (r ! 2) (r ! 1));
           a = cross b c;
           Cb = map (\<lambda>k.
                  fadd (fsub (fadd (fmul (Fin (- 0.58273431)) (a ! k))
                                   (fmul (Fin 0.56802827) (b ! k)))
                             (fmul (Fin 0.54067466) (c ! k)))
                       (r ! 1 ! k))
                [0..<length (r ! 1)]
       in Cb # r)) X"

subsection \<open>Gathering at the mutated positions\<close>

text \<open>
  \<open>torch.gather(mpnn_embed, 1, index)\<close> with \<open>index\<close> the position column expanded
  to shape \<open>(B, 1, E)\<close>, then \<open>torch.squeeze(_, 1)\<close>. Entry \<open>[b][0][e]\<close> of the gather
  is \<open>mpnn_embed[b][index[b][0][e]][e]\<close>, and every entry of \<open>index[b][0]\<close> is the
  position of batch element \<open>b\<close>.
\<close>

definition gather_embed :: "'a list list list \<Rightarrow> int64 list \<Rightarrow> error + 'a list list" where
  "gather_embed mpnn_embed current_positions =
     mapM (\<lambda>(m, p). mapM (\<lambda>e. ebind (index_at m p) (\<lambda>row. Inr (row ! e)))
                          [0..<size2 mpnn_embed])
          (zip mpnn_embed current_positions)"

text \<open>
  \<open>torch.squeeze(batched_index_select(input, 1, mut_positions[:, n:n+1]), 1)\<close>: the
  index is expanded over all trailing axes, so the result holds, for each batch element,
  the whole slice of \<open>input\<close> at that element's position.
\<close>

definition batched_index_select :: "'a list list \<Rightarrow> int64 list \<Rightarrow> error + 'a list" where
  "batched_index_select input index = mapM (\<lambda>(m, p). index_at m p) (zip input index)"

subsection \<open>Edge features between mutated residues\<close>

text \<open>
  \<open>torch.where(E_idx_tmp[b, :] == mut_positions[b, n_o])\<close> lists the matching neighbour
  slots in increasing order; the code takes the first.
\<close>

definition first_match :: "int64 list \<Rightarrow> int64 \<Rightarrow> nat option" where
  "first_match E_row p =
     (case filter (\<lambda>k. E_row ! k = p) [0..<length E_row] of [] \<Rightarrow> None | k # _ \<Rightarrow> Some k)"

definition edge_to :: "mat \<Rightarrow> int64 list \<Rightarrow> int64 \<Rightarrow> error + vec" where
  "edge_to edges_b E_row p =
     (case first_match E_row p of
        None \<Rightarrow> Inr (replicate (ncols edges_b) NaN)
      | Some k \<Rightarrow> nth_err edges_b k)"

text \<open>
  For one batch element and the current slot: one edge per other slot, stacked along a
  new last axis, averaged over that axis with \<open>nanmean\<close>, then \<open>nan_to_num\<close>.
\<close>

definition sample_edge :: "mat \<Rightarrow> int64 list \<Rightarrow> int64 list \<Rightarrow> nat \<Rightarrow> error + vec" where
  "sample_edge edges_b E_row pos_row n_current =
     (let n_other = filter (\<lambda>a. a \<noteq> n_current) [0..<length pos_row] in
      ebind (mapM (\<lambda>n_o. edge_to edges_b E_row (pos_row ! n_o)) n_other) (\<lambda>tmp_edges.
        case tmp_edges of
          [] \<Rightarrow> Inl EmptyStackError
        | v # _ \<Rightarrow>
            Inr (map (\<lambda>ch. nan_to_num (torch_nanmean (map (\<lambda>u. u ! ch) tmp_edges)))
                     [0..<length v])))"

definition edges_for_slot ::
  "ten4 \<Rightarrow> int64 list list list \<Rightarrow> idx2 \<Rightarrow> nat \<Rightarrow> error + mat" where
  "edges_for_slot mpnn_edges E_idx pos n_current =
     ebind (batched_index_select mpnn_edges (col pos n_current)) (\<lambda>mpnn_edges_tmp.
     ebind (batched_index_select E_idx (col pos n_current)) (\<lambda>E_idx_tmp.
     ebind (mapM (\<lambda>b. sample_edge (mpnn_edges_tmp ! b) (E_idx_tmp ! b) (pos ! b) n_current)
                 [0..<length E_idx_tmp])
           torch_stack))"

definition multi_edges :: "ten4 \<Rightarrow> int64 list list list \<Rightarrow> idx2 \<Rightarrow> error + mat list" where
  "multi_edges mpnn_edges E_idx pos =
     ebind (mapM (edges_for_slot mpnn_edges E_idx pos) [0..<ncols pos]) torch_stack"

subsection \<open>Distance features between mutated residues\<close>

text \<open>
  For every ordered pair of distinct slots, the distances between every atom of the
  target residue and every atom of the other residue; the mean over the singleton axis
  left by the index select; one entry appended per pair.
\<close>

definition pair_feats :: "(vec \<Rightarrow> vec \<Rightarrow> fl) \<Rightarrow> mat \<Rightarrow> mat \<Rightarrow> vec" where
  "pair_feats pd target match_res =
     concat (map (\<lambda>a. map (\<lambda>b. torch_mean [pd a b]) match_res) target)"

definition multi_dist :: "(vec \<Rightarrow> vec \<Rightarrow> fl) \<Rightarrow> ten4 \<Rightarrow> idx2 \<Rightarrow> error + mat list" where
  "multi_dist pd X pos =
     (let n_mutations = [0..<ncols pos] in
      ebind (mapM (\<lambda>n_current.
               ebind (batched_index_select X (col pos n_current)) (\<lambda>target.
                 mapM (\<lambda>n_o.
                        ebind (batched_index_select X (col pos n_o)) (\<lambda>match_res.
                          Inr (map (\<lambda>(t, m). pair_feats pd t m) (zip target match_res))))
                      (filter (\<lambda>a. a \<noteq> n_current) n_mutations)))
             n_mutations)
        (\<lambda>per_slot. torch_stack (concat per_slot)))"

subsection \<open>Padding mask and aggregation\<close>

text \<open>\<open>mask = (mut_mutant_AAs + mut_wildtype_AAs + mut_positions) == 0\<close>, of shape \<open>(B, N)\<close>.\<close>

definition padding_mask :: "idx2 \<Rightarrow> idx2 \<Rightarrow> idx2 \<Rightarrow> bool list list" where
  "padding_mask mut wt pos =
     map (\<lambda>(m, w, p). map (\<lambda>(a, b, c). a + b + c = 0) (zip m (zip w p)))
         (zip mut (zip wt pos))"

text \<open>
  \<open>assert(torch.sum(mask[:, 0]) == 0)\<close>: the number of batch elements whose first slot
  is masked must be zero. Indexing column 0 of a mask without columns raises.
\<close>

definition assert_first_visible :: "bool list list \<Rightarrow> error + unit" where
  "assert_first_visible pad_mask =
     (if ncols pad_mask = 0 then Inl IndexError
      else if length (filter (\<lambda>x. x) (col pad_mask 0)) = 0 then Inr ()
      else Inl AssertionError)"

text \<open>
  \<open>torch.stack(all_mpnn_embed, dim=-1)\<close> of \<open>N\<close> matrices of shape \<open>(B, E)\<close> has shape
  \<open>(B, E, N)\<close>. The mask is repeated along the embedding axis, so the assignment
  \<open>all_mpnn_embed[mask] = v\<close> overwrites entry \<open>[b][e][n]\<close> exactly when
  \<open>mask[b][n]\<close> holds.
\<close>

definition stack_last :: "'a list list list \<Rightarrow> error + 'a list list list" where
  "stack_last ts =
     (case ts of
        [] \<Rightarrow> Inl EmptyStackError
      | t # _ \<Rightarrow>
          Inr (map (\<lambda>b. map (\<lambda>e. map (\<lambda>u. u ! b ! e) ts) [0..<length (t ! b)])
                   [0..<length t]))"

definition mask_fill :: "bool list list \<Rightarrow> 'a list list list \<Rightarrow> 'a \<Rightarrow> 'a list list list" where
  "mask_fill pad_mask t v =
     map (\<lambda>(mrow, m). map (\<lambda>r. map (\<lambda>(msk, x). if msk then v else x) (zip mrow r)) m)
         (zip pad_mask t)"

text \<open>The non-learned aggregations: lines 287 to 300 of the source.\<close>

definition aggregate :: "string option \<Rightarrow> bool list list \<Rightarrow> ten3 \<Rightarrow> error + mat" where
  "aggregate agg pad_mask all_mpnn_embed =
     (if agg = Some ''mean'' then
        Inr (map (map torch_nanmean) (mask_fill pad_mask all_mpnn_embed NaN))
      else if agg = Some ''sum'' then
        Inr (map (map torch_sum) (mask_fill pad_mask all_mpnn_embed (Fin 0)))
      else if agg = Some ''prod'' then
        Inr (map (map torch_prod) (mask_fill pad_mask all_mpnn_embed (Fin 1)))
      else if agg = Some ''max'' then
        mapM (mapM torch_max) (mask_fill pad_mask all_mpnn_embed NInf)
      else Inl ValueError)"

text \<open>
  The branch for every aggregation other than \<open>'mpnn'\<close>: each slot's embedding goes
  through LightAttention (an attribute that exists only when \<open>cfg.model.lightattn\<close> is
  set), the results are stacked, the first slot is asserted visible, and the
  aggregation is dispatched.
\<close>

definition unsqueeze_last :: "'a list list \<Rightarrow> 'a list list list" where
  "unsqueeze_last t = map (map (\<lambda>x. [x])) t"

definition light_attention_all :: "cfg \<Rightarrow> nets \<Rightarrow> mat list \<Rightarrow> error + mat list" where
  "light_attention_all c n all_mpnn_embed =
     mapM (\<lambda>emb. if lightattn c then Inr (light_attention n (unsqueeze_last emb))
                  else Inl AttributeError)
          all_mpnn_embed"

definition nonlearned :: "cfg \<Rightarrow> nets \<Rightarrow> mat list \<Rightarrow> idx2 \<Rightarrow> idx2 \<Rightarrow> idx2 \<Rightarrow> error + mat" where
  "nonlearned c n all_mpnn_embed mut wt pos =
     ebind (light_attention_all c n all_mpnn_embed) (\<lambda>embs.
     ebind (stack_last embs) (\<lambda>stacked.
     let pad_mask = padding_mask mut wt pos in
     ebind (assert_first_visible pad_mask) (\<lambda>_.
     aggregate (aggregation c) pad_mask stacked)))"

text \<open>The branch for \<open>'mpnn'\<close>: the learned aggregator, then a masked maximum.\<close>

definition message_size :: "cfg \<Rightarrow> int" where
  "message_size c = hd (hid_sizes c)"

definition learned :: "cfg \<Rightarrow> nets \<Rightarrow> mat list \<Rightarrow> idx2 \<Rightarrow> idx2 \<Rightarrow> idx2 \<Rightarrow> error + mat" where
  "learned c n all_mpnn_embed mut wt pos =
     (let pad_mask = padding_mask mut wt pos in
      ebind (assert_first_visible pad_mask) (\<lambda>_.
      ebind (if ncols pad_mask = 1 then
               (case all_mpnn_embed of
                  [] \<Rightarrow> Inl IndexError
                | e0 # rest \<Rightarrow>
                    let e1 = aggregator_mlp n e0;
                        zeros = map (\<lambda>_. replicate (nat (message_size c)) (Fin 0)) pad_mask
                    in Inr (aggregator_mpnn_masked n e1 e1 zeros # rest))
             else
               (let embs = map (aggregator_mlp n) all_mpnn_embed
                in Inr (map (\<lambda>i. aggregator_mpnn n (embs ! i)
                                     (map (\<lambda>ia. embs ! ia)
                                          (filter (\<lambda>ia. ia \<noteq> i) [0..<length embs])))
                            [0..<length embs])))
        (\<lambda>embs.
      ebind (stack_last embs) (\<lambda>stacked.
      mapM (mapM torch_max) (mask_fill pad_mask stacked NInf)))))"

subsection \<open>The multi-mutation path\<close>

text \<open>
  The local variable \<open>mpnn_edges\<close> holds the backbone's rank-4 edge tensor until the
  edge block replaces it by the stacked per-slot features; \<open>mut_embed\<close> and
  \<open>dX_all_agg\<close> are bound only inside \<open>if num_final_layers > 0\<close>.
\<close>

datatype edge_state = RawEdges ten4 | StackedEdges "mat list"

definition multi_features ::
  "cfg \<Rightarrow> nets \<Rightarrow> ten4 \<Rightarrow> mat \<Rightarrow> idx2 \<Rightarrow> idx2 \<Rightarrow> ten3 list \<Rightarrow> ten3 \<Rightarrow> ten4
     \<Rightarrow> error + (ten3 \<times> mat list option \<times> edge_state \<times> mat list option)" where
  "multi_features c n X res_mask mut pos all_mpnn_hid mpnn_embed mpnn_edges =
     (if num_final_layers c > 0 then
        ebind (cat3_list (take (nat (num_final_layers c)) all_mpnn_hid)) (\<lambda>hid.
        let mpnn_embed = cat3 hid mpnn_embed in
        ebind (if mutant_embedding c
               then ebind (torch_stack (map (\<lambda>m. W_s n (col mut m)) [0..<ncols mut]))
                          (\<lambda>l. Inr (Some l))
               else Inr None) (\<lambda>mut_embed.
        if edges c then
          ebind (multi_edges mpnn_edges (dist_topk n (map (map (\<lambda>r. r ! 1)) X) res_mask) pos)
                (\<lambda>e. Inr (mpnn_embed, mut_embed, StackedEdges e, None))
        else if dist_flag c then
          ebind (multi_dist (pair_dist n) X pos)
                (\<lambda>d. Inr (mpnn_embed, mut_embed, RawEdges mpnn_edges, Some d))
        else Inr (mpnn_embed, mut_embed, RawEdges mpnn_edges, None)))
      else Inr (mpnn_embed, None, RawEdges mpnn_edges, None))"

text \<open>
  The body of the loop over mutation slots: the gathered row, then the mutant embedding,
  then either the edge features or the normalised distances, then the side-chain row.
  Slicing the rank-4 edge tensor and concatenating it to a matrix raises.
\<close>

definition slot_embed ::
  "cfg \<Rightarrow> nets \<Rightarrow> ten3 \<Rightarrow> mat list option \<Rightarrow> edge_state \<Rightarrow> mat list option \<Rightarrow> ten3 option
     \<Rightarrow> idx2 \<Rightarrow> nat \<Rightarrow> error + mat" where
  "slot_embed c n mpnn_embed mut_embed mpnn_edges dX_all_agg side_chain_embeds pos i =
     (let current_positions = col pos i in
      ebind (gather_embed mpnn_embed current_positions) (\<lambda>gathered_embed.
      ebind (if mutant_embedding c then
               (case mut_embed of
                  None \<Rightarrow> Inl UnboundLocalError
                | Some me \<Rightarrow> ebind (nth_err me i) (\<lambda>m. Inr (cat2 gathered_embed m)))
             else Inr gathered_embed) (\<lambda>gathered_embed.
      ebind (if edges c then
               (case mpnn_edges of
                  RawEdges raw \<Rightarrow> (if i < size2 raw then Inl CatRankError else Inl IndexError)
                | StackedEdges es \<Rightarrow> ebind (nth_err es i) (\<lambda>e. Inr (cat2 gathered_embed e)))
             else if dist_flag c then
               (case dX_all_agg of
                  None \<Rightarrow> Inl UnboundLocalError
                | Some d \<Rightarrow> ebind (nth_err d i) (\<lambda>dx. Inr (cat2 gathered_embed (dist_norm n dx))))
             else Inr gathered_embed) (\<lambda>gathered_embed.
      if side_chain_module c then
        (case side_chain_embeds of
           None \<Rightarrow> Inl UnboundLocalError
         | Some sc \<Rightarrow> ebind (gather_embed sc current_positions)
                        (\<lambda>side_chain_gathered. Inr (cat2 gathered_embed side_chain_gathered)))
      else Inr gathered_embed))))"

definition side_chain_embeds_of ::
  "cfg \<Rightarrow> nets \<Rightarrow> inputs \<Rightarrow> ten4 \<Rightarrow> idx2 \<Rightarrow> ten3 list \<Rightarrow> error + ten3 option" where
  "side_chain_embeds_of c n inp X S all_mpnn_hid =
     (if side_chain_module c then
        ebind (nth_err all_mpnn_hid 0) (\<lambda>h0.
          Inr (Some (side_chain_features n X S (mask_arg inp) (chain_M inp) (residue_idx inp)
                       (chain_encoding_all inp) h0 (atom_mask inp))))
      else Inr None)"

definition multi_slots ::
  "cfg \<Rightarrow> nets \<Rightarrow> inputs \<Rightarrow> ten4 \<Rightarrow> idx2 \<Rightarrow> ten3 list \<Rightarrow> ten3 \<Rightarrow> ten4 \<Rightarrow> error + mat list" where
  "multi_slots c n inp X S all_mpnn_hid mpnn_embed mpnn_edges =
     ebind (side_chain_embeds_of c n inp X S all_mpnn_hid) (\<lambda>side_chain_embeds.
     ebind (multi_features c n X (mask_arg inp) (mut_mutant_AAs inp) (mut_positions inp)
              all_mpnn_hid mpnn_embed mpnn_edges)
       (\<lambda>(mpnn_embed, mut_embed, mpnn_edges, dX_all_agg).
     mapM (slot_embed c n mpnn_embed mut_embed mpnn_edges dX_all_agg side_chain_embeds
             (mut_positions inp))
          [0..<ncols (mut_mutant_AAs inp)]))"

definition forward_multi ::
  "cfg \<Rightarrow> nets \<Rightarrow> inputs \<Rightarrow> ten4 \<Rightarrow> idx2 \<Rightarrow> ten3 list \<Rightarrow> ten3 \<Rightarrow> ten4 \<Rightarrow> error + mat" where
  "forward_multi c n inp X S all_mpnn_hid mpnn_embed mpnn_edges =
     ebind (multi_slots c n inp X S all_mpnn_hid mpnn_embed mpnn_edges) (\<lambda>all_mpnn_embed.
     if aggregation c = Some ''mpnn''
     then learned c n all_mpnn_embed (mut_mutant_AAs inp) (mut_wildtype_AAs inp) (mut_positions inp)
     else nonlearned c n all_mpnn_embed (mut_mutant_AAs inp) (mut_wildtype_AAs inp)
            (mut_positions inp))"

subsection \<open>The single-mutation path\<close>

text \<open>
  \<open>torch.gather(mpnn_embed, 1, index)\<close> with \<open>index\<close> the whole position tensor
  expanded to shape \<open>(B, N, E)\<close>, then \<open>torch.squeeze(_, 1)\<close>, which removes the
  middle axis when \<open>N = 1\<close>, the shape the source's comment gives.
\<close>

definition gather_all :: "'a list list list \<Rightarrow> idx2 \<Rightarrow> error + 'a list list list" where
  "gather_all mpnn_embed pos =
     mapM (\<lambda>(m, ps). mapM (\<lambda>p. mapM (\<lambda>e. ebind (index_at m p) (\<lambda>row. Inr (row ! e)))
                                       [0..<size2 mpnn_embed]) ps)
          (zip mpnn_embed pos)"

definition squeeze1 :: "'a list list list \<Rightarrow> error + 'a list list" where
  "squeeze1 t = (if \<forall>m \<in> set t. length m = 1 then Inr (map hd t) else Inl Unmodelled)"

text \<open>
  The list \<open>embeds_all\<close> and its concatenation. \<open>W_s\<close> maps the \<open>B\<close> mutant amino
  acids to a matrix, which \<open>torch.cat\<close> cannot join to rank-3 tensors. The result also
  carries \<open>all_mpnn_hid\<close> as the code leaves it: the concatenated tensor, or still the
  Python list (\<open>None\<close> here).
\<close>

definition single_embeds ::
  "cfg \<Rightarrow> ten3 list \<Rightarrow> ten3 \<Rightarrow> ten4 \<Rightarrow> ten3 option \<Rightarrow> error + (ten3 option \<times> ten3)" where
  "single_embeds c all_mpnn_hid mpnn_embed mpnn_edges side_chain_embeds =
     (if num_final_layers c > 0 then
        ebind (cat3_list (take (nat (num_final_layers c)) all_mpnn_hid)) (\<lambda>hid.
        ebind (if edges c then
                 (if size2 mpnn_edges = 0 then Inl IndexError
                  else Inr [map (map (\<lambda>ks. ks ! 0)) mpnn_edges])
               else Inr []) (\<lambda>edge_part.
        if mutant_embedding c then Inl CatRankError
        else Inr (Some hid,
                  foldl cat3 hid ([mpnn_embed] @ edge_part
                     @ (case side_chain_embeds of None \<Rightarrow> [] | Some sc \<Rightarrow> [sc])))))
      else Inr (None, mpnn_embed))"

text \<open>The masked mean over residues of the first 128 hidden channels.\<close>

definition global_mean :: "ten3 \<Rightarrow> mat" where
  "global_mean hid =
     (let global_embed = map (map (take 128)) hid in
      map (\<lambda>m. map (\<lambda>k.
                 fdiv (torch_sum (map (\<lambda>row. fmul (row ! k)
                                          (if row ! k \<noteq> Fin 0 then Fin 1 else Fin 0)) m))
                      (Fin (real (length (filter (\<lambda>row. row ! k \<noteq> Fin 0) m)))))
               [0..<size2 global_embed])
          global_embed)"

definition forward_single ::
  "cfg \<Rightarrow> nets \<Rightarrow> inputs \<Rightarrow> ten4 \<Rightarrow> idx2 \<Rightarrow> ten3 list \<Rightarrow> ten3 \<Rightarrow> ten4 \<Rightarrow> error + mat" where
  "forward_single c n inp X S all_mpnn_hid mpnn_embed mpnn_edges =
     ebind (side_chain_embeds_of c n inp X S all_mpnn_hid) (\<lambda>side_chain_embeds.
     ebind (single_embeds c all_mpnn_hid mpnn_embed mpnn_edges side_chain_embeds)
       (\<lambda>(hid, mpnn_embed).
     ebind (gather_all mpnn_embed (mut_positions inp)) (\<lambda>gathered.
     ebind (squeeze1 gathered) (\<lambda>mpnn_embed.
     ebind (if auxiliary_embedding c = Some ''globalMPNN'' then
              (case hid of
                 None \<Rightarrow> Inl TypeError
               | Some h \<Rightarrow> Inr (cat2 mpnn_embed (global_mean h)))
            else Inr mpnn_embed) (\<lambda>mpnn_embed.
     ebind (if auxiliary_embedding c = Some ''localESM'' then
              (case esm_emb inp of
                 None \<Rightarrow> Inl AttributeError
               | Some esm \<Rightarrow>
                   ebind (gather_all esm (mut_positions inp)) (\<lambda>g.
                   ebind (squeeze1 g) (\<lambda>esm_row. Inr (cat2 mpnn_embed esm_row))))
            else Inr mpnn_embed) (\<lambda>mpnn_embed.
     if lightattn c then Inr (light_attention n (unsqueeze_last mpnn_embed))
     else Inr mpnn_embed))))))"

subsection \<open>Indexing the head's output, and \<open>forward\<close>\<close>

definition index_ddg :: "cfg \<Rightarrow> mat \<Rightarrow> idx2 \<Rightarrow> idx2 \<Rightarrow> error + mat" where
  "index_ddg c ddg mut wt =
     (if subtract_mut c then
        ebind (gather_last ddg mut) (\<lambda>at_mut.
        ebind (gather_last ddg wt) (\<lambda>at_wt.
        Inr (map (\<lambda>(x, y). map (\<lambda>(u, v). fsub u v) (zip x y)) (zip at_mut at_wt))))
      else if single_target c then Inr ddg
      else gather_last ddg mut)"

text \<open>
  The start of \<open>forward\<close>: the sequence check (multi-mutation mode only),
  \<open>nan_to_num\<close> on the coordinates, the backbone (on the first four atoms when the
  side-chain module is on), and the virtual C-beta when distances are on. It yields the
  values of \<open>X\<close>, \<open>S\<close>, \<open>all_mpnn_hid\<close>, \<open>mpnn_embed\<close> and \<open>mpnn_edges\<close> with
  which the two paths start.
\<close>

definition backbone ::
  "cfg \<Rightarrow> nets \<Rightarrow> inputs \<Rightarrow> error + (ten4 \<times> idx2 \<times> ten3 list \<times> ten3 \<times> ten4)" where
  "backbone c n inp =
     ebind (if multi_mutations c
            then check_sequence_match (S_arg inp) (mut_wildtype_AAs inp) (mut_mutant_AAs inp)
                   (mut_positions inp)
            else Inr (S_arg inp)) (\<lambda>S.
     let X = map (map (map (map nan_to_num))) (X_arg inp);
         (all_mpnn_hid, mpnn_embed, mpnn_edges) =
           (if side_chain_module c
            then prot_mpnn n (map (map (take 4)) X) S (mask_arg inp) (chain_M inp)
                   (residue_idx inp) (chain_encoding_all inp)
            else prot_mpnn n X S (mask_arg inp) (chain_M inp)
                   (residue_idx inp) (chain_encoding_all inp));
         X = (if dist_flag c then get_cbeta X else X)
     in Inr (X, S, all_mpnn_hid, mpnn_embed, mpnn_edges))"

definition forward :: "cfg \<Rightarrow> nets \<Rightarrow> inputs \<Rightarrow> error + mat" where
  "forward c n inp =
     ebind (backbone c n inp) (\<lambda>(X, S, all_mpnn_hid, mpnn_embed, mpnn_edges).
     ebind (if multi_mutations c
            then forward_multi c n inp X S all_mpnn_hid mpnn_embed mpnn_edges
            else forward_single c n inp X S all_mpnn_hid mpnn_embed mpnn_edges)
       (\<lambda>mpnn_embed.
     index_ddg c (ddg_out n mpnn_embed) (mut_mutant_AAs inp) (mut_wildtype_AAs inp)))"


subsection \<open>Shapes, visible slots, and a small model\<close>

text \<open>
  \<open>is_mat B N t\<close>: the matrix \<open>t\<close> has \<open>B\<close> rows of \<open>N\<close> entries each.
\<close>

definition is_mat :: "nat \<Rightarrow> nat \<Rightarrow> 'a list list \<Rightarrow> bool" where
  "is_mat B N t \<longleftrightarrow> length t = B \<and> (\<forall>r \<in> set t. length r = N)"

text \<open>
  \<open>is_ten3 B L E t\<close>: the tensor \<open>t\<close> has shape \<open>(B, L, E)\<close>; \<open>is_ten4\<close> likewise
  for rank 4.
\<close>

definition is_ten3 :: "nat \<Rightarrow> nat \<Rightarrow> nat \<Rightarrow> 'a list list list \<Rightarrow> bool" where
  "is_ten3 B L E t \<longleftrightarrow> length t = B \<and> (\<forall>m \<in> set t. is_mat L E m)"

definition is_ten4 :: "nat \<Rightarrow> nat \<Rightarrow> nat \<Rightarrow> nat \<Rightarrow> 'a list list list list \<Rightarrow> bool" where
  "is_ten4 B L K C t \<longleftrightarrow> length t = B \<and> (\<forall>m \<in> set t. is_ten3 L K C m)"

text \<open>
  The slots of batch element \<open>b\<close> that are not padding: those where the mutant amino
  acid, the wild-type amino acid and the position do not sum to zero.
\<close>

definition visible_slots :: "idx2 \<Rightarrow> idx2 \<Rightarrow> idx2 \<Rightarrow> nat \<Rightarrow> nat list" where
  "visible_slots mut wt pos b =
     filter (\<lambda>k. mut ! b ! k + wt ! b ! k + pos ! b ! k \<noteq> 0) [0..<length (mut ! b)]"

text \<open>
  The entries of \<open>torch.stack(la, dim=-1)\<close> for a list \<open>la\<close> of matrices of shape
  \<open>(B, E)\<close>.
\<close>

definition stacked_slots :: "mat list \<Rightarrow> nat \<Rightarrow> nat \<Rightarrow> ten3" where
  "stacked_slots la B E =
     map (\<lambda>b. map (\<lambda>e. map (\<lambda>k. la ! k ! b ! e) [0..<length la]) [0..<E]) [0..<B]"

text \<open>
  A configuration, a set of networks and a batch on which the definitions can be run:
  two proteins of three residues, two mutation slots, the second slot of the first
  protein being padding. The backbone returns one hidden layer and an embedding of
  width one each, and two neighbours per residue; LightAttention, the head and the
  other networks pass their input through.
\<close>

definition example_cfg :: cfg where
  "example_cfg =
     \<lparr>aggregation = Some ''mean'', num_final_layers = 1, hidden_dims = [64, 32],
      dropout = None, mutant_embedding = False, edges = False, dist_flag = False,
      side_chain_module = False, lightattn = True, auxiliary_embedding = None,
      subtract_mut = False, single_target = False\<rparr>"

definition example_nets :: nets where
  "example_nets =
     \<lparr>prot_mpnn = (\<lambda>X S m cm ri ce.
        ([[[[Fin 1], [Fin 2], [Fin 3]], [[Fin 4], [Fin 5], [Fin 6]]]],
         [[[Fin 10], [Fin 20], [Fin 30]], [[Fin 40], [Fin 50], [Fin 60]]],
         [[[[Fin 1], [Fin 2]], [[Fin 3], [Fin 4]], [[Fin 5], [Fin 6]]],
          [[[Fin 7], [Fin 8]], [[Fin 9], [Fin 10]], [[Fin 11], [Fin 12]]]])),
      W_s = (\<lambda>aa. map (\<lambda>a. [Fin 0]) aa),
      side_chain_features = (\<lambda>X S m cm ri ce h am. h),
      light_attention = (\<lambda>t. map concat t),
      dist_norm = (\<lambda>m. m),
      aggregator_mlp = (\<lambda>m. m),
      aggregator_mpnn_masked = (\<lambda>a b z. a),
      aggregator_mpnn = (\<lambda>a l. a),
      ddg_out = (\<lambda>m. m),
      dist_topk = (\<lambda>X m. [[[1, 2], [0, 2], [0, 1]], [[1, 2], [0, 2], [0, 1]]]),
      pair_dist = (\<lambda>a b. Fin 1)\<rparr>"

definition example_residue :: mat where
  "example_residue =
     [[Fin 0, Fin 0, Fin 0], [Fin 1, Fin 0, Fin 0], [Fin 1, Fin 1, Fin 0], [Fin 1, Fin 1, Fin 1]]"

definition example_inputs :: inputs where
  "example_inputs =
     \<lparr>X_arg = [[example_residue, example_residue, example_residue],
               [example_residue, example_residue, example_residue]],
      S_arg = [[3, 5, 9], [4, 7, 1]],
      mask_arg = [[Fin 1, Fin 1, Fin 1], [Fin 1, Fin 1, Fin 1]],
      chain_M = [[Fin 1, Fin 1, Fin 1], [Fin 1, Fin 1, Fin 1]],
      residue_idx = [[0, 1, 2], [0, 1, 2]],
      chain_encoding_all = [[1, 1, 1], [1, 1, 1]],
      mut_positions = [[1, 0], [1, 2]],
      mut_wildtype_AAs = [[5, 0], [7, 1]],
      mut_mutant_AAs = [[1, 0], [0, 1]],
      mut_ddGs = [[Fin 0], [Fin 0]],
      atom_mask = [[[Fin 1, Fin 1, Fin 1, Fin 1], [Fin 1, Fin 1, Fin 1, Fin 1],
                    [Fin 1, Fin 1, Fin 1, Fin 1]],
                   [[Fin 1, Fin 1, Fin 1, Fin 1], [Fin 1, Fin 1, Fin 1, Fin 1],
                    [Fin 1, Fin 1, Fin 1, Fin 1]]],
      esm_emb = None\<rparr>"

text \<open>
  The edge feature of one batch element as the claim about it words it: per channel,
  the mean (ignoring NaN, then \<open>nan_to_num\<close>) of the edges from the current mutated
  residue to the other mutated positions that occur among its neighbours \<open>E_row\<close>,
  each edge read at the first neighbour slot that holds the position.
\<close>

definition neighbour_edge_mean :: "mat \<Rightarrow> int64 list \<Rightarrow> int64 list \<Rightarrow> nat \<Rightarrow> vec" where
  "neighbour_edge_mean edges_b E_row pos_row n_current =
     map (\<lambda>ch. nan_to_num (torch_nanmean
             (map (\<lambda>n_o. edges_b ! the (first_match E_row (pos_row ! n_o)) ! ch)
                  (filter (\<lambda>n_o. n_o \<noteq> n_current \<and> pos_row ! n_o \<in> set E_row)
                          [0..<length pos_row]))))
         [0..<ncols edges_b]"

text \<open>
  The embedding of slot \<open>i\<close> for batch element \<open>b\<close> when the edge features are
  enabled, written out entry by entry: the row of the residue embedding at the slot's
  position, the mutant embedding when enabled, the edge feature of the slot, and the
  side-chain row when a side-chain tensor is present. No distance feature occurs in it.
\<close>

definition slot_with_edges ::
  "cfg \<Rightarrow> nets \<Rightarrow> ten3 \<Rightarrow> ten4 \<Rightarrow> int64 list list list \<Rightarrow> ten3 option \<Rightarrow> idx2 \<Rightarrow> idx2
     \<Rightarrow> nat \<Rightarrow> nat \<Rightarrow> vec" where
  "slot_with_edges c n mpnn_embed mpnn_edges E_idx side_chain_embeds mut pos i b =
     (let p = nat (sint (pos ! b ! i)) in
        mpnn_embed ! b ! p
        @ (if mutant_embedding c then W_s n (col mut i) ! b else [])
        @ neighbour_edge_mean (mpnn_edges ! b ! p) (E_idx ! b ! p) (pos ! b) i
        @ (case side_chain_embeds of None \<Rightarrow> [] | Some sc \<Rightarrow> sc ! b ! p))"

text \<open>The list of these slot embeddings, one matrix of shape \<open>(B, _)\<close> per slot.\<close>

definition slots_with_edges ::
  "cfg \<Rightarrow> nets \<Rightarrow> ten3 \<Rightarrow> ten4 \<Rightarrow> int64 list list list \<Rightarrow> ten3 option \<Rightarrow> idx2 \<Rightarrow> idx2
     \<Rightarrow> nat \<Rightarrow> nat \<Rightarrow> mat list" where
  "slots_with_edges c n mpnn_embed mpnn_edges E_idx side_chain_embeds mut pos B N =
     map (\<lambda>i. map (slot_with_edges c n mpnn_embed mpnn_edges E_idx side_chain_embeds mut pos i)
                 [0..<B])
         [0..<N]"

subsection \<open>Which exceptions a stage can raise\<close>

text \<open>
  Two exceptions are raised by the code of \<open>forward\<close> itself at one place each: the
  \<open>AssertionError\<close> of the check on the first slot and the \<open>ValueError\<close> of the
  aggregation dispatch. \<open>benign\<close> holds of every other exception; a result is
  \<open>quiet\<close> when it is a value or a benign exception.
\<close>

definition benign :: "error \<Rightarrow> bool" where
  "benign e \<longleftrightarrow> e \<noteq> AssertionError \<and> e \<noteq> ValueError"

definition quiet :: "error + 'a \<Rightarrow> bool" where
  "quiet m \<longleftrightarrow> (case m of Inl e \<Rightarrow> benign e | Inr x \<Rightarrow> True)"

section \<open>Properties\<close>

subsection \<open>Sequencing of results\<close>

lemma ebind_Inr [simp]: "ebind (Inr x) f = f x"
  by (simp add: ebind_def)

lemma ebind_Inl [simp]: "ebind (Inl e) f = Inl e"
  by (simp add: ebind_def)

lemma ebind_eq_Inr: "ebind m f = Inr y \<longleftrightarrow> (\<exists>x. m = Inr x \<and> f x = Inr y)"
  by (cases m) simp_all

lemma ebind_eq_Inl: "ebind m f = Inl e \<longleftrightarrow> m = Inl e \<or> (\<exists>x. m = Inr x \<and> f x = Inl e)"
  by (cases m) simp_all

lemma mapM_Inr: "(\<And>x. x \<in> set xs \<Longrightarrow> f x = Inr (g x)) \<Longrightarrow> mapM f xs = Inr (map g xs)"
  by (induction xs) simp_all

lemma mapM_Inl: "mapM f xs = Inl e \<Longrightarrow> \<exists>x \<in> set xs. f x = Inl e"
  by (induction xs) (auto simp: ebind_eq_Inl)

lemma mapM_length: "mapM f xs = Inr ys \<Longrightarrow> length ys = length xs"
  by (induction xs arbitrary: ys) (auto simp: ebind_eq_Inr)

lemma mapM_nth: "mapM f xs = Inr ys \<Longrightarrow> i < length xs \<Longrightarrow> f (xs ! i) = Inr (ys ! i)"
proof (induction xs arbitrary: ys i)
  case Nil
  then show ?case by simp
next
  case (Cons x xs)
  then show ?case by (cases i) (auto simp: ebind_eq_Inr)
qed

subsection \<open>The sequence check\<close>

text \<open>
  C8. The docstring of \<open>_check_sequence_match\<close> promises that \<open>S\<close> is adjusted to the
  wild type wherever the two differ, so that afterwards \<open>S[b, pos[b, k]] = wt[b, k]\<close>.
  The test that guards the adjustment is a sum of differences over the whole batch, and
  mismatches of opposite sign cancel. In the batch below the two sequences carry
  amino acids 5 and 7 at position 1 while the wild types given are 7 and 5: the sum is
  zero, \<open>S\<close> is returned unchanged, and it disagrees with the wild type at the mutated
  position of the first batch element.
\<close>

theorem check_sequence_match_cancelling_batch:
  "check_sequence_match [[3, 5, 9], [4, 7, 1]] [[7], [5]] [[2], [2]] [[1], [1]]
     = Inr [[3, 5, 9], [4, 7, 1]]
   \<and> [[3, 5, 9], [4, 7, 1]] ! 0 ! nat (sint (1 :: int64)) \<noteq> (7 :: int64)"
  by (simp add: check_sequence_match_def ncols_def col_def gather_last_def index_at_def
        in_range_def broadcast_diff_sum_def)

subsection \<open>Lists as tensors\<close>

lemma index_at_in_range: "in_range p (length m) \<Longrightarrow> index_at m p = Inr (m ! nat (sint p))"
  by (simp add: index_at_def)

lemma in_range_nat: "in_range p n \<Longrightarrow> nat (sint p) < n"
  unfolding in_range_def by linarith

lemma mapM_Inr_id: "mapM (\<lambda>e. Inr (g e)) xs = Inr (map g xs)"
  by (rule mapM_Inr) simp

lemma all_less_2: "(\<forall>b<(2::nat). P b) \<longleftrightarrow> P 0 \<and> P (Suc 0)"
  by (auto simp: less_2_cases_iff)

lemma map_zip_nth:
  "length ys = length xs \<Longrightarrow> map f (zip xs ys) = map (\<lambda>b. f (xs ! b, ys ! b)) [0..<length xs]"
  by (rule nth_equalityI) simp_all

subsection \<open>The gather at the mutated position\<close>

lemma gather_one_row:
  assumes "in_range p (length m)" and "\<forall>row\<in>set m. length row = E"
  shows "mapM (\<lambda>e. ebind (index_at m p) (\<lambda>row. Inr (row ! e))) [0..<E] = Inr (m ! nat (sint p))"
proof -
  have "m ! nat (sint p) \<in> set m"
    using assms(1) by (simp add: in_range_nat)
  then have "length (m ! nat (sint p)) = E"
    using assms(2) by blast
  then have "map (\<lambda>e. m ! nat (sint p) ! e) [0..<E] = m ! nat (sint p)"
    by (metis map_nth)
  then show ?thesis
    using assms(1) by (simp add: index_at_in_range mapM_Inr_id)
qed

text \<open>
  C2. Let \<open>emb\<close> be the per-residue embedding tensor, of shape \<open>(B, L, E)\<close>, and
  \<open>pos\<close> the position tensor, one row per batch element. In the multi-mutation loop,
  when the positions of slot \<open>i\<close> are valid residue indices, the gather and squeeze
  return for every batch element \<open>b\<close> the row \<open>emb[b, pos[b, i], :]\<close>. On the
  single-mutation path, where \<open>pos\<close> has one column, the gather over the whole position
  tensor followed by the squeeze returns the rows \<open>emb[b, pos[b, 0], :]\<close>. When none
  of the optional per-mutation features is enabled, the gathered row is the whole
  embedding of the slot that goes on to the aggregation.
\<close>

theorem gathered_embed_is_row_at_position:
  assumes len: "length pos = length emb"
      and rect: "\<forall>m\<in>set emb. \<forall>row\<in>set m. length row = size2 emb"
  shows "((\<forall>b<length emb. in_range (pos ! b ! i) (length (emb ! b))) \<longrightarrow>
            gather_embed emb (col pos i)
              = Inr (map (\<lambda>b. emb ! b ! nat (sint (pos ! b ! i))) [0..<length emb]))
       \<and> ((\<forall>ps\<in>set pos. length ps = 1)
            \<and> (\<forall>b<length emb. in_range (pos ! b ! 0) (length (emb ! b))) \<longrightarrow>
            ebind (gather_all emb pos) squeeze1
              = Inr (map (\<lambda>b. emb ! b ! nat (sint (pos ! b ! 0))) [0..<length emb]))
       \<and> (\<not> mutant_embedding c \<and> \<not> edges c \<and> \<not> dist_flag c \<and> \<not> side_chain_module c \<longrightarrow>
            slot_embed c n emb mut_embed mpnn_edges dX_all_agg side_chain_embeds pos i
              = gather_embed emb (col pos i))"
proof (intro conjI impI)
  assume rng: "\<forall>b<length emb. in_range (pos ! b ! i) (length (emb ! b))"
  let ?g = "\<lambda>(m, p). m ! nat (sint p)"
  have "gather_embed emb (col pos i) = Inr (map ?g (zip emb (col pos i)))"
    unfolding gather_embed_def
  proof (rule mapM_Inr)
    fix x assume "x \<in> set (zip emb (col pos i))"
    then obtain b where b: "b < length emb" "x = (emb ! b, pos ! b ! i)"
      using len by (auto simp: set_zip col_def)
    have "emb ! b \<in> set emb" using b(1) by simp
    then have "\<forall>row\<in>set (emb ! b). length row = size2 emb" using rect by blast
    moreover have "in_range (pos ! b ! i) (length (emb ! b))" using rng b(1) by simp
    ultimately have "mapM (\<lambda>e. ebind (index_at (emb ! b) (pos ! b ! i)) (\<lambda>row. Inr (row ! e)))
            [0..<size2 emb] = Inr (emb ! b ! nat (sint (pos ! b ! i)))"
      by (intro gather_one_row)
    then show "(case x of (m, p) \<Rightarrow>
                  mapM (\<lambda>e. ebind (index_at m p) (\<lambda>row. Inr (row ! e))) [0..<size2 emb])
               = Inr (?g x)"
      using b by simp
  qed
  also have "map ?g (zip emb (col pos i))
               = map (\<lambda>b. emb ! b ! nat (sint (pos ! b ! i))) [0..<length emb]"
    using len by (simp add: map_zip_nth col_def)
  finally show "gather_embed emb (col pos i)
                  = Inr (map (\<lambda>b. emb ! b ! nat (sint (pos ! b ! i))) [0..<length emb])" .
next
  assume a: "(\<forall>ps\<in>set pos. length ps = 1)
             \<and> (\<forall>b<length emb. in_range (pos ! b ! 0) (length (emb ! b)))"
  let ?g = "\<lambda>(m, ps). [m ! nat (sint (ps ! 0))]"
  have "gather_all emb pos = Inr (map ?g (zip emb pos))"
    unfolding gather_all_def
  proof (rule mapM_Inr)
    fix x assume "x \<in> set (zip emb pos)"
    then obtain b where b: "b < length emb" "x = (emb ! b, pos ! b)"
      using len by (auto simp: set_zip)
    have "pos ! b \<in> set pos" using b(1) len by simp
    then have "length (pos ! b) = 1" using a by blast
    then have one: "pos ! b = [pos ! b ! 0]"
      by (cases "pos ! b") simp_all
    have "emb ! b \<in> set emb" using b(1) by simp
    then have "\<forall>row\<in>set (emb ! b). length row = size2 emb" using rect by blast
    moreover have "in_range (pos ! b ! 0) (length (emb ! b))" using a b(1) by simp
    ultimately have row:
      "mapM (\<lambda>e. ebind (index_at (emb ! b) (pos ! b ! 0)) (\<lambda>row. Inr (row ! e)))
            [0..<size2 emb] = Inr (emb ! b ! nat (sint (pos ! b ! 0)))"
      by (intro gather_one_row)
    have "mapM (\<lambda>p. mapM (\<lambda>e. ebind (index_at (emb ! b) p) (\<lambda>row. Inr (row ! e)))
                   [0..<size2 emb]) (pos ! b) = Inr [emb ! b ! nat (sint (pos ! b ! 0))]"
      by (subst one) (simp add: row)
    then show "(case x of (m, ps) \<Rightarrow>
                  mapM (\<lambda>p. mapM (\<lambda>e. ebind (index_at m p) (\<lambda>row. Inr (row ! e)))
                              [0..<size2 emb]) ps)
               = Inr (?g x)"
      using b by simp
  qed
  moreover have "squeeze1 (map ?g (zip emb pos))
                   = Inr (map (\<lambda>b. emb ! b ! nat (sint (pos ! b ! 0))) [0..<length emb])"
    using len by (auto simp: squeeze1_def map_zip_nth)
  ultimately show "ebind (gather_all emb pos) squeeze1
                  = Inr (map (\<lambda>b. emb ! b ! nat (sint (pos ! b ! 0))) [0..<length emb])"
    by simp
next
  assume "\<not> mutant_embedding c \<and> \<not> edges c \<and> \<not> dist_flag c \<and> \<not> side_chain_module c"
  then show "slot_embed c n emb mut_embed mpnn_edges dX_all_agg side_chain_embeds pos i
               = gather_embed emb (col pos i)"
    by (cases "gather_embed emb (col pos i)") (simp_all add: slot_embed_def)
qed

theorem gathered_embed_is_row_at_position_witness:
  "gather_embed [[[Fin 1, Fin 2], [Fin 3, Fin 4]], [[Fin 5, Fin 6], [Fin 7, Fin 8]]]
     (col [[1], [0]] 0) = Inr [[Fin 3, Fin 4], [Fin 5, Fin 6]]
   \<and> ebind (gather_all [[[Fin 1, Fin 2], [Fin 3, Fin 4]], [[Fin 5, Fin 6], [Fin 7, Fin 8]]]
               [[1], [0]]) squeeze1 = Inr [[Fin 3, Fin 4], [Fin 5, Fin 6]]"
proof -
  let ?emb = "[[[Fin 1, Fin 2], [Fin 3, Fin 4]], [[Fin 5, Fin 6], [Fin 7, Fin 8]]]"
  let ?pos = "[[1], [0]] :: idx2"
  have len: "length ?pos = length ?emb" by simp
  have rect: "\<forall>m\<in>set ?emb. \<forall>row\<in>set m. length row = size2 ?emb"
    by (simp add: size2_def ncols_def)
  have rng: "\<forall>b<length ?emb. in_range (?pos ! b ! 0) (length (?emb ! b))"
    by (auto simp: in_range_def less_Suc_eq)
  show ?thesis
    using gathered_embed_is_row_at_position [OF len rect, of 0] rng
    by (simp add: upt_conv_Cons)
qed

subsection \<open>Reductions that skip a neutral value\<close>

lemma is_mat_nth: "is_mat B N t \<Longrightarrow> b < B \<Longrightarrow> length (t ! b) = N"
  by (auto simp: is_mat_def)

lemma fadd_zero_right [simp]: "fadd a (Fin 0) = a"
  by (cases a) simp_all

lemma fmul_one_right [simp]: "fmul a (Fin 1) = a"
  by (cases a) (simp_all add: signed_inf_def)

lemma fmax_NInf_right [simp]: "fmax a NInf = a"
  by (cases a) simp_all

lemma foldl_skip_neutral:
  assumes "\<And>a. f a v = a"
  shows "foldl f a (map (\<lambda>k. if M k then v else g k) ks)
           = foldl f a (map g (filter (\<lambda>k. \<not> M k) ks))"
  by (induction ks arbitrary: a) (simp_all add: assms)

lemma torch_sum_skip:
  "torch_sum (map (\<lambda>k. if M k then Fin 0 else g k) ks)
     = torch_sum (map g (filter (\<lambda>k. \<not> M k) ks))"
  unfolding torch_sum_def by (rule foldl_skip_neutral) simp

lemma torch_prod_skip:
  "torch_prod (map (\<lambda>k. if M k then Fin 1 else g k) ks)
     = torch_prod (map g (filter (\<lambda>k. \<not> M k) ks))"
  unfolding torch_prod_def by (rule foldl_skip_neutral) simp

lemma torch_max_skip:
  assumes "0 < N" and "\<not> M 0"
  shows "torch_max (map (\<lambda>k. if M k then NInf else g k) [0..<N])
     = torch_max (map g (filter (\<lambda>k. \<not> M k) [0..<N]))"
proof -
  have "[0..<N] = 0 # [Suc 0..<N]"
    using assms(1) by (simp add: upt_conv_Cons)
  then show ?thesis
    using assms(2) foldl_skip_neutral [of fmax NInf "g 0" M g "[Suc 0..<N]"]
    by (simp add: torch_max_def)
qed

lemma count_not_nan_skip:
  "length (filter (\<lambda>x. x \<noteq> NaN) (map (\<lambda>k. if M k then NaN else g k) ks))
     = length (filter (\<lambda>x. x \<noteq> NaN) (map g (filter (\<lambda>k. \<not> M k) ks)))"
  by (induction ks) simp_all

lemma torch_nansum_skip:
  "torch_nansum (map (\<lambda>k. if M k then NaN else g k) ks)
     = torch_nansum (map g (filter (\<lambda>k. \<not> M k) ks))"
proof -
  have eq1: "map (\<lambda>x. if x = NaN then Fin 0 else x) (map (\<lambda>k. if M k then NaN else g k) ks)
          = map (\<lambda>k. if M k then Fin 0 else (if g k = NaN then Fin 0 else g k)) ks"
    by (induction ks) simp_all
  have eq2: "map (\<lambda>x. if x = NaN then Fin 0 else x) (map g (filter (\<lambda>k. \<not> M k) ks))
          = map (\<lambda>k. if g k = NaN then Fin 0 else g k) (filter (\<lambda>k. \<not> M k) ks)"
    by simp
  show ?thesis
    unfolding torch_nansum_def eq1 eq2 by (rule torch_sum_skip)
qed

lemma torch_nanmean_skip:
  "torch_nanmean (map (\<lambda>k. if M k then NaN else g k) ks)
     = torch_nanmean (map g (filter (\<lambda>k. \<not> M k) ks))"
  unfolding torch_nanmean_def by (simp only: torch_nansum_skip count_not_nan_skip)

lemma torch_nanmean_no_nan: "NaN \<notin> set xs \<Longrightarrow> torch_nanmean xs = torch_mean xs"
proof -
  assume a: "NaN \<notin> set xs"
  then have "map (\<lambda>x. if x = NaN then Fin 0 else x) xs = xs"
    by (induction xs) auto
  moreover have "filter (\<lambda>x. x \<noteq> NaN) xs = xs"
    using a by (induction xs) auto
  ultimately show ?thesis
    by (simp add: torch_nanmean_def torch_nansum_def torch_mean_def)
qed

subsection \<open>The padding mask and the stacked embeddings\<close>

lemma padding_mask_shape:
  assumes "is_mat B N mut" "is_mat B N wt" "is_mat B N pos"
  shows "padding_mask mut wt pos
           = map (\<lambda>b. map (\<lambda>k. mut ! b ! k + wt ! b ! k + pos ! b ! k = 0) [0..<N]) [0..<B]"
proof (rule nth_equalityI)
  show "length (padding_mask mut wt pos)
          = length (map (\<lambda>b. map (\<lambda>k. mut ! b ! k + wt ! b ! k + pos ! b ! k = 0) [0..<N]) [0..<B])"
    using assms by (simp add: padding_mask_def is_mat_def)
next
  fix b assume "b < length (padding_mask mut wt pos)"
  then have b: "b < B" using assms by (simp add: padding_mask_def is_mat_def)
  have l: "length (mut ! b) = N" "length (wt ! b) = N" "length (pos ! b) = N"
    using assms b by (simp_all add: is_mat_nth)
  have "map (\<lambda>(a, b, c). a + b + c = 0) (zip (mut ! b) (zip (wt ! b) (pos ! b)))
          = map (\<lambda>k. mut ! b ! k + wt ! b ! k + pos ! b ! k = 0) [0..<N]"
    using l by (intro nth_equalityI) simp_all
  then show "padding_mask mut wt pos ! b
          = map (\<lambda>b. map (\<lambda>k. mut ! b ! k + wt ! b ! k + pos ! b ! k = 0) [0..<N]) [0..<B] ! b"
    using assms b by (simp add: padding_mask_def is_mat_def)
qed

lemma map_by_nth: "map f xs = map (\<lambda>i. f (xs ! i)) [0..<length xs]"
  by (rule nth_equalityI) simp_all

lemma stack_last_shape:
  assumes "la \<noteq> []" and "\<forall>t\<in>set la. is_mat B E t"
  shows "stack_last la = Inr (stacked_slots la B E)"
proof -
  obtain t rest where la: "la = t # rest" using assms(1) by (cases la) auto
  then have t: "is_mat B E t" using assms(2) by simp
  have "map (\<lambda>b. map (\<lambda>e. map (\<lambda>u. u ! b ! e) la) [0..<length (t ! b)]) [0..<length t]
          = map (\<lambda>b. map (\<lambda>e. map (\<lambda>k. la ! k ! b ! e) [0..<length la]) [0..<E]) [0..<B]"
  proof (rule map_cong)
    show "[0..<length t] = [0..<B]" using t by (simp add: is_mat_def)
  next
    fix b assume "b \<in> set [0..<B]"
    then have "length (t ! b) = E" using t by (simp add: is_mat_nth)
    then show "map (\<lambda>e. map (\<lambda>u. u ! b ! e) la) [0..<length (t ! b)]
                 = map (\<lambda>e. map (\<lambda>k. la ! k ! b ! e) [0..<length la]) [0..<E]"
      using map_by_nth [of "\<lambda>u. u ! b ! _" la] by simp
  qed
  then show ?thesis
    by (simp add: stack_last_def la stacked_slots_def del: upt_Suc)
qed

lemma zip_map_same: "zip (map f xs) (map g xs) = map (\<lambda>x. (f x, g x)) xs"
  by (induction xs) simp_all

lemma mask_fill_shape:
  assumes "is_mat B N mut" "is_mat B N wt" "is_mat B N pos" "length la = N"
  shows "mask_fill (padding_mask mut wt pos) (stacked_slots la B E) v
           = map (\<lambda>b. map (\<lambda>e. map (\<lambda>k. if mut ! b ! k + wt ! b ! k + pos ! b ! k = 0 then v
                                           else la ! k ! b ! e) [0..<N]) [0..<E]) [0..<B]"
  unfolding padding_mask_shape [OF assms(1-3)] stacked_slots_def mask_fill_def assms(4)
  by (simp add: zip_map_same comp_def del: upt_Suc)

lemma assert_first_visible_shape:
  assumes "is_mat B N mut" "is_mat B N wt" "is_mat B N pos" "0 < N" "0 < B"
  shows "assert_first_visible (padding_mask mut wt pos)
           = (if \<forall>b<B. mut ! b ! 0 + wt ! b ! 0 + pos ! b ! 0 \<noteq> 0 then Inr ()
              else Inl AssertionError)"
proof -
  let ?M = "\<lambda>b k. mut ! b ! k + wt ! b ! k + pos ! b ! k = 0"
  have up: "[0..<B] = 0 # [Suc 0..<B]" "[0..<N] = 0 # [Suc 0..<N]"
    using assms(4,5) by (simp_all add: upt_conv_Cons)
  have nc: "ncols (padding_mask mut wt pos) = N"
    unfolding padding_mask_shape [OF assms(1-3)] ncols_def
    by (subst up(1)) simp
  have c0: "col (padding_mask mut wt pos) 0 = map (\<lambda>b. ?M b 0) [0..<B]"
    unfolding padding_mask_shape [OF assms(1-3)] col_def
    by (subst up(2)) (simp del: upt_Suc)
  have "(length (filter (\<lambda>x. x) (map (\<lambda>b. ?M b 0) [0..<B])) = 0)
           \<longleftrightarrow> (\<forall>b<B. \<not> ?M b 0)"
    by (auto simp: filter_empty_conv)
  then show ?thesis
    using assms(4) unfolding assert_first_visible_def nc c0 by auto
qed

lemma mapM_map: "mapM f (map g xs) = mapM (\<lambda>x. f (g x)) xs"
  by (induction xs) simp_all

lemma mapM_cong: "(\<And>x. x \<in> set xs \<Longrightarrow> f x = g x) \<Longrightarrow> mapM f xs = mapM g xs"
  by (induction xs) simp_all

lemma mapM_returns: "(\<And>x. x \<in> set xs \<Longrightarrow> \<exists>y. f x = Inr y) \<Longrightarrow> \<exists>ys. mapM f xs = Inr ys"
proof (induction xs)
  case Nil
  then show ?case by simp
next
  case (Cons x xs)
  then obtain y ys where "f x = Inr y" "mapM f xs = Inr ys"
    by (metis list.set_intros(1) list.set_intros(2))
  then show ?case by simp
qed

subsection \<open>The aggregation over the visible slots\<close>

lemma nonlearned_to_aggregate:
  assumes la: "lightattn c"
      and las: "la = map (\<lambda>emb. light_attention n (unsqueeze_last emb)) embs"
      and N: "length embs = N" "0 < N" and B: "0 < B"
      and shapes: "is_mat B N mut" "is_mat B N wt" "is_mat B N pos" "\<forall>t\<in>set la. is_mat B E t"
      and first: "\<forall>b<B. mut ! b ! 0 + wt ! b ! 0 + pos ! b ! 0 \<noteq> 0"
  shows "nonlearned c n embs mut wt pos
           = aggregate (aggregation c) (padding_mask mut wt pos) (stacked_slots la B E)"
proof -
  have 1: "light_attention_all c n embs = Inr la"
    unfolding light_attention_all_def las using la by (intro mapM_Inr) simp
  have "la \<noteq> []" using N las by auto
  then have 2: "stack_last la = Inr (stacked_slots la B E)"
    using shapes(4) by (rule stack_last_shape)
  have 3: "assert_first_visible (padding_mask mut wt pos) = Inr ()"
    using assert_first_visible_shape [OF shapes(1-3) N(2) B] first by simp
  show ?thesis
    by (simp add: nonlearned_def 1 2 3)
qed

text \<open>
  C1. Take the branch for the non-learned aggregations, with LightAttention present,
  \<open>N \<ge> 1\<close> slots and \<open>B \<ge> 1\<close> batch elements, the three mutation tensors of shape
  \<open>(B, N)\<close>, every LightAttention output \<open>la ! k\<close> of shape \<open>(B, E)\<close>, and the first
  slot of every batch element visible (otherwise the assertion fires). Then entry
  \<open>[b][e]\<close> of the combined embedding is the reduction of the aggregation (\<open>nanmean\<close>
  for \<open>'mean'\<close>, \<open>sum\<close>, \<open>prod\<close>, \<open>max\<close>) applied to the entries \<open>la[k][b][e]\<close> of
  the visible slots \<open>k\<close> of \<open>b\<close> only, a slot being visible when mutant, wild type and
  position do not sum to zero: what the masked slots hold never enters the result. For
  \<open>'mean'\<close> the reduction ignores NaN entries; when no entry of a visible slot is
  NaN it is the arithmetic mean over the visible slots.
\<close>

theorem aggregation_over_visible_slots:
  assumes la: "lightattn c"
      and las: "la = map (\<lambda>emb. light_attention n (unsqueeze_last emb)) embs"
      and N: "length embs = N" "0 < N" and B: "0 < B"
      and shapes: "is_mat B N mut" "is_mat B N wt" "is_mat B N pos" "\<forall>t\<in>set la. is_mat B E t"
      and first: "\<forall>b<B. mut ! b ! 0 + wt ! b ! 0 + pos ! b ! 0 \<noteq> 0"
  shows "(aggregation c = Some ''mean'' \<longrightarrow>
            nonlearned c n embs mut wt pos
              = Inr (map (\<lambda>b. map (\<lambda>e. torch_nanmean (map (\<lambda>k. la ! k ! b ! e)
                                         (visible_slots mut wt pos b))) [0..<E]) [0..<B]))
       \<and> (aggregation c = Some ''sum'' \<longrightarrow>
            nonlearned c n embs mut wt pos
              = Inr (map (\<lambda>b. map (\<lambda>e. torch_sum (map (\<lambda>k. la ! k ! b ! e)
                                         (visible_slots mut wt pos b))) [0..<E]) [0..<B]))
       \<and> (aggregation c = Some ''prod'' \<longrightarrow>
            nonlearned c n embs mut wt pos
              = Inr (map (\<lambda>b. map (\<lambda>e. torch_prod (map (\<lambda>k. la ! k ! b ! e)
                                         (visible_slots mut wt pos b))) [0..<E]) [0..<B]))
       \<and> (aggregation c = Some ''max'' \<longrightarrow>
            nonlearned c n embs mut wt pos
              = mapM (\<lambda>b. mapM (\<lambda>e. torch_max (map (\<lambda>k. la ! k ! b ! e)
                                         (visible_slots mut wt pos b))) [0..<E]) [0..<B]
            \<and> (\<exists>r. nonlearned c n embs mut wt pos = Inr r))
       \<and> (aggregation c = Some ''mean''
            \<and> (\<forall>b<B. \<forall>e<E. \<forall>k\<in>set (visible_slots mut wt pos b). la ! k ! b ! e \<noteq> NaN) \<longrightarrow>
            nonlearned c n embs mut wt pos
              = Inr (map (\<lambda>b. map (\<lambda>e. torch_mean (map (\<lambda>k. la ! k ! b ! e)
                                         (visible_slots mut wt pos b))) [0..<E]) [0..<B]))"
proof -
  let ?M = "\<lambda>b k. mut ! b ! k + wt ! b ! k + pos ! b ! k = 0"
  let ?vis = "\<lambda>b. filter (\<lambda>k. \<not> ?M b k) [0..<N]"
  have lN: "length la = N" using las N by simp
  have vis: "visible_slots mut wt pos b = ?vis b" if "b < B" for b
    using shapes(1) that by (simp add: visible_slots_def is_mat_nth)
  have agg: "nonlearned c n embs mut wt pos
               = aggregate (aggregation c) (padding_mask mut wt pos) (stacked_slots la B E)"
    using assms by (rule nonlearned_to_aggregate)
  have fill: "mask_fill (padding_mask mut wt pos) (stacked_slots la B E) v
           = map (\<lambda>b. map (\<lambda>e. map (\<lambda>k. if ?M b k then v else la ! k ! b ! e) [0..<N])
                            [0..<E]) [0..<B]" for v
    using shapes(1-3) lN by (rule mask_fill_shape)
  have mean: "nonlearned c n embs mut wt pos
              = Inr (map (\<lambda>b. map (\<lambda>e. torch_nanmean (map (\<lambda>k. la ! k ! b ! e)
                                         (visible_slots mut wt pos b))) [0..<E]) [0..<B])"
    if "aggregation c = Some ''mean''"
  proof -
    have "map (map torch_nanmean) (mask_fill (padding_mask mut wt pos) (stacked_slots la B E) NaN)
            = map (\<lambda>b. map (\<lambda>e. torch_nanmean (map (\<lambda>k. la ! k ! b ! e)
                                         (visible_slots mut wt pos b))) [0..<E]) [0..<B]"
      unfolding fill map_map comp_def
      by (rule map_cong) (simp_all add: vis torch_nanmean_skip)
    then show ?thesis using that by (simp add: agg aggregate_def)
  qed
  have sum: "nonlearned c n embs mut wt pos
              = Inr (map (\<lambda>b. map (\<lambda>e. torch_sum (map (\<lambda>k. la ! k ! b ! e)
                                         (visible_slots mut wt pos b))) [0..<E]) [0..<B])"
    if "aggregation c = Some ''sum''"
  proof -
    have "map (map torch_sum) (mask_fill (padding_mask mut wt pos) (stacked_slots la B E) (Fin 0))
            = map (\<lambda>b. map (\<lambda>e. torch_sum (map (\<lambda>k. la ! k ! b ! e)
                                         (visible_slots mut wt pos b))) [0..<E]) [0..<B]"
      unfolding fill map_map comp_def
      by (rule map_cong) (simp_all add: vis torch_sum_skip)
    then show ?thesis using that by (simp add: agg aggregate_def)
  qed
  have prod: "nonlearned c n embs mut wt pos
              = Inr (map (\<lambda>b. map (\<lambda>e. torch_prod (map (\<lambda>k. la ! k ! b ! e)
                                         (visible_slots mut wt pos b))) [0..<E]) [0..<B])"
    if "aggregation c = Some ''prod''"
  proof -
    have "map (map torch_prod) (mask_fill (padding_mask mut wt pos) (stacked_slots la B E) (Fin 1))
            = map (\<lambda>b. map (\<lambda>e. torch_prod (map (\<lambda>k. la ! k ! b ! e)
                                         (visible_slots mut wt pos b))) [0..<E]) [0..<B]"
      unfolding fill map_map comp_def
      by (rule map_cong) (simp_all add: vis torch_prod_skip)
    then show ?thesis using that by (simp add: agg aggregate_def)
  qed
  have max: "nonlearned c n embs mut wt pos
              = mapM (\<lambda>b. mapM (\<lambda>e. torch_max (map (\<lambda>k. la ! k ! b ! e)
                                         (visible_slots mut wt pos b))) [0..<E]) [0..<B]
            \<and> (\<exists>r. nonlearned c n embs mut wt pos = Inr r)"
    if "aggregation c = Some ''max''"
  proof -
    have row: "torch_max (map (\<lambda>k. if ?M b k then NInf else la ! k ! b ! e) [0..<N])
                 = torch_max (map (\<lambda>k. la ! k ! b ! e) (visible_slots mut wt pos b))"
      if "b < B" for b e
      using torch_max_skip [of N "?M b" "\<lambda>k. la ! k ! b ! e"] N(2) first that
      by (simp add: vis)
    have eq: "mapM (mapM torch_max) (mask_fill (padding_mask mut wt pos) (stacked_slots la B E) NInf)
            = mapM (\<lambda>b. mapM (\<lambda>e. torch_max (map (\<lambda>k. la ! k ! b ! e)
                                         (visible_slots mut wt pos b))) [0..<E]) [0..<B]"
      unfolding fill mapM_map
      by (rule mapM_cong) (simp add: row)
    have ret: "\<exists>y. torch_max (map (\<lambda>k. la ! k ! b ! e) (visible_slots mut wt pos b)) = Inr y"
      if "b < B" for b e
    proof -
      have "[0..<N] = 0 # [Suc 0..<N]" using N(2) by (simp add: upt_conv_Cons)
      then have "?vis b = 0 # filter (\<lambda>k. \<not> ?M b k) [Suc 0..<N]"
        using first that by simp
      then show ?thesis by (simp add: vis that torch_max_def)
    qed
    have "\<exists>r. mapM (\<lambda>b. mapM (\<lambda>e. torch_max (map (\<lambda>k. la ! k ! b ! e)
                                         (visible_slots mut wt pos b))) [0..<E]) [0..<B] = Inr r"
      by (intro mapM_returns) (simp add: ret)
    then show ?thesis using that eq by (simp add: agg aggregate_def)
  qed
  have plain: "nonlearned c n embs mut wt pos
              = Inr (map (\<lambda>b. map (\<lambda>e. torch_mean (map (\<lambda>k. la ! k ! b ! e)
                                         (visible_slots mut wt pos b))) [0..<E]) [0..<B])"
    if "aggregation c = Some ''mean''
          \<and> (\<forall>b<B. \<forall>e<E. \<forall>k\<in>set (visible_slots mut wt pos b). la ! k ! b ! e \<noteq> NaN)"
  proof -
    have "torch_nanmean (map (\<lambda>k. la ! k ! b ! e) (visible_slots mut wt pos b))
            = torch_mean (map (\<lambda>k. la ! k ! b ! e) (visible_slots mut wt pos b))"
      if "b < B" "e < E" for b e
      using that \<open>aggregation c = Some ''mean'' \<and> _\<close>
      by (intro torch_nanmean_no_nan) (auto, metis)
    then have "map (\<lambda>b. map (\<lambda>e. torch_nanmean (map (\<lambda>k. la ! k ! b ! e)
                                         (visible_slots mut wt pos b))) [0..<E]) [0..<B]
             = map (\<lambda>b. map (\<lambda>e. torch_mean (map (\<lambda>k. la ! k ! b ! e)
                                         (visible_slots mut wt pos b))) [0..<E]) [0..<B]"
      by simp
    then show ?thesis using mean that by simp
  qed
  show ?thesis
    using mean sum prod max plain by blast
qed

theorem aggregation_over_visible_slots_witness:
  "nonlearned example_cfg example_nets
     [[[Fin 2, Fin 20], [Fin 5, Fin 50]], [[Fin 1, Fin 10], [Fin 6, Fin 60]]]
     [[1, 0], [0, 1]] [[5, 0], [7, 1]] [[1, 0], [1, 2]]
     = Inr [[Fin 2, Fin 20], [Fin (11 / 2), Fin 55]]
   \<and> nonlearned (example_cfg\<lparr>aggregation := Some ''max''\<rparr>) example_nets
     [[[Fin 2, Fin 20], [Fin 5, Fin 50]], [[Fin 1, Fin 10], [Fin 6, Fin 60]]]
     [[1, 0], [0, 1]] [[5, 0], [7, 1]] [[1, 0], [1, 2]]
     = Inr [[Fin 2, Fin 20], [Fin 6, Fin 60]]"
proof -
  let ?embs = "[[[Fin 2, Fin 20], [Fin 5, Fin 50]], [[Fin 1, Fin 10], [Fin 6, Fin 60]]]"
  let ?mut = "[[1, 0], [0, 1]] :: idx2"
  let ?wt = "[[5, 0], [7, 1]] :: idx2"
  let ?pos = "[[1, 0], [1, 2]] :: idx2"
  have las: "?embs = map (\<lambda>emb. light_attention example_nets (unsqueeze_last emb)) ?embs"
    by (simp add: example_nets_def unsqueeze_last_def)
  have sh: "is_mat 2 2 ?mut" "is_mat 2 2 ?wt" "is_mat 2 2 ?pos" "\<forall>t\<in>set ?embs. is_mat 2 2 t"
    by (simp_all add: is_mat_def)
  have first: "\<forall>b<2. ?mut ! b ! 0 + ?wt ! b ! 0 + ?pos ! b ! 0 \<noteq> 0"
    by (simp add: all_less_2)
  have nan: "\<forall>b<2. \<forall>e<2. \<forall>k\<in>set (visible_slots ?mut ?wt ?pos b). ?embs ! k ! b ! e \<noteq> NaN"
    by (auto simp: all_less_2 visible_slots_def less_Suc_eq)
  have mean: "nonlearned example_cfg example_nets ?embs ?mut ?wt ?pos
     = Inr [[Fin 2, Fin 20], [Fin (11 / 2), Fin 55]]"
    using aggregation_over_visible_slots [of example_cfg ?embs example_nets ?embs 2 2 ?mut ?wt ?pos 2,
        OF _ las _ _ _ sh first] nan
    by (simp add: example_cfg_def visible_slots_def torch_nanmean_def torch_nansum_def torch_mean_def torch_sum_def upt_conv_Cons)
  have max: "nonlearned (example_cfg\<lparr>aggregation := Some ''max''\<rparr>) example_nets ?embs ?mut ?wt ?pos
     = Inr [[Fin 2, Fin 20], [Fin 6, Fin 60]]"
    using aggregation_over_visible_slots [of "example_cfg\<lparr>aggregation := Some ''max''\<rparr>" ?embs example_nets ?embs 2 2 ?mut ?wt ?pos 2,
        OF _ las _ _ _ sh first]
    by (simp add: example_cfg_def visible_slots_def torch_max_def upt_conv_Cons)
  show ?thesis using mean max by simp
qed

subsection \<open>Indexing the head's output\<close>

lemma gather_last_rows:
  assumes idx: "is_mat B N ix" and len: "length t = B"
      and rng: "\<forall>b<B. \<forall>j<N. in_range (ix ! b ! j) (length (t ! b))"
  shows "gather_last t ix
           = Inr (map (\<lambda>b. map (\<lambda>j. t ! b ! nat (sint (ix ! b ! j))) [0..<N]) [0..<B])"
proof -
  let ?g = "\<lambda>(row, r). map (\<lambda>i. row ! nat (sint i)) r"
  have lix: "length ix = B" using idx by (simp add: is_mat_def)
  have "gather_last t ix = Inr (map ?g (zip t ix))"
    unfolding gather_last_def
  proof (rule mapM_Inr)
    fix x assume "x \<in> set (zip t ix)"
    then obtain b where b: "b < B" "x = (t ! b, ix ! b)"
      using len lix by (auto simp: set_zip)
    have lb: "length (ix ! b) = N" using idx b(1) by (rule is_mat_nth)
    have "mapM (index_at (t ! b)) (ix ! b) = Inr (map (\<lambda>i. t ! b ! nat (sint i)) (ix ! b))"
    proof (rule mapM_Inr)
      fix i assume "i \<in> set (ix ! b)"
      then obtain j where "j < N" "i = ix ! b ! j"
        using lb by (auto simp: in_set_conv_nth)
      then show "index_at (t ! b) i = Inr (t ! b ! nat (sint i))"
        using rng b(1) by (simp add: index_at_in_range)
    qed
    then show "(case x of (row, r) \<Rightarrow> mapM (index_at row) r) = Inr (?g x)"
      using b by simp
  qed
  also have "map ?g (zip t ix)
               = map (\<lambda>b. map (\<lambda>j. t ! b ! nat (sint (ix ! b ! j))) [0..<N]) [0..<B]"
  proof -
    have "map (\<lambda>i. t ! b ! nat (sint i)) (ix ! b)
            = map (\<lambda>j. t ! b ! nat (sint (ix ! b ! j))) [0..<N]" if "b < B" for b
      using map_by_nth [of "\<lambda>i. t ! b ! nat (sint i)" "ix ! b"] is_mat_nth [OF idx that]
      by simp
    then show ?thesis
      using len lix by (simp add: map_zip_nth)
  qed
  finally show ?thesis .
qed

text \<open>
  C3, as stated, fails where both \<open>subtract_mut\<close> and \<open>single_target\<close> are set: the
  branch for \<open>subtract_mut\<close> comes first, so the scalar output of the head is indexed by
  mutant and wild-type amino acid and the difference is returned, not the output itself.
\<close>

theorem single_target_with_subtract_mut_is_indexed:
  "single_target (example_cfg\<lparr>subtract_mut := True, single_target := True\<rparr>)
   \<and> index_ddg (example_cfg\<lparr>subtract_mut := True, single_target := True\<rparr>)
        [[Fin 3], [Fin 4]] [[0], [0]] [[0], [0]] = Inr [[Fin 0], [Fin 0]]
   \<and> (Inr [[Fin 0], [Fin 0]] :: error + mat) \<noteq> Inr [[Fin 3], [Fin 4]]"
  by (simp add: example_cfg_def index_ddg_def gather_last_def index_at_def in_range_def fsub_def)

text \<open>
  C3, amended. With \<open>ddg\<close> the head's output, one row per batch element, and the
  amino-acid tensors of shape \<open>(B, N)\<close> holding valid column indices: when
  \<open>subtract_mut\<close> is set (whatever \<open>single_target\<close> is) the result is the score at
  the mutant amino acid minus the score at the wild-type amino acid; when neither flag
  is set it is the score at the mutant amino acid; when \<open>single_target\<close> is set and
  \<open>subtract_mut\<close> is not, the head's output is returned as it is. Whatever \<open>forward\<close>
  returns is this indexing of the head's output.
\<close>

theorem ddg_indexed_by_amino_acid:
  assumes mut: "is_mat B N mut" and wt: "is_mat B N wt" and len: "length ddg = B"
  shows "(subtract_mut c
            \<and> (\<forall>b<B. \<forall>j<N. in_range (mut ! b ! j) (length (ddg ! b)))
            \<and> (\<forall>b<B. \<forall>j<N. in_range (wt ! b ! j) (length (ddg ! b))) \<longrightarrow>
            index_ddg c ddg mut wt
              = Inr (map (\<lambda>b. map (\<lambda>j. fsub (ddg ! b ! nat (sint (mut ! b ! j)))
                                         (ddg ! b ! nat (sint (wt ! b ! j)))) [0..<N]) [0..<B]))
       \<and> (\<not> subtract_mut c \<and> \<not> single_target c
            \<and> (\<forall>b<B. \<forall>j<N. in_range (mut ! b ! j) (length (ddg ! b))) \<longrightarrow>
            index_ddg c ddg mut wt
              = Inr (map (\<lambda>b. map (\<lambda>j. ddg ! b ! nat (sint (mut ! b ! j))) [0..<N]) [0..<B]))
       \<and> (\<not> subtract_mut c \<and> single_target c \<longrightarrow> index_ddg c ddg mut wt = Inr ddg)
       \<and> (\<forall>out. forward c n inp = Inr out \<longrightarrow>
             (\<exists>mpnn_embed. index_ddg c (ddg_out n mpnn_embed) (mut_mutant_AAs inp)
                              (mut_wildtype_AAs inp) = Inr out))"
proof (intro conjI impI allI)
  assume a: "subtract_mut c
            \<and> (\<forall>b<B. \<forall>j<N. in_range (mut ! b ! j) (length (ddg ! b)))
            \<and> (\<forall>b<B. \<forall>j<N. in_range (wt ! b ! j) (length (ddg ! b)))"
  have m: "gather_last ddg mut
             = Inr (map (\<lambda>b. map (\<lambda>j. ddg ! b ! nat (sint (mut ! b ! j))) [0..<N]) [0..<B])"
    using mut len a by (intro gather_last_rows) simp_all
  have w: "gather_last ddg wt
             = Inr (map (\<lambda>b. map (\<lambda>j. ddg ! b ! nat (sint (wt ! b ! j))) [0..<N]) [0..<B])"
    using wt len a by (intro gather_last_rows) simp_all
  show "index_ddg c ddg mut wt
              = Inr (map (\<lambda>b. map (\<lambda>j. fsub (ddg ! b ! nat (sint (mut ! b ! j)))
                                         (ddg ! b ! nat (sint (wt ! b ! j)))) [0..<N]) [0..<B])"
    using a by (simp add: index_ddg_def m w zip_map_same comp_def del: upt_Suc)
next
  assume a: "\<not> subtract_mut c \<and> \<not> single_target c
            \<and> (\<forall>b<B. \<forall>j<N. in_range (mut ! b ! j) (length (ddg ! b)))"
  have "gather_last ddg mut
             = Inr (map (\<lambda>b. map (\<lambda>j. ddg ! b ! nat (sint (mut ! b ! j))) [0..<N]) [0..<B])"
    using mut len a by (intro gather_last_rows) simp_all
  then show "index_ddg c ddg mut wt
              = Inr (map (\<lambda>b. map (\<lambda>j. ddg ! b ! nat (sint (mut ! b ! j))) [0..<N]) [0..<B])"
    using a by (simp add: index_ddg_def)
next
  assume "\<not> subtract_mut c \<and> single_target c"
  then show "index_ddg c ddg mut wt = Inr ddg"
    by (simp add: index_ddg_def)
next
  fix out assume "forward c n inp = Inr out"
  then show "\<exists>mpnn_embed. index_ddg c (ddg_out n mpnn_embed) (mut_mutant_AAs inp)
                              (mut_wildtype_AAs inp) = Inr out"
    unfolding forward_def by (auto simp: ebind_eq_Inr)
qed

theorem ddg_indexed_by_amino_acid_witness:
  "index_ddg (example_cfg\<lparr>subtract_mut := True\<rparr>) [[Fin 1, Fin 2, Fin 4], [Fin 10, Fin 20, Fin 40]]
     [[2, 1], [0, 2]] [[0, 0], [1, 1]] = Inr [[Fin 3, Fin 1], [Fin (- 10), Fin 20]]
   \<and> index_ddg example_cfg [[Fin 1, Fin 2, Fin 4], [Fin 10, Fin 20, Fin 40]]
     [[2, 1], [0, 2]] [[0, 0], [1, 1]] = Inr [[Fin 4, Fin 2], [Fin 10, Fin 40]]
   \<and> index_ddg (example_cfg\<lparr>single_target := True\<rparr>) [[Fin 7], [Fin 8]]
     [[2, 1], [0, 2]] [[0, 0], [1, 1]] = Inr [[Fin 7], [Fin 8]]
   \<and> forward example_cfg example_nets example_inputs = Inr [[Fin 20, Fin 2], [Fin (11 / 2), Fin 55]]
   \<and> index_ddg example_cfg (ddg_out example_nets [[Fin 2, Fin 20], [Fin (11 / 2), Fin 55]])
        (mut_mutant_AAs example_inputs) (mut_wildtype_AAs example_inputs)
        = Inr [[Fin 20, Fin 2], [Fin (11 / 2), Fin 55]]"
proof -
  let ?ddg = "[[Fin 1, Fin 2, Fin 4], [Fin 10, Fin 20, Fin 40]]"
  let ?mut = "[[2, 1], [0, 2]] :: idx2"
  let ?wt = "[[0, 0], [1, 1]] :: idx2"
  have sh: "is_mat 2 2 ?mut" "is_mat 2 2 ?wt" "length ?ddg = 2"
    by (simp_all add: is_mat_def)
  have rng: "\<forall>b<2. \<forall>j<2. in_range (?mut ! b ! j) (length (?ddg ! b))"
            "\<forall>b<2. \<forall>j<2. in_range (?wt ! b ! j) (length (?ddg ! b))"
    by (simp_all add: all_less_2 in_range_def)
  have 1: "index_ddg (example_cfg\<lparr>subtract_mut := True\<rparr>) ?ddg ?mut ?wt
             = Inr [[Fin 3, Fin 1], [Fin (- 10), Fin 20]]"
    using ddg_indexed_by_amino_acid [OF sh, of "example_cfg\<lparr>subtract_mut := True\<rparr>"] rng
    by (simp add: example_cfg_def fsub_def upt_conv_Cons)
  have 2: "index_ddg example_cfg ?ddg ?mut ?wt = Inr [[Fin 4, Fin 2], [Fin 10, Fin 40]]"
    using ddg_indexed_by_amino_acid [OF sh, of example_cfg] rng
    by (simp add: example_cfg_def upt_conv_Cons)
  have sh1: "length [[Fin 7], [Fin 8]] = 2" by simp
  have 3: "index_ddg (example_cfg\<lparr>single_target := True\<rparr>) [[Fin 7], [Fin 8]] ?mut ?wt
             = Inr [[Fin 7], [Fin 8]]"
    using ddg_indexed_by_amino_acid [OF sh(1,2) sh1, of "example_cfg\<lparr>single_target := True\<rparr>"]
    by (simp add: example_cfg_def)
  have 4: "forward example_cfg example_nets example_inputs
             = Inr [[Fin 20, Fin 2], [Fin (11 / 2), Fin 55]]"
    by (simp add: forward_def backbone_def multi_mutations_def example_cfg_def example_nets_def
          example_inputs_def check_sequence_match_def ncols_def col_def gather_last_def index_at_def
          in_range_def broadcast_diff_sum_def scatter1_def scatter_row_def forward_multi_def
          multi_slots_def side_chain_embeds_of_def multi_features_def cat3_list_def cat3_def
          cat2_def slot_embed_def gather_embed_def size2_def nonlearned_def
          light_attention_all_def unsqueeze_last_def stack_last_def padding_mask_def
          assert_first_visible_def aggregate_def mask_fill_def torch_nanmean_def torch_nansum_def
          torch_sum_def index_ddg_def Let_def)
  have 5: "index_ddg example_cfg (ddg_out example_nets [[Fin 2, Fin 20], [Fin (11 / 2), Fin 55]])
        (mut_mutant_AAs example_inputs) (mut_wildtype_AAs example_inputs)
        = Inr [[Fin 20, Fin 2], [Fin (11 / 2), Fin 55]]"
    by (simp add: example_cfg_def example_nets_def example_inputs_def index_ddg_def
          gather_last_def index_at_def in_range_def)
  show ?thesis using 1 2 3 4 5 by simp
qed

subsection \<open>Dimensions of the head\<close>

lemma last_zip_tl:
  "ys \<noteq> [] \<Longrightarrow> last (zip (ys @ [v]) (tl (ys @ [v]))) = (last ys, v)
      \<and> zip (ys @ [v]) (tl (ys @ [v])) \<noteq> []"
proof (induction ys rule: list_nonempty_induct)
  case (single x)
  then show ?case by simp
next
  case (cons x xs)
  then show ?case by (cases xs) auto
qed

lemma last_concat_map:
  "zs \<noteq> [] \<Longrightarrow> (\<And>z. f z \<noteq> []) \<Longrightarrow> last (concat (map f zs)) = last (f (last zs))"
proof (induction zs rule: list_nonempty_induct)
  case (single x)
  then show ?case by simp
next
  case (cons x xs)
  then have "concat (map f xs) \<noteq> []" by (cases xs) auto
  then show ?case using cons by simp
qed

text \<open>
  C6. The third component of \<open>_set_model_dims\<close>, \<open>VOCAB_DIM\<close>, is 1 when
  \<open>single_target\<close> is set and 21 otherwise (so it is 21 exactly when the flag is not
  set); it is the last entry of \<open>hid_sizes\<close>, and the last layer appended to
  \<open>ddg_out\<close> is a linear layer with that many outputs.
\<close>

theorem head_output_width:
  "snd (snd (set_model_dims c)) = (if single_target c then 1 else 21)
   \<and> (snd (snd (set_model_dims c)) = 21 \<longleftrightarrow> \<not> single_target c)
   \<and> last (hid_sizes c) = snd (snd (set_model_dims c))
   \<and> (\<exists>sz. last (ddg_out_layers c) = Linear sz (snd (snd (set_model_dims c))))"
proof -
  obtain H E V where d: "set_model_dims c = (H, E, V)"
    by (cases "set_model_dims c") auto
  have V: "V = (if single_target c then 1 else 21)"
    using d by (auto simp: set_model_dims_def Let_def)
  let ?ys = "[H * num_final_layers c + E] @ hidden_dims c"
  have hs: "hid_sizes c = ?ys @ [V]"
    by (simp add: hid_sizes_def d)
  let ?f = "\<lambda>(sz1, sz2). (case dropout c of None \<Rightarrow> [] | Some drop_p \<Rightarrow> [Dropout drop_p])
                    @ [ReLU, Linear sz1 sz2]"
  have z: "last (zip (hid_sizes c) (tl (hid_sizes c))) = (last ?ys, V)"
          "zip (hid_sizes c) (tl (hid_sizes c)) \<noteq> []"
    unfolding hs using last_zip_tl [of ?ys V] by simp_all
  have ne: "?f z \<noteq> []" for z by (cases z) simp
  have "last (concat (map ?f (zip (hid_sizes c) (tl (hid_sizes c))))) = Linear (last ?ys) V"
    using last_concat_map [of "zip (hid_sizes c) (tl (hid_sizes c))" ?f, OF z(2) ne]
    by (simp add: z(1))
  moreover have "concat (map ?f (zip (hid_sizes c) (tl (hid_sizes c)))) \<noteq> []"
    using z(2) ne by (cases "zip (hid_sizes c) (tl (hid_sizes c))") auto
  ultimately have "last (ddg_out_layers c) = Linear (last ?ys) V"
    by (simp add: ddg_out_layers_def d)
  then show ?thesis
    using V hs by (auto simp: d)
qed

theorem head_output_width_witness:
  "snd (snd (set_model_dims example_cfg)) = 21
   \<and> snd (snd (set_model_dims (example_cfg\<lparr>single_target := True\<rparr>))) = 1
   \<and> hid_sizes example_cfg = [256, 64, 32, 21]
   \<and> last (ddg_out_layers example_cfg) = Linear 32 21
   \<and> last (ddg_out_layers (example_cfg\<lparr>single_target := True\<rparr>)) = Linear 32 1"
  using head_output_width [of example_cfg]
        head_output_width [of "example_cfg\<lparr>single_target := True\<rparr>"]
  by (simp add: example_cfg_def set_model_dims_def hid_sizes_def ddg_out_layers_def
        multi_mutations_def)

subsection \<open>Dispatch between the two paths\<close>

text \<open>The definitions that running \<open>forward\<close> on the small model unfolds.\<close>

lemmas eval_defs =
  forward_def backbone_def multi_mutations_def example_cfg_def example_nets_def
  example_inputs_def check_sequence_match_def ncols_def col_def gather_last_def index_at_def
  in_range_def broadcast_diff_sum_def scatter1_def scatter_row_def forward_multi_def
  multi_slots_def side_chain_embeds_of_def multi_features_def cat3_list_def cat3_def
  cat2_def slot_embed_def gather_embed_def size2_def nonlearned_def
  light_attention_all_def unsqueeze_last_def stack_last_def padding_mask_def
  assert_first_visible_def aggregate_def mask_fill_def torch_nanmean_def torch_nansum_def
  torch_sum_def index_ddg_def Let_def forward_single_def single_embeds_def gather_all_def
  squeeze1_def

text \<open>
  C5. \<open>self.multi_mutations\<close> holds exactly when \<open>cfg.model.aggregation\<close> is not
  \<open>None\<close>. In that case \<open>forward\<close> is the backbone stage followed by the
  multi-mutation path and the indexing of the head's output; otherwise it is the
  backbone stage followed by the single-mutation path and the same indexing.
\<close>

theorem forward_dispatches_on_aggregation:
  "(multi_mutations c \<longleftrightarrow> aggregation c \<noteq> None)
   \<and> (aggregation c \<noteq> None \<longrightarrow>
        forward c n inp
          = ebind (backbone c n inp) (\<lambda>(X, S, all_mpnn_hid, mpnn_embed, mpnn_edges).
            ebind (forward_multi c n inp X S all_mpnn_hid mpnn_embed mpnn_edges) (\<lambda>combined.
              index_ddg c (ddg_out n combined) (mut_mutant_AAs inp) (mut_wildtype_AAs inp))))
   \<and> (aggregation c = None \<longrightarrow>
        forward c n inp
          = ebind (backbone c n inp) (\<lambda>(X, S, all_mpnn_hid, mpnn_embed, mpnn_edges).
            ebind (forward_single c n inp X S all_mpnn_hid mpnn_embed mpnn_edges) (\<lambda>gathered.
              index_ddg c (ddg_out n gathered) (mut_mutant_AAs inp) (mut_wildtype_AAs inp))))"
  by (simp add: forward_def multi_mutations_def)

theorem forward_dispatches_on_aggregation_witness:
  "multi_mutations example_cfg
   \<and> forward example_cfg example_nets example_inputs
       = Inr [[Fin 20, Fin 2], [Fin (11 / 2), Fin 55]]
   \<and> \<not> multi_mutations (example_cfg\<lparr>aggregation := None\<rparr>)
   \<and> forward (example_cfg\<lparr>aggregation := None\<rparr>) example_nets
        (example_inputs\<lparr>mut_positions := [[1], [2]], mut_wildtype_AAs := [[5], [1]],
                         mut_mutant_AAs := [[1], [0]]\<rparr>)
       = Inr [[Fin 20], [Fin 6]]"
  using forward_dispatches_on_aggregation [of example_cfg example_nets example_inputs]
        forward_dispatches_on_aggregation [of "example_cfg\<lparr>aggregation := None\<rparr>" example_nets
          "example_inputs\<lparr>mut_positions := [[1], [2]], mut_wildtype_AAs := [[5], [1]],
                         mut_mutant_AAs := [[1], [0]]\<rparr>"]
  by (simp add: eval_defs)

subsection \<open>Stages that raise neither the assertion nor the dispatch error\<close>

lemma quiet_Inr: "quiet (Inr x)"
  by (simp add: quiet_def)

lemma quiet_Inl: "benign e \<Longrightarrow> quiet (Inl e)"
  by (simp add: quiet_def)

lemma quiet_ebind: "quiet m \<Longrightarrow> (\<And>x. quiet (f x)) \<Longrightarrow> quiet (ebind m f)"
  by (cases m) (simp_all add: quiet_def)

lemma quiet_mapM: "(\<And>x. quiet (f x)) \<Longrightarrow> quiet (mapM f xs)"
  by (induction xs) (simp_all add: quiet_Inr quiet_ebind)

lemma quiet_if: "quiet a \<Longrightarrow> quiet b \<Longrightarrow> quiet (if P then a else b)"
  by simp

lemma quiet_option: "quiet a \<Longrightarrow> (\<And>x. quiet (f x)) \<Longrightarrow> quiet (case_option a f opt)"
  by (cases opt) simp_all

lemma quiet_list: "quiet a \<Longrightarrow> (\<And>x xs. quiet (f x xs)) \<Longrightarrow> quiet (case_list a f l)"
  by (cases l) simp_all

lemma quiet_prod: "(\<And>a b. quiet (f a b)) \<Longrightarrow> quiet (case_prod f p)"
  by (cases p) simp

lemma quiet_edge_state:
  "(\<And>x. quiet (f x)) \<Longrightarrow> (\<And>x. quiet (g x)) \<Longrightarrow> quiet (case_edge_state f g s)"
  by (cases s) simp_all

lemma quiet_Let: "quiet (f a) \<Longrightarrow> quiet (Let a f)"
  by simp

lemmas quiet_intros =
  quiet_Inr quiet_ebind quiet_mapM quiet_if quiet_option quiet_list quiet_prod
  quiet_edge_state quiet_Let

lemma quiet_errors:
  "quiet (Inl GatherIndexError)" "quiet (Inl IndexError)" "quiet (Inl EmptyStackError)"
  "quiet (Inl CatRankError)" "quiet (Inl UnboundLocalError)" "quiet (Inl AttributeError)"
  "quiet (Inl TypeError)" "quiet (Inl Unmodelled)"
  by (simp_all add: quiet_def benign_def)

lemma quiet_index_at: "quiet (index_at xs i)"
  unfolding index_at_def by (intro quiet_intros quiet_errors)

lemma quiet_nth_err: "quiet (nth_err xs i)"
  unfolding nth_err_def by (intro quiet_intros quiet_errors)

lemma quiet_torch_stack: "quiet (torch_stack xs)"
  unfolding torch_stack_def by (intro quiet_intros quiet_errors)

lemma quiet_stack_last: "quiet (stack_last xs)"
  unfolding stack_last_def by (intro quiet_intros quiet_errors)

lemma quiet_cat3_list: "quiet (cat3_list xs)"
  unfolding cat3_list_def by (intro quiet_intros quiet_errors)

lemma quiet_torch_max: "quiet (torch_max xs)"
  unfolding torch_max_def by (intro quiet_intros quiet_errors)

lemma quiet_gather_last: "quiet (gather_last t ix)"
  unfolding gather_last_def by (intro quiet_intros quiet_index_at)

lemma quiet_scatter1: "quiet (scatter1 S ix src)"
  unfolding scatter1_def scatter_row_def by (intro quiet_intros quiet_errors)

lemma quiet_check_loop: "quiet (check_loop S wt pos ks)"
  by (induction ks arbitrary: S)
     (simp_all add: quiet_Inr quiet_ebind quiet_gather_last quiet_scatter1)

lemma quiet_check_sequence_match: "quiet (check_sequence_match S wt mut pos)"
  unfolding check_sequence_match_def by (rule quiet_check_loop)

lemma quiet_gather_embed: "quiet (gather_embed t p)"
  unfolding gather_embed_def by (intro quiet_intros quiet_index_at)

lemma quiet_gather_all: "quiet (gather_all t p)"
  unfolding gather_all_def by (intro quiet_intros quiet_index_at)

lemma quiet_squeeze1: "quiet (squeeze1 t)"
  unfolding squeeze1_def by (intro quiet_intros quiet_errors)

lemma quiet_batched_index_select: "quiet (batched_index_select t p)"
  unfolding batched_index_select_def by (intro quiet_intros quiet_index_at)

lemma quiet_edge_to: "quiet (edge_to edges_b E_row p)"
  unfolding edge_to_def by (intro quiet_intros quiet_nth_err)

lemma quiet_sample_edge: "quiet (sample_edge edges_b E_row pos_row k)"
  unfolding sample_edge_def by (intro quiet_intros quiet_errors quiet_edge_to)

lemma quiet_edges_for_slot: "quiet (edges_for_slot mpnn_edges E_idx pos k)"
  unfolding edges_for_slot_def
  by (intro quiet_intros quiet_batched_index_select quiet_sample_edge quiet_torch_stack)

lemma quiet_multi_edges: "quiet (multi_edges mpnn_edges E_idx pos)"
  unfolding multi_edges_def by (intro quiet_intros quiet_edges_for_slot quiet_torch_stack)

lemma quiet_multi_dist: "quiet (multi_dist pd X pos)"
  unfolding multi_dist_def
  by (intro quiet_intros quiet_batched_index_select quiet_torch_stack)

lemma quiet_multi_features: "quiet (multi_features c n X res_mask mut pos hid emb edg)"
  unfolding multi_features_def
  by (intro quiet_intros quiet_cat3_list quiet_torch_stack quiet_multi_edges quiet_multi_dist)

lemma quiet_slot_embed: "quiet (slot_embed c n emb me es dX sc pos i)"
  unfolding slot_embed_def
  by (intro quiet_intros quiet_errors quiet_gather_embed quiet_nth_err)

lemma quiet_side_chain_embeds_of: "quiet (side_chain_embeds_of c n inp X S hid)"
  unfolding side_chain_embeds_of_def by (intro quiet_intros quiet_nth_err)

lemma quiet_multi_slots: "quiet (multi_slots c n inp X S hid emb edg)"
  unfolding multi_slots_def
  by (intro quiet_intros quiet_side_chain_embeds_of quiet_multi_features quiet_slot_embed)

lemma quiet_light_attention_all: "quiet (light_attention_all c n embs)"
  unfolding light_attention_all_def by (intro quiet_intros quiet_errors)

lemma quiet_masked_max: "quiet (mapM (mapM torch_max) t)"
  by (intro quiet_intros quiet_torch_max)

lemma quiet_single_embeds: "quiet (single_embeds c hid emb edg sc)"
  unfolding single_embeds_def by (intro quiet_intros quiet_errors quiet_cat3_list)

lemma quiet_forward_single: "quiet (forward_single c n inp X S hid emb edg)"
  unfolding forward_single_def
  by (intro quiet_intros quiet_errors quiet_side_chain_embeds_of quiet_single_embeds
        quiet_gather_all quiet_squeeze1)

lemma quiet_index_ddg: "quiet (index_ddg c ddg mut wt)"
  unfolding index_ddg_def by (intro quiet_intros quiet_gather_last)

lemma quiet_backbone: "quiet (backbone c n inp)"
  unfolding backbone_def by (intro quiet_intros quiet_check_sequence_match)

subsection \<open>The assertion on the first slot and the aggregation dispatch\<close>

lemma quietD: "quiet m \<Longrightarrow> m = Inl e \<Longrightarrow> e \<noteq> AssertionError \<and> e \<noteq> ValueError"
  by (simp add: quiet_def benign_def)

lemma is_error_ebind: "(\<And>x. \<exists>e. f x = Inl e) \<Longrightarrow> \<exists>e. ebind m f = Inl e"
  by (cases m) simp_all

lemma is_error_ebind_first: "\<exists>e. m = Inl e \<Longrightarrow> \<exists>e. ebind m f = Inl e"
  by auto

lemma aggregate_errors:
  "aggregate agg pm t = Inl e \<Longrightarrow>
     e \<noteq> AssertionError
     \<and> (e = ValueError \<longrightarrow> agg \<noteq> Some ''mean'' \<and> agg \<noteq> Some ''sum''
                              \<and> agg \<noteq> Some ''prod'' \<and> agg \<noteq> Some ''max'')"
  using quietD [OF quiet_masked_max]
  by (auto simp: aggregate_def split: if_splits)

lemma aggregate_invalid:
  "agg \<noteq> Some ''mean'' \<Longrightarrow> agg \<noteq> Some ''sum'' \<Longrightarrow> agg \<noteq> Some ''prod'' \<Longrightarrow> agg \<noteq> Some ''max''
     \<Longrightarrow> aggregate agg pm t = Inl ValueError"
  by (simp add: aggregate_def)

lemma assert_first_visible_errors:
  "assert_first_visible pm = Inl e \<Longrightarrow> e \<noteq> ValueError"
  by (auto simp: assert_first_visible_def split: if_splits)

lemma ebind_quiet_rest:
  "ebind m f = Inl e \<Longrightarrow> (\<And>x. quiet (f x)) \<Longrightarrow> m = Inl e \<or> (e \<noteq> AssertionError \<and> e \<noteq> ValueError)"
  by (cases m) (auto dest: quietD)

lemma learned_errors:
  assumes "learned c n embs mut wt pos = Inl e"
  shows "e \<noteq> ValueError"
    and "e = AssertionError \<Longrightarrow> assert_first_visible (padding_mask mut wt pos) = Inl AssertionError"
proof -
  have "assert_first_visible (padding_mask mut wt pos) = Inl e
          \<or> (e \<noteq> AssertionError \<and> e \<noteq> ValueError)"
    using assms unfolding learned_def Let_def
    by (rule ebind_quiet_rest)
       (intro quiet_intros quiet_errors quiet_stack_last quiet_masked_max)
  then show "e \<noteq> ValueError"
    and "e = AssertionError \<Longrightarrow> assert_first_visible (padding_mask mut wt pos) = Inl AssertionError"
    using assert_first_visible_errors by auto
qed

lemma nonlearned_errors:
  assumes "nonlearned c n embs mut wt pos = Inl e"
  shows "e = AssertionError \<Longrightarrow> assert_first_visible (padding_mask mut wt pos) = Inl AssertionError"
    and "e = ValueError \<Longrightarrow> aggregation c \<noteq> Some ''mean'' \<and> aggregation c \<noteq> Some ''sum''
                              \<and> aggregation c \<noteq> Some ''prod'' \<and> aggregation c \<noteq> Some ''max''"
  using assms quietD [OF quiet_light_attention_all] quietD [OF quiet_stack_last]
        aggregate_errors assert_first_visible_errors
  unfolding nonlearned_def Let_def
  by (auto simp: ebind_eq_Inl) blast+


lemma forward_multi_errors:
  assumes "forward_multi c n inp X S hid emb edg = Inl e"
  shows "e = AssertionError \<Longrightarrow>
           assert_first_visible (padding_mask (mut_mutant_AAs inp) (mut_wildtype_AAs inp)
             (mut_positions inp)) = Inl AssertionError"
    and "e = ValueError \<Longrightarrow>
           aggregation c \<noteq> Some ''mpnn'' \<and> aggregation c \<noteq> Some ''mean''
           \<and> aggregation c \<noteq> Some ''sum'' \<and> aggregation c \<noteq> Some ''prod''
           \<and> aggregation c \<noteq> Some ''max''"
  using assms quietD [OF quiet_multi_slots] learned_errors nonlearned_errors
  unfolding forward_multi_def
  by (auto simp: ebind_eq_Inl split: if_splits) blast+

lemma forward_errors:
  assumes "forward c n inp = Inl e" and "e = AssertionError \<or> e = ValueError"
  shows "multi_mutations c
         \<and> (\<exists>X S hid emb edg. forward_multi c n inp X S hid emb edg = Inl e)"
proof -
  from assms(1) obtain X S hid emb edg where
    "(if multi_mutations c then forward_multi c n inp X S hid emb edg
      else forward_single c n inp X S hid emb edg) = Inl e"
    unfolding forward_def
    using assms(2) quietD [OF quiet_backbone] quietD [OF quiet_index_ddg]
    by (auto simp: ebind_eq_Inl) blast+
  then show ?thesis
    using assms(2) quietD [OF quiet_forward_single]
    by (auto split: if_splits) blast+
qed

lemma multi_slots_length:
  "multi_slots c n inp X S hid emb edg = Inr embs \<Longrightarrow> length embs = ncols (mut_mutant_AAs inp)"
  unfolding multi_slots_def
  by (auto simp: ebind_eq_Inr dest: mapM_length)

lemma ncols_is_mat: "is_mat B N t \<Longrightarrow> 0 < B \<Longrightarrow> ncols t = N"
  by (cases t) (auto simp: is_mat_def ncols_def)

lemma nonlearned_is_error:
  assumes "assert_first_visible (padding_mask mut wt pos) = Inl AssertionError
           \<or> (aggregation c \<noteq> Some ''mean'' \<and> aggregation c \<noteq> Some ''sum''
               \<and> aggregation c \<noteq> Some ''prod'' \<and> aggregation c \<noteq> Some ''max'')"
  shows "\<exists>e. nonlearned c n embs mut wt pos = Inl e"
proof -
  have "\<exists>e. ebind (assert_first_visible (padding_mask mut wt pos))
              (\<lambda>_. aggregate (aggregation c) (padding_mask mut wt pos) st) = Inl e" for st
    using assms
    by (cases "assert_first_visible (padding_mask mut wt pos)") (auto simp: aggregate_invalid)
  then have "\<exists>e. ebind (stack_last la)
              (\<lambda>st. ebind (assert_first_visible (padding_mask mut wt pos))
                 (\<lambda>_. aggregate (aggregation c) (padding_mask mut wt pos) st)) = Inl e" for la
    by (rule is_error_ebind)
  then show ?thesis
    unfolding nonlearned_def Let_def by (rule is_error_ebind)
qed

lemma nonlearned_reaches_assert:
  assumes "lightattn c" and "embs \<noteq> []"
  shows "nonlearned c n embs mut wt pos
           = ebind (assert_first_visible (padding_mask mut wt pos)) (\<lambda>_.
               aggregate (aggregation c) (padding_mask mut wt pos)
                 (projr (stack_last (map (\<lambda>emb. light_attention n (unsqueeze_last emb)) embs))))"
proof -
  let ?la = "map (\<lambda>emb. light_attention n (unsqueeze_last emb)) embs"
  have 1: "light_attention_all c n embs = Inr ?la"
    unfolding light_attention_all_def using assms(1) by (intro mapM_Inr) simp
  have "?la \<noteq> []" using assms(2) by simp
  then obtain st where 2: "stack_last ?la = Inr st"
    by (cases ?la) (auto simp: stack_last_def)
  show ?thesis
    by (simp add: nonlearned_def Let_def 1 2)
qed


lemma learned_assert_fails:
  "assert_first_visible (padding_mask mut wt pos) = Inl AssertionError
     \<Longrightarrow> learned c n embs mut wt pos = Inl AssertionError"
  by (simp add: learned_def Let_def)

lemma forward_multi_is_error:
  assumes "assert_first_visible (padding_mask (mut_mutant_AAs inp) (mut_wildtype_AAs inp)
             (mut_positions inp)) = Inl AssertionError
           \<or> (aggregation c \<noteq> Some ''mpnn'' \<and> aggregation c \<noteq> Some ''mean''
               \<and> aggregation c \<noteq> Some ''sum'' \<and> aggregation c \<noteq> Some ''prod''
               \<and> aggregation c \<noteq> Some ''max'')"
  shows "\<exists>e. forward_multi c n inp X S hid emb edg = Inl e"
  unfolding forward_multi_def
proof (rule is_error_ebind)
  fix embs
  show "\<exists>e. (if aggregation c = Some ''mpnn''
              then learned c n embs (mut_mutant_AAs inp) (mut_wildtype_AAs inp) (mut_positions inp)
              else nonlearned c n embs (mut_mutant_AAs inp) (mut_wildtype_AAs inp)
                     (mut_positions inp)) = Inl e"
    using assms learned_assert_fails [of "mut_mutant_AAs inp" "mut_wildtype_AAs inp"
            "mut_positions inp" c n embs]
          nonlearned_is_error [of "mut_mutant_AAs inp" "mut_wildtype_AAs inp"
            "mut_positions inp" c n embs]
    by auto
qed

lemma forward_is_error:
  assumes "multi_mutations c"
      and "\<And>X S hid emb edg. \<exists>e. forward_multi c n inp X S hid emb edg = Inl e"
  shows "\<exists>e. forward c n inp = Inl e"
  unfolding forward_def
proof (rule is_error_ebind)
  fix x :: "ten4 \<times> idx2 \<times> ten3 list \<times> ten3 \<times> ten4"
  obtain X S hid emb edg where x: "x = (X, S, hid, emb, edg)"
    by (cases x) auto
  show "\<exists>e. (case x of (X, S, all_mpnn_hid, mpnn_embed, mpnn_edges) \<Rightarrow>
           ebind (if multi_mutations c
                  then forward_multi c n inp X S all_mpnn_hid mpnn_embed mpnn_edges
                  else forward_single c n inp X S all_mpnn_hid mpnn_embed mpnn_edges)
             (\<lambda>mpnn_embed. index_ddg c (ddg_out n mpnn_embed) (mut_mutant_AAs inp)
                              (mut_wildtype_AAs inp))) = Inl e"
    using assms(1) assms(2) [of X S hid emb edg] by (auto simp: x)
qed

lemma nonlearned_without_lightattn:
  assumes "\<not> lightattn c" and "embs \<noteq> []"
  shows "nonlearned c n embs mut wt pos = Inl AttributeError"
  using assms by (cases embs) (simp_all add: nonlearned_def light_attention_all_def)

text \<open>
  C9. Let the three mutation tensors have shape \<open>(B, N)\<close> with \<open>B, N \<ge> 1\<close>, and
  let the aggregation be one of the non-learned ones (any string but \<open>'mpnn'\<close>). If the
  first slot of some batch element has position, wild type and mutant summing to zero,
  \<open>forward\<close> never returns a result: such a batch, and with it a genuine first
  mutation written with three zeros, is rejected. The exception is the
  \<open>AssertionError\<close> when the steps before the assertion complete: the backbone
  stage and the loop over the slots return, and \<open>cfg.model.lightattn\<close> is set. When
  \<open>cfg.model.lightattn\<close> is not set, the call of \<open>self.light_attention\<close> that
  stands before the assertion raises \<open>AttributeError\<close>, whatever the first slots
  hold. If the sum is nonzero for every batch element, \<open>forward\<close> does not raise
  \<open>AssertionError\<close>; and it raises \<open>AssertionError\<close> in multi-mutation mode only.
\<close>

theorem first_slot_must_be_visible:
  assumes shapes: "is_mat B N (mut_mutant_AAs inp)" "is_mat B N (mut_wildtype_AAs inp)"
                  "is_mat B N (mut_positions inp)"
      and sizes: "0 < N" "0 < B"
  shows "(aggregation c = Some a \<and> a \<noteq> ''mpnn''
            \<and> (\<exists>b<B. mut_positions inp ! b ! 0 + mut_wildtype_AAs inp ! b ! 0
                       + mut_mutant_AAs inp ! b ! 0 = 0) \<longrightarrow>
            (\<exists>e. forward c n inp = Inl e))
       \<and> (aggregation c = Some a \<and> a \<noteq> ''mpnn''
            \<and> (\<exists>b<B. mut_positions inp ! b ! 0 + mut_wildtype_AAs inp ! b ! 0
                       + mut_mutant_AAs inp ! b ! 0 = 0)
            \<and> backbone c n inp = Inr (X, S, hid, emb, edg)
            \<and> multi_slots c n inp X S hid emb edg = Inr embs
            \<and> lightattn c \<longrightarrow>
            forward c n inp = Inl AssertionError)
       \<and> (aggregation c = Some a \<and> a \<noteq> ''mpnn''
            \<and> backbone c n inp = Inr (X, S, hid, emb, edg)
            \<and> multi_slots c n inp X S hid emb edg = Inr embs
            \<and> \<not> lightattn c \<longrightarrow>
            forward c n inp = Inl AttributeError)
       \<and> ((\<forall>b<B. mut_positions inp ! b ! 0 + mut_wildtype_AAs inp ! b ! 0
                       + mut_mutant_AAs inp ! b ! 0 \<noteq> 0) \<longrightarrow>
            forward c n inp \<noteq> Inl AssertionError)
       \<and> (forward c n inp = Inl AssertionError \<longrightarrow> multi_mutations c)"
proof -
  let ?mut = "mut_mutant_AAs inp" and ?wt = "mut_wildtype_AAs inp" and ?pos = "mut_positions inp"
  let ?am = "assert_first_visible (padding_mask ?mut ?wt ?pos)"
  have comm: "?pos ! b ! 0 + ?wt ! b ! 0 + ?mut ! b ! 0 = ?mut ! b ! 0 + ?wt ! b ! 0 + ?pos ! b ! 0"
    for b by (simp add: ac_simps)
  have am: "?am = (if \<forall>b<B. ?pos ! b ! 0 + ?wt ! b ! 0 + ?mut ! b ! 0 \<noteq> 0 then Inr ()
                   else Inl AssertionError)"
    using assert_first_visible_shape [OF shapes sizes] by (simp only: comm)
  have ne: "embs \<noteq> []" if "multi_slots c n inp X S hid emb edg = Inr embs"
  proof -
    have "length embs = N"
      using that multi_slots_length [of c n inp X S hid emb edg embs]
            ncols_is_mat [OF shapes(1) sizes(2)] by simp
    then show ?thesis using sizes(1) by auto
  qed
  have 1: "\<exists>e. forward c n inp = Inl e"
    if "aggregation c = Some a \<and> a \<noteq> ''mpnn''
        \<and> (\<exists>b<B. ?pos ! b ! 0 + ?wt ! b ! 0 + ?mut ! b ! 0 = 0)"
  proof -
    have "?am = Inl AssertionError" using that am by auto
    then have "\<exists>e. forward_multi c n inp X S hid emb edg = Inl e" for X S hid emb edg
      by (intro forward_multi_is_error) simp
    then show ?thesis using that by (intro forward_is_error) (simp_all add: multi_mutations_def)
  qed
  have 2: "forward c n inp = Inl AssertionError"
    if h: "aggregation c = Some a \<and> a \<noteq> ''mpnn''
            \<and> (\<exists>b<B. ?pos ! b ! 0 + ?wt ! b ! 0 + ?mut ! b ! 0 = 0)
            \<and> backbone c n inp = Inr (X, S, hid, emb, edg)
            \<and> multi_slots c n inp X S hid emb edg = Inr embs
            \<and> lightattn c"
  proof -
    have f: "?am = Inl AssertionError" using h am by auto
    have la: "lightattn c" using h by simp
    have "nonlearned c n embs ?mut ?wt ?pos = Inl AssertionError"
      using nonlearned_reaches_assert [OF la ne, of n ?mut ?wt ?pos] h f by simp
    then have "forward_multi c n inp X S hid emb edg = Inl AssertionError"
      using h by (simp add: forward_multi_def)
    then show ?thesis using h by (simp add: forward_def multi_mutations_def)
  qed
  have 3: "forward c n inp = Inl AttributeError"
    if h: "aggregation c = Some a \<and> a \<noteq> ''mpnn''
            \<and> backbone c n inp = Inr (X, S, hid, emb, edg)
            \<and> multi_slots c n inp X S hid emb edg = Inr embs
            \<and> \<not> lightattn c"
  proof -
    have la: "\<not> lightattn c" using h by simp
    have "nonlearned c n embs ?mut ?wt ?pos = Inl AttributeError"
      using nonlearned_without_lightattn [OF la ne] h by simp
    then have "forward_multi c n inp X S hid emb edg = Inl AttributeError"
      using h by (simp add: forward_multi_def)
    then show ?thesis using h by (simp add: forward_def multi_mutations_def)
  qed
  have 5: "multi_mutations c \<and> ?am = Inl AssertionError"
    if "forward c n inp = Inl AssertionError"
    using forward_errors [OF that] forward_multi_errors(1) by blast
  have 4: "forward c n inp \<noteq> Inl AssertionError"
    if "\<forall>b<B. ?pos ! b ! 0 + ?wt ! b ! 0 + ?mut ! b ! 0 \<noteq> 0"
    using 5 am that by auto
  show ?thesis
    using 1 2 3 4 5 by blast
qed

theorem first_slot_must_be_visible_witness:
  "forward example_cfg example_nets
     (example_inputs\<lparr>mut_positions := [[0, 0], [1, 2]], mut_wildtype_AAs := [[0, 0], [7, 1]],
                      mut_mutant_AAs := [[0, 0], [0, 1]]\<rparr>) = Inl AssertionError
   \<and> forward (example_cfg\<lparr>lightattn := False\<rparr>) example_nets example_inputs = Inl AttributeError
   \<and> forward example_cfg example_nets example_inputs \<noteq> Inl AssertionError"
proof -
  let ?inp = "example_inputs\<lparr>mut_positions := [[0, 0], [1, 2]],
                mut_wildtype_AAs := [[0, 0], [7, 1]], mut_mutant_AAs := [[0, 0], [0, 1]]\<rparr>"
  let ?c = "example_cfg\<lparr>lightattn := False\<rparr>"
  have sh0: "is_mat 2 2 (mut_mutant_AAs ?inp)" "is_mat 2 2 (mut_wildtype_AAs ?inp)"
            "is_mat 2 2 (mut_positions ?inp)"
    by (simp_all add: is_mat_def)
  have sh1: "is_mat 2 2 (mut_mutant_AAs example_inputs)"
            "is_mat 2 2 (mut_wildtype_AAs example_inputs)"
            "is_mat 2 2 (mut_positions example_inputs)"
    by (simp_all add: is_mat_def example_inputs_def)
  have sz: "0 < (2::nat)" by simp
  have zero: "\<exists>b<2. mut_positions ?inp ! b ! 0 + mut_wildtype_AAs ?inp ! b ! 0
                       + mut_mutant_AAs ?inp ! b ! 0 = 0"
    by (intro exI [of _ 0]) simp
  have mm: "aggregation example_cfg = Some ''mean''" "''mean'' \<noteq> ''mpnn''" "lightattn example_cfg"
    by (simp_all add: example_cfg_def)
  have mc: "aggregation ?c = Some ''mean''" "\<not> lightattn ?c"
    by (simp_all add: example_cfg_def)
  obtain X S hid emb edg where bb: "backbone example_cfg example_nets ?inp = Inr (X, S, hid, emb, edg)"
    by (cases "backbone example_cfg example_nets ?inp")
       (insert quiet_backbone [of example_cfg example_nets ?inp],
        auto simp: backbone_def multi_mutations_def example_cfg_def example_inputs_def
          check_sequence_match_def ncols_def col_def gather_last_def index_at_def in_range_def
          broadcast_diff_sum_def scatter1_def scatter_row_def Let_def split: prod.splits)
  have "\<exists>embs. multi_slots example_cfg example_nets ?inp X S hid emb edg = Inr embs"
    using bb
    by (auto simp: eval_defs)
  then obtain embs where ms: "multi_slots example_cfg example_nets ?inp X S hid emb edg = Inr embs"
    by blast
  have 1: "forward example_cfg example_nets ?inp = Inl AssertionError"
    using first_slot_must_be_visible [OF sh0 sz sz, of example_cfg "''mean''" example_nets
            X S hid emb edg embs]
          zero mm bb ms
    by blast
  obtain X' S' hid' emb' edg' where
    bb': "backbone ?c example_nets example_inputs = Inr (X', S', hid', emb', edg')"
    by (cases "backbone ?c example_nets example_inputs")
       (insert quiet_backbone [of ?c example_nets example_inputs],
        auto simp: backbone_def multi_mutations_def example_cfg_def example_inputs_def
          check_sequence_match_def ncols_def col_def gather_last_def index_at_def in_range_def
          broadcast_diff_sum_def scatter1_def scatter_row_def Let_def split: prod.splits)
  have "\<exists>embs. multi_slots ?c example_nets example_inputs X' S' hid' emb' edg' = Inr embs"
    using bb'
    by (auto simp: eval_defs)
  then obtain embs' where
    ms': "multi_slots ?c example_nets example_inputs X' S' hid' emb' edg' = Inr embs'"
    by blast
  have 3: "forward ?c example_nets example_inputs = Inl AttributeError"
    using first_slot_must_be_visible [OF sh1 sz sz, of ?c "''mean''" example_nets
            X' S' hid' emb' edg' embs']
          mc mm(2) bb' ms'
    by blast
  have vis: "\<forall>b<2. mut_positions example_inputs ! b ! 0 + mut_wildtype_AAs example_inputs ! b ! 0
                       + mut_mutant_AAs example_inputs ! b ! 0 \<noteq> 0"
    by (simp add: all_less_2 example_inputs_def)
  have 2: "forward example_cfg example_nets example_inputs \<noteq> Inl AssertionError"
    using first_slot_must_be_visible [OF sh1 sz sz, of example_cfg _ example_nets] vis
    by blast
  show ?thesis using 1 2 3 by simp
qed

text \<open>
  C9, as stated, fails when \<open>cfg.model.lightattn\<close> is off: the model has no
  attribute \<open>light_attention\<close>, the loop that runs every slot through it stands
  before the assertion, and so a batch whose first slot is padding is rejected with
  \<open>AttributeError\<close>, not with \<open>AssertionError\<close>.
\<close>

theorem masked_first_slot_without_lightattn:
  "multi_mutations (example_cfg\<lparr>lightattn := False\<rparr>)
   \<and> forward (example_cfg\<lparr>lightattn := False\<rparr>) example_nets
       (example_inputs\<lparr>mut_positions := [[0, 0], [1, 2]], mut_wildtype_AAs := [[0, 0], [7, 1]],
                        mut_mutant_AAs := [[0, 0], [0, 1]]\<rparr>) = Inl AttributeError
   \<and> (Inl AttributeError :: error + mat) \<noteq> Inl AssertionError"
  by (simp add: eval_defs)

text \<open>
  C4. In multi-mutation mode with an aggregation string other than \<open>'mpnn'\<close>,
  \<open>'mean'\<close>, \<open>'sum'\<close>, \<open>'prod'\<close> and \<open>'max'\<close>, \<open>forward\<close> never returns a
  result. The exception is the \<open>ValueError\<close> of the dispatch whenever the steps before
  the dispatch complete: the backbone stage and the loop over the slots return,
  LightAttention is present, and the first slot of every batch element is visible (the
  tensors being of shape \<open>(B, N)\<close> with \<open>B, N \<ge> 1\<close>). Conversely \<open>forward\<close>
  raises \<open>ValueError\<close> only for such an aggregation string.
\<close>

theorem invalid_aggregation_raises:
  assumes shapes: "is_mat B N (mut_mutant_AAs inp)" "is_mat B N (mut_wildtype_AAs inp)"
                  "is_mat B N (mut_positions inp)"
      and sizes: "0 < N" "0 < B"
  shows "(aggregation c = Some a \<and> a \<notin> {''mpnn'', ''mean'', ''sum'', ''prod'', ''max''} \<longrightarrow>
            (\<exists>e. forward c n inp = Inl e))
       \<and> (aggregation c = Some a \<and> a \<notin> {''mpnn'', ''mean'', ''sum'', ''prod'', ''max''}
            \<and> backbone c n inp = Inr (X, S, hid, emb, edg)
            \<and> multi_slots c n inp X S hid emb edg = Inr embs
            \<and> lightattn c
            \<and> (\<forall>b<B. mut_mutant_AAs inp ! b ! 0 + mut_wildtype_AAs inp ! b ! 0
                       + mut_positions inp ! b ! 0 \<noteq> 0) \<longrightarrow>
            forward c n inp = Inl ValueError)
       \<and> (forward c n inp = Inl ValueError \<longrightarrow>
            (\<exists>a'. aggregation c = Some a'
                   \<and> a' \<notin> {''mpnn'', ''mean'', ''sum'', ''prod'', ''max''}))"
proof -
  let ?mut = "mut_mutant_AAs inp" and ?wt = "mut_wildtype_AAs inp" and ?pos = "mut_positions inp"
  let ?am = "assert_first_visible (padding_mask ?mut ?wt ?pos)"
  let ?bad = "aggregation c \<noteq> Some ''mpnn'' \<and> aggregation c \<noteq> Some ''mean''
               \<and> aggregation c \<noteq> Some ''sum'' \<and> aggregation c \<noteq> Some ''prod''
               \<and> aggregation c \<noteq> Some ''max''"
  have 1: "\<exists>e. forward c n inp = Inl e"
    if h: "aggregation c = Some a \<and> a \<notin> {''mpnn'', ''mean'', ''sum'', ''prod'', ''max''}"
  proof -
    have ?bad using h by auto
    then have "\<exists>e. forward_multi c n inp X S hid emb edg = Inl e" for X S hid emb edg
      by (intro forward_multi_is_error) simp
    then show ?thesis using h by (intro forward_is_error) (simp_all add: multi_mutations_def)
  qed
  have 2: "forward c n inp = Inl ValueError"
    if h: "aggregation c = Some a \<and> a \<notin> {''mpnn'', ''mean'', ''sum'', ''prod'', ''max''}
            \<and> backbone c n inp = Inr (X, S, hid, emb, edg)
            \<and> multi_slots c n inp X S hid emb edg = Inr embs
            \<and> lightattn c
            \<and> (\<forall>b<B. ?mut ! b ! 0 + ?wt ! b ! 0 + ?pos ! b ! 0 \<noteq> 0)"
  proof -
    have bad: ?bad using h by auto
    have am: "?am = Inr ()"
      using assert_first_visible_shape [OF shapes sizes] h by simp
    have "length embs = N"
      using h multi_slots_length [of c n inp X S hid emb edg embs]
            ncols_is_mat [OF shapes(1) sizes(2)] by simp
    then have ne: "embs \<noteq> []" using sizes(1) by auto
    have la: "lightattn c" using h by simp
    have "nonlearned c n embs ?mut ?wt ?pos = Inl ValueError"
      using nonlearned_reaches_assert [OF la ne, of n ?mut ?wt ?pos] am bad
      by (simp add: aggregate_invalid)
    then have "forward_multi c n inp X S hid emb edg = Inl ValueError"
      using h bad by (simp add: forward_multi_def)
    then show ?thesis using h by (simp add: forward_def multi_mutations_def)
  qed
  have 3: "\<exists>a'. aggregation c = Some a' \<and> a' \<notin> {''mpnn'', ''mean'', ''sum'', ''prod'', ''max''}"
    if "forward c n inp = Inl ValueError"
  proof -
    have "multi_mutations c \<and> ?bad"
      using forward_errors [OF that] forward_multi_errors(2) by blast
    then show ?thesis
      by (cases "aggregation c") (auto simp: multi_mutations_def)
  qed
  show ?thesis
    using 1 2 3 by blast
qed

theorem invalid_aggregation_raises_witness:
  "forward (example_cfg\<lparr>aggregation := Some ''median''\<rparr>) example_nets example_inputs
     = Inl ValueError
   \<and> forward example_cfg example_nets example_inputs \<noteq> Inl ValueError"
proof -
  let ?c = "example_cfg\<lparr>aggregation := Some ''median''\<rparr>"
  have sh1: "is_mat 2 2 (mut_mutant_AAs example_inputs)"
            "is_mat 2 2 (mut_wildtype_AAs example_inputs)"
            "is_mat 2 2 (mut_positions example_inputs)"
    by (simp_all add: is_mat_def example_inputs_def)
  have sz: "0 < (2::nat)" by simp
  have agg: "aggregation ?c = Some ''median''"
            "''median'' \<notin> {''mpnn'', ''mean'', ''sum'', ''prod'', ''max''}"
            "lightattn ?c"
    by (simp_all add: example_cfg_def)
  have vis: "\<forall>b<2. mut_mutant_AAs example_inputs ! b ! 0 + mut_wildtype_AAs example_inputs ! b ! 0
                       + mut_positions example_inputs ! b ! 0 \<noteq> 0"
    by (simp add: all_less_2 example_inputs_def)
  obtain X S hid emb edg where
    bb: "backbone ?c example_nets example_inputs = Inr (X, S, hid, emb, edg)"
    by (cases "backbone ?c example_nets example_inputs")
       (insert quiet_backbone [of ?c example_nets example_inputs],
        auto simp: backbone_def multi_mutations_def example_cfg_def example_inputs_def
          check_sequence_match_def ncols_def col_def gather_last_def index_at_def in_range_def
          broadcast_diff_sum_def scatter1_def scatter_row_def Let_def split: prod.splits)
  have "\<exists>embs. multi_slots ?c example_nets example_inputs X S hid emb edg = Inr embs"
    using bb by (auto simp: eval_defs)
  then obtain embs where
    ms: "multi_slots ?c example_nets example_inputs X S hid emb edg = Inr embs"
    by blast
  have 1: "forward ?c example_nets example_inputs = Inl ValueError"
    using invalid_aggregation_raises [OF sh1 sz sz, of ?c "''median''" example_nets X S hid emb edg embs]
          agg vis bb ms
    by blast
  have "aggregation example_cfg = Some ''mean''" by (simp add: example_cfg_def)
  then have 2: "forward example_cfg example_nets example_inputs \<noteq> Inl ValueError"
    using invalid_aggregation_raises [OF sh1 sz sz, of example_cfg _ example_nets]
    by auto
  show ?thesis using 1 2 by simp
qed

text \<open>
  C4, as stated, fails on a batch whose first slot is padding: the assertion on the
  first slot stands before the dispatch, so with an invalid aggregation string the
  exception raised there is the \<open>AssertionError\<close>, not the \<open>ValueError\<close>.
\<close>

theorem invalid_aggregation_with_masked_first_slot:
  "aggregation (example_cfg\<lparr>aggregation := Some ''median''\<rparr>) = Some ''median''
   \<and> forward (example_cfg\<lparr>aggregation := Some ''median''\<rparr>) example_nets
       (example_inputs\<lparr>mut_positions := [[0, 0], [1, 2]], mut_wildtype_AAs := [[0, 0], [7, 1]],
                        mut_mutant_AAs := [[0, 0], [0, 1]]\<rparr>) = Inl AssertionError
   \<and> (Inl AssertionError :: error + mat) \<noteq> Inl ValueError"
  by (simp add: eval_defs)

subsection \<open>Edge features come from neighbours only\<close>

lemma first_match_None: "first_match E_row p = None \<longleftrightarrow> p \<notin> set E_row"
proof -
  have "filter (\<lambda>k. E_row ! k = p) [0..<length E_row] = [] \<longleftrightarrow> p \<notin> set E_row"
    by (auto simp: filter_empty_conv in_set_conv_nth)
  then show ?thesis
    by (auto simp: first_match_def split: list.splits)
qed

lemma first_match_Some:
  assumes "first_match E_row p = Some k"
  shows "k < length E_row \<and> E_row ! k = p"
proof -
  from assms obtain rest where "filter (\<lambda>k. E_row ! k = p) [0..<length E_row] = k # rest"
    by (auto simp: first_match_def split: list.splits)
  then have "k \<in> set (filter (\<lambda>k. E_row ! k = p) [0..<length E_row])"
    by simp
  then show ?thesis by simp
qed

lemma edge_to_cases:
  assumes "length E_row \<le> length edges_b"
  shows "edge_to edges_b E_row p
           = Inr (if p \<in> set E_row then edges_b ! the (first_match E_row p)
                  else replicate (ncols edges_b) NaN)"
proof (cases "first_match E_row p")
  case None
  then have "p \<notin> set E_row" using first_match_None [of E_row p] by simp
  then show ?thesis using None by (simp add: edge_to_def)
next
  case (Some k)
  then have "k < length E_row" "p \<in> set E_row"
    using first_match_Some [OF Some] first_match_None [of E_row p] by auto
  then show ?thesis using Some assms by (simp add: edge_to_def nth_err_def)
qed

lemma torch_nanmean_empty: "nan_to_num (torch_nanmean []) = Fin 0"
  by (simp add: torch_nanmean_def torch_nansum_def torch_sum_def)

lemma sample_edge_neighbours:
  assumes K: "length E_row \<le> length edges_b"
      and rect: "\<forall>v\<in>set edges_b. length v = ncols edges_b"
      and others: "\<exists>n_o<length pos_row. n_o \<noteq> n_current"
  shows "sample_edge edges_b E_row pos_row n_current
           = Inr (neighbour_edge_mean edges_b E_row pos_row n_current)"
proof -
  let ?C = "ncols edges_b"
  let ?others = "filter (\<lambda>a. a \<noteq> n_current) [0..<length pos_row]"
  let ?found = "\<lambda>n_o. pos_row ! n_o \<in> set E_row"
  let ?e = "\<lambda>n_o. edges_b ! the (first_match E_row (pos_row ! n_o))"
  let ?g = "\<lambda>n_o. if ?found n_o then ?e n_o else replicate ?C NaN"
  have tmp: "mapM (\<lambda>n_o. edge_to edges_b E_row (pos_row ! n_o)) ?others = Inr (map ?g ?others)"
    by (rule mapM_Inr) (simp add: edge_to_cases [OF K])
  have len: "length (?g n_o) = ?C" for n_o
  proof (cases "?found n_o")
    case True
    then obtain k where k: "first_match E_row (pos_row ! n_o) = Some k"
      using first_match_None [of E_row "pos_row ! n_o"] by (cases "first_match E_row (pos_row ! n_o)") auto
    then have "k < length edges_b" using first_match_Some [OF k] K by simp
    then have "edges_b ! k \<in> set edges_b" by simp
    then show ?thesis using rect True k by simp
  next
    case False
    then show ?thesis by simp
  qed
  obtain o1 rest where o: "?others = o1 # rest"
    using others by (cases ?others) (auto simp: filter_empty_conv)
  have chan: "torch_nanmean (map (\<lambda>u. u ! ch) (map ?g ?others))
                = torch_nanmean (map (\<lambda>n_o. ?e n_o ! ch) (filter ?found ?others))"
    if "ch < ?C" for ch
  proof -
    have eq: "map (\<lambda>u. u ! ch) (map ?g ?others)
            = map (\<lambda>n_o. if \<not> ?found n_o then NaN else ?e n_o ! ch) ?others"
      unfolding map_map comp_def by (rule map_cong) (use that in auto)
    show ?thesis
      by (simp only: eq torch_nanmean_skip not_not)
  qed
  have "sample_edge edges_b E_row pos_row n_current
          = Inr (map (\<lambda>ch. nan_to_num (torch_nanmean (map (\<lambda>u. u ! ch) (map ?g ?others))))
                     [0..<length (?g o1)])"
    unfolding sample_edge_def Let_def tmp by (simp add: o)
  also have "map (\<lambda>ch. nan_to_num (torch_nanmean (map (\<lambda>u. u ! ch) (map ?g ?others))))
                     [0..<length (?g o1)]
             = neighbour_edge_mean edges_b E_row pos_row n_current"
    unfolding neighbour_edge_mean_def
  proof (rule map_cong)
    show "[0..<length (?g o1)] = [0..<ncols edges_b]" by (simp only: len)
  next
    fix ch assume "ch \<in> set [0..<ncols edges_b]"
    then have ch: "ch < ?C" by simp
    have f: "filter ?found ?others
               = filter (\<lambda>n_o. n_o \<noteq> n_current \<and> pos_row ! n_o \<in> set E_row)
                   [0..<length pos_row]"
      by (simp add: conj_commute)
    show "nan_to_num (torch_nanmean (map (\<lambda>u. u ! ch) (map ?g ?others)))
            = nan_to_num (torch_nanmean
                (map (\<lambda>n_o. ?e n_o ! ch)
                   (filter (\<lambda>n_o. n_o \<noteq> n_current \<and> pos_row ! n_o \<in> set E_row)
                      [0..<length pos_row])))"
      by (simp only: chan [OF ch] f)
  qed
  finally show ?thesis .
qed

lemma neighbour_edge_mean_none:
  assumes "\<forall>n_o<length pos_row. n_o \<noteq> n_current \<longrightarrow> pos_row ! n_o \<notin> set E_row"
  shows "neighbour_edge_mean edges_b E_row pos_row n_current = replicate (ncols edges_b) (Fin 0)"
proof -
  have "filter (\<lambda>n_o. n_o \<noteq> n_current \<and> pos_row ! n_o \<in> set E_row) [0..<length pos_row] = []"
    using assms by (auto simp: filter_empty_conv)
  then show ?thesis
    by (simp add: neighbour_edge_mean_def torch_nanmean_empty map_replicate_const)
qed


lemma batched_index_select_rows:
  assumes "length idx = B" "length t = B"
      and "\<forall>b<B. in_range (idx ! b) (length (t ! b))"
  shows "batched_index_select t idx = Inr (map (\<lambda>b. t ! b ! nat (sint (idx ! b))) [0..<B])"
proof -
  have "batched_index_select t idx = Inr (map (\<lambda>(m, p). m ! nat (sint p)) (zip t idx))"
    unfolding batched_index_select_def
  proof (rule mapM_Inr)
    fix x assume "x \<in> set (zip t idx)"
    then obtain b where "b < B" "x = (t ! b, idx ! b)"
      using assms(1,2) by (auto simp: set_zip)
    then show "(case x of (m, p) \<Rightarrow> index_at m p) = Inr ((\<lambda>(m, p). m ! nat (sint p)) x)"
      using assms(3) by (simp add: index_at_in_range)
  qed
  then show ?thesis
    using assms(1,2) by (simp add: map_zip_nth)
qed

text \<open>
  C10. Take slot \<open>n_current\<close> in the edge block, with every batch element's current
  position a valid residue index, its row of \<open>E_idx\<close> no longer than its row of edge
  features, edge vectors of one width, and at least one other slot. Then for every batch
  element the feature computed is \<open>neighbour_edge_mean\<close>: per channel, \<open>nan_to_num\<close>
  of the \<open>nanmean\<close> over the edges to those other slots only whose position occurs
  in the \<open>E_idx\<close> row of the current position (the edge stored at the first neighbour
  slot holding that position); the other slots, filled with NaN by the code, do not
  enter. If no other slot's position occurs in that row, the feature is the all-zero
  vector.
\<close>

theorem edge_feature_from_neighbours_only:
  assumes B: "0 < B" "length pos = B" "length mpnn_edges = B" "length E_idx = B"
      and rng: "\<forall>b<B. in_range (pos ! b ! n_current) (length (mpnn_edges ! b))
                       \<and> in_range (pos ! b ! n_current) (length (E_idx ! b))"
      and K: "\<forall>b<B. length (E_idx ! b ! nat (sint (pos ! b ! n_current)))
                       \<le> length (mpnn_edges ! b ! nat (sint (pos ! b ! n_current)))"
      and rect: "\<forall>b<B. \<forall>v\<in>set (mpnn_edges ! b ! nat (sint (pos ! b ! n_current))).
                       length v = ncols (mpnn_edges ! b ! nat (sint (pos ! b ! n_current)))"
      and others: "\<forall>b<B. \<exists>n_o<length (pos ! b). n_o \<noteq> n_current"
  shows "edges_for_slot mpnn_edges E_idx pos n_current
           = Inr (map (\<lambda>b. neighbour_edge_mean
                              (mpnn_edges ! b ! nat (sint (pos ! b ! n_current)))
                              (E_idx ! b ! nat (sint (pos ! b ! n_current)))
                              (pos ! b) n_current) [0..<B])
       \<and> (\<forall>b<B. (\<forall>n_o<length (pos ! b). n_o \<noteq> n_current \<longrightarrow>
                      pos ! b ! n_o \<notin> set (E_idx ! b ! nat (sint (pos ! b ! n_current)))) \<longrightarrow>
              neighbour_edge_mean (mpnn_edges ! b ! nat (sint (pos ! b ! n_current)))
                (E_idx ! b ! nat (sint (pos ! b ! n_current))) (pos ! b) n_current
                = replicate (ncols (mpnn_edges ! b ! nat (sint (pos ! b ! n_current)))) (Fin 0))"
proof (intro conjI allI impI)
  let ?p = "\<lambda>b. nat (sint (pos ! b ! n_current))"
  have lc: "length (col pos n_current) = B" using B(2) by (simp add: col_def)
  have cn: "col pos n_current ! b = pos ! b ! n_current" if "b < B" for b
    using that B(2) by (simp add: col_def)
  have et: "batched_index_select mpnn_edges (col pos n_current)
              = Inr (map (\<lambda>b. mpnn_edges ! b ! ?p b) [0..<B])"
    using batched_index_select_rows [OF lc B(3)] rng cn
    by (simp cong: map_cong)
  have Et: "batched_index_select E_idx (col pos n_current)
              = Inr (map (\<lambda>b. E_idx ! b ! ?p b) [0..<B])"
    using batched_index_select_rows [OF lc B(4)] rng cn
    by (simp cong: map_cong)
  have each: "mapM (\<lambda>b. sample_edge (map (\<lambda>b. mpnn_edges ! b ! ?p b) [0..<B] ! b)
                           (map (\<lambda>b. E_idx ! b ! ?p b) [0..<B] ! b) (pos ! b) n_current)
                   [0..<B]
                = Inr (map (\<lambda>b. neighbour_edge_mean (mpnn_edges ! b ! ?p b) (E_idx ! b ! ?p b)
                                    (pos ! b) n_current) [0..<B])"
  proof (rule mapM_Inr)
    fix b assume "b \<in> set [0..<B]"
    then have b: "b < B" by simp
    have "sample_edge (mpnn_edges ! b ! ?p b) (E_idx ! b ! ?p b) (pos ! b) n_current
            = Inr (neighbour_edge_mean (mpnn_edges ! b ! ?p b) (E_idx ! b ! ?p b) (pos ! b) n_current)"
      using K rect others b by (intro sample_edge_neighbours) simp_all
    then show "sample_edge (map (\<lambda>b. mpnn_edges ! b ! ?p b) [0..<B] ! b)
                 (map (\<lambda>b. E_idx ! b ! ?p b) [0..<B] ! b) (pos ! b) n_current
               = Inr (neighbour_edge_mean (mpnn_edges ! b ! ?p b) (E_idx ! b ! ?p b)
                        (pos ! b) n_current)"
      using b by simp
  qed
  have ne: "map (\<lambda>b. neighbour_edge_mean (mpnn_edges ! b ! ?p b) (E_idx ! b ! ?p b)
                                    (pos ! b) n_current) [0..<B] \<noteq> []"
    using B(1) by simp
  show "edges_for_slot mpnn_edges E_idx pos n_current
           = Inr (map (\<lambda>b. neighbour_edge_mean (mpnn_edges ! b ! ?p b) (E_idx ! b ! ?p b)
                              (pos ! b) n_current) [0..<B])"
    unfolding edges_for_slot_def et Et
    using each ne by (simp add: torch_stack_def del: upt_Suc)
next
  fix b
  assume "b < B"
     and "\<forall>n_o<length (pos ! b). n_o \<noteq> n_current \<longrightarrow>
            pos ! b ! n_o \<notin> set (E_idx ! b ! nat (sint (pos ! b ! n_current)))"
  then show "neighbour_edge_mean (mpnn_edges ! b ! nat (sint (pos ! b ! n_current)))
                (E_idx ! b ! nat (sint (pos ! b ! n_current))) (pos ! b) n_current
                = replicate (ncols (mpnn_edges ! b ! nat (sint (pos ! b ! n_current)))) (Fin 0)"
    by (intro neighbour_edge_mean_none)
qed

theorem edge_feature_from_neighbours_only_witness:
  "edges_for_slot
     [[[[Fin 1], [Fin 2]], [[Fin 3], [Fin 4]], [[Fin 5], [Fin 6]]],
      [[[Fin 7], [Fin 8]], [[Fin 9], [Fin 10]], [[Fin 11], [Fin 12]]]]
     [[[1, 2], [0, 2], [0, 1]], [[1, 2], [0, 2], [0, 1]]]
     [[1, 0], [1, 1]] 0
   = Inr [[Fin 3], [Fin 0]]"
proof -
  let ?edges = "[[[[Fin 1], [Fin 2]], [[Fin 3], [Fin 4]], [[Fin 5], [Fin 6]]],
      [[[Fin 7], [Fin 8]], [[Fin 9], [Fin 10]], [[Fin 11], [Fin 12]]]]"
  let ?E = "[[[1, 2], [0, 2], [0, 1]], [[1, 2], [0, 2], [0, 1]]] :: int64 list list list"
  let ?pos = "[[1, 0], [1, 1]] :: idx2"
  have B: "0 < (2::nat)" "length ?pos = 2" "length ?edges = 2" "length ?E = 2"
    by simp_all
  have rng: "\<forall>b<2. in_range (?pos ! b ! 0) (length (?edges ! b))
                       \<and> in_range (?pos ! b ! 0) (length (?E ! b))"
    by (simp add: all_less_2 in_range_def)
  have K: "\<forall>b<2. length (?E ! b ! nat (sint (?pos ! b ! 0)))
                       \<le> length (?edges ! b ! nat (sint (?pos ! b ! 0)))"
    by (simp add: all_less_2)
  have rect: "\<forall>b<2. \<forall>v\<in>set (?edges ! b ! nat (sint (?pos ! b ! 0))).
                       length v = ncols (?edges ! b ! nat (sint (?pos ! b ! 0)))"
    by (simp add: all_less_2 ncols_def)
  have others: "\<forall>b<2. \<exists>n_o<length (?pos ! b). n_o \<noteq> 0"
    by (auto simp: all_less_2)
  show ?thesis
    using edge_feature_from_neighbours_only [OF B rng K rect others]
    by (simp add: neighbour_edge_mean_def first_match_def ncols_def torch_nanmean_def
          torch_nansum_def torch_sum_def upt_conv_Cons)
qed

subsection \<open>Edges before distances\<close>

lemma embed_dim_edges:
  "edges c \<Longrightarrow> fst (snd (set_model_dims c))
     = fst (snd (set_model_dims (c\<lparr>edges := False, dist_flag := False\<rparr>))) + 128"
  by (simp add: set_model_dims_def Let_def)

lemma slot_embed_ignores_dist_norm:
  "edges c \<Longrightarrow> slot_embed c (n\<lparr>dist_norm := f, pair_dist := g\<rparr>) emb me es dX sc pos
     = slot_embed c n emb me es dX sc pos"
  by (rule ext) (simp add: slot_embed_def)

lemma slot_embed_ignores_dX:
  "edges c \<Longrightarrow> slot_embed c n emb me es dX sc pos i = slot_embed c n emb me es None sc pos i"
  by (simp add: slot_embed_def)

lemma multi_features_ignores_dist:
  "edges c \<Longrightarrow> multi_features c (n\<lparr>dist_norm := f, pair_dist := g\<rparr>) X rm mut pos hid emb edg
     = multi_features c n X rm mut pos hid emb edg"
  by (simp add: multi_features_def)

lemma multi_slots_ignores_dist:
  "edges c \<Longrightarrow> multi_slots c (n\<lparr>dist_norm := f, pair_dist := g\<rparr>) inp X S hid emb edg
     = multi_slots c n inp X S hid emb edg"
  by (simp add: multi_slots_def multi_features_ignores_dist side_chain_embeds_of_def
        slot_embed_ignores_dist_norm cong: if_cong)

lemma learned_ignores_dist:
  "learned c (n\<lparr>dist_norm := f, pair_dist := g\<rparr>) embs mut wt pos = learned c n embs mut wt pos"
  by (simp add: learned_def Let_def cong: if_cong list.case_cong)

lemma nonlearned_ignores_dist:
  "nonlearned c (n\<lparr>dist_norm := f, pair_dist := g\<rparr>) embs mut wt pos
     = nonlearned c n embs mut wt pos"
  by (simp add: nonlearned_def light_attention_all_def cong: if_cong)

lemma forward_multi_ignores_dist:
  "edges c \<Longrightarrow> forward_multi c (n\<lparr>dist_norm := f, pair_dist := g\<rparr>) inp X S hid emb edg
     = forward_multi c n inp X S hid emb edg"
  by (simp add: forward_multi_def multi_slots_ignores_dist learned_ignores_dist
        nonlearned_ignores_dist cong: if_cong)

lemma forward_single_ignores_dist:
  "forward_single c (n\<lparr>dist_norm := f, pair_dist := g\<rparr>) inp X S hid emb edg
     = forward_single c n inp X S hid emb edg"
  by (simp add: forward_single_def side_chain_embeds_of_def cong: if_cong option.case_cong)

lemma backbone_ignores_dist:
  "backbone c (n\<lparr>dist_norm := f, pair_dist := g\<rparr>) inp = backbone c n inp"
  by (simp add: backbone_def Let_def cong: if_cong)

lemma forward_ignores_dist:
  "edges c \<Longrightarrow> forward c (n\<lparr>dist_norm := f, pair_dist := g\<rparr>) inp = forward c n inp"
  by (simp add: forward_def backbone_ignores_dist forward_multi_ignores_dist
        forward_single_ignores_dist cong: if_cong)

lemma multi_features_edges:
  assumes "edges c"
      and "multi_features c n X rm mut pos hid emb edg = Inr (emb', me, es, dX)"
  shows "dX = None
         \<and> (0 < num_final_layers c \<longrightarrow>
              (\<exists>l. es = StackedEdges l
                   \<and> multi_edges edg (dist_topk n (map (map (\<lambda>r. r ! 1)) X) rm) pos = Inr l))
         \<and> (\<not> 0 < num_final_layers c \<longrightarrow> es = RawEdges edg)"
  using assms
  by (auto simp: multi_features_def Let_def ebind_eq_Inr split: if_splits)

lemma slot_embed_edges:
  assumes e: "edges c"
      and r: "slot_embed c n emb me es dX sc pos i = Inr r"
  shows "\<exists>l p. es = StackedEdges l \<and> i < length l
               \<and> (if side_chain_module c then \<exists>s. r = cat2 (cat2 p (l ! i)) s
                   else r = cat2 p (l ! i))
               \<and> (\<exists>gathered. gather_embed emb (col pos i) = Inr gathered
                     \<and> (if mutant_embedding c then \<exists>m. p = cat2 gathered m else p = gathered))"
proof (cases es)
  case (RawEdges raw)
  then have "False"
    using e r by (auto simp: slot_embed_def Let_def ebind_eq_Inr split: if_splits option.splits)
  then show ?thesis ..
next
  case (StackedEdges l)
  from r obtain gathered where g: "gather_embed emb (col pos i) = Inr gathered"
    by (auto simp: slot_embed_def Let_def ebind_eq_Inr)
  define p where "p = (if mutant_embedding c then cat2 gathered (the me ! i) else gathered)"
  have p1: "(if mutant_embedding c
             then (case me of None \<Rightarrow> Inl UnboundLocalError
                   | Some me' \<Rightarrow> ebind (nth_err me' i) (\<lambda>m. Inr (cat2 gathered m)))
             else Inr gathered) = Inr p"
    using r g unfolding p_def
    by (auto simp: slot_embed_def Let_def ebind_eq_Inr nth_err_def split: if_splits option.splits)
  have il: "i < length l"
    using r g p1 e StackedEdges
    by (auto simp: slot_embed_def Let_def ebind_eq_Inr nth_err_def split: if_splits)
  have res: "if side_chain_module c then \<exists>s. r = cat2 (cat2 p (l ! i)) s
             else r = cat2 p (l ! i)"
    using r g p1 e StackedEdges il
    by (auto simp: slot_embed_def Let_def ebind_eq_Inr nth_err_def split: option.splits)
  have "if mutant_embedding c then \<exists>m. p = cat2 gathered m else p = gathered"
    by (auto simp: p_def)
  then show ?thesis
    using StackedEdges il res g by blast
qed


lemma multi_slots_needs_final_layers:
  assumes e: "edges c"
      and ms: "multi_slots c n inp X S hid emb edg = Inr embs"
      and N: "0 < ncols (mut_mutant_AAs inp)"
  shows "0 < num_final_layers c"
proof (rule ccontr)
  assume nfl: "\<not> 0 < num_final_layers c"
  from ms obtain sc emb' me es dX where
    mf: "multi_features c n X (mask_arg inp) (mut_mutant_AAs inp) (mut_positions inp) hid emb edg
           = Inr (emb', me, es, dX)"
    and mm: "mapM (slot_embed c n emb' me es dX sc (mut_positions inp))
               [0..<ncols (mut_mutant_AAs inp)] = Inr embs"
    unfolding multi_slots_def by (auto simp: ebind_eq_Inr)
  have "es = RawEdges edg"
    using multi_features_edges [OF e mf] nfl by simp
  moreover have "slot_embed c n emb' me es dX sc (mut_positions inp) 0 = Inr (embs ! 0)"
    using mapM_nth [OF mm, of 0] N by simp
  ultimately show False
    using slot_embed_edges [OF e] by fastforce
qed

lemma is_ten3_nth:
  assumes "is_ten3 B L E t" and "b < B"
  shows "length (t ! b) = L" and "\<forall>row\<in>set (t ! b). length row = E"
proof -
  have "t ! b \<in> set t" using assms by (simp add: is_ten3_def)
  then have "is_mat L E (t ! b)" using assms(1) by (simp add: is_ten3_def)
  then show "length (t ! b) = L" and "\<forall>row\<in>set (t ! b). length row = E"
    by (simp_all add: is_mat_def)
qed

lemma is_ten3_size2:
  assumes "is_ten3 B L E t" and "0 < B" and "0 < L"
  shows "size2 t = E"
proof -
  obtain m rest where t: "t = m # rest"
    using assms(1,2) by (cases t) (auto simp: is_ten3_def)
  then have "is_mat L E m" using assms(1) by (simp add: is_ten3_def)
  then obtain r rs where "m = r # rs" "length r = E"
    using assms(3) by (cases m) (auto simp: is_mat_def)
  then show ?thesis by (simp add: t size2_def ncols_def)
qed

lemma is_ten4_nth:
  assumes "is_ten4 B L K C t" and "b < B" and "p < L"
  shows "length (t ! b) = L" and "is_mat K C (t ! b ! p)"
proof -
  have "t ! b \<in> set t" using assms by (simp add: is_ten4_def)
  then have m: "is_ten3 L K C (t ! b)" using assms(1) by (simp add: is_ten4_def)
  then show l: "length (t ! b) = L" by (simp add: is_ten3_def)
  then have "t ! b ! p \<in> set (t ! b)" using assms(3) by simp
  then show "is_mat K C (t ! b ! p)" using m by (simp add: is_ten3_def)
qed

lemma is_mat_ncols_rows: "is_mat K C m \<Longrightarrow> \<forall>v\<in>set m. length v = ncols m"
  by (cases m) (auto simp: is_mat_def ncols_def)

lemma gather_embed_rows:
  assumes t: "is_ten3 B L E t" and lp: "length pos = B"
      and rng: "\<forall>b<B. in_range (pos ! b ! i) L"
  shows "gather_embed t (col pos i) = Inr (map (\<lambda>b. t ! b ! nat (sint (pos ! b ! i))) [0..<B])"
proof -
  let ?g = "\<lambda>(m, p). m ! nat (sint p)"
  have lt: "length t = B" using t by (simp add: is_ten3_def)
  have "gather_embed t (col pos i) = Inr (map ?g (zip t (col pos i)))"
    unfolding gather_embed_def
  proof (rule mapM_Inr)
    fix x assume "x \<in> set (zip t (col pos i))"
    then obtain b where b: "b < B" "x = (t ! b, pos ! b ! i)"
      using lp lt by (auto simp: set_zip col_def)
    have r: "in_range (pos ! b ! i) (length (t ! b))"
      using rng b(1) is_ten3_nth(1) [OF t b(1)] by simp
    then have "0 < L" "0 < B"
      using b(1) is_ten3_nth(1) [OF t b(1)] by (auto simp: in_range_def)
    then have "size2 t = E" using is_ten3_size2 [OF t] by simp
    then have "\<forall>row\<in>set (t ! b). length row = size2 t"
      using is_ten3_nth(2) [OF t b(1)] by simp
    with r have "mapM (\<lambda>e. ebind (index_at (t ! b) (pos ! b ! i)) (\<lambda>row. Inr (row ! e)))
            [0..<size2 t] = Inr (t ! b ! nat (sint (pos ! b ! i)))"
      by (intro gather_one_row)
    then show "(case x of (m, p) \<Rightarrow>
                  mapM (\<lambda>e. ebind (index_at m p) (\<lambda>row. Inr (row ! e))) [0..<size2 t])
               = Inr (?g x)"
      using b by simp
  qed
  also have "map ?g (zip t (col pos i)) = map (\<lambda>b. t ! b ! nat (sint (pos ! b ! i))) [0..<B]"
    using lp lt by (simp add: map_zip_nth col_def)
  finally show ?thesis .
qed

lemma edges_for_slot_rows:
  assumes B: "0 < B" "length pos = B"
      and edg: "is_ten4 B L K C mpnn_edges"
      and Ei: "is_ten3 B L K' E_idx" "K' \<le> K"
      and rng: "\<forall>b<B. in_range (pos ! b ! n_current) L"
      and others: "\<forall>b<B. \<exists>n_o<length (pos ! b). n_o \<noteq> n_current"
  shows "edges_for_slot mpnn_edges E_idx pos n_current
           = Inr (map (\<lambda>b. neighbour_edge_mean
                              (mpnn_edges ! b ! nat (sint (pos ! b ! n_current)))
                              (E_idx ! b ! nat (sint (pos ! b ! n_current)))
                              (pos ! b) n_current) [0..<B])"
proof -
  let ?p = "\<lambda>b. nat (sint (pos ! b ! n_current))"
  have pL: "?p b < L" if "b < B" for b
    using rng that by (simp add: in_range_nat)
  have lens: "length mpnn_edges = B" "length E_idx = B"
    using edg Ei(1) by (simp_all add: is_ten4_def is_ten3_def)
  have le: "length (mpnn_edges ! b) = L" if "b < B" for b
    using is_ten4_nth(1) [OF edg that pL [OF that]] .
  have lE: "length (E_idx ! b) = L" if "b < B" for b
    using is_ten3_nth(1) [OF Ei(1) that] .
  have lc: "length (col pos n_current) = B" using B(2) by (simp add: col_def)
  have cn: "col pos n_current ! b = pos ! b ! n_current" if "b < B" for b
    using that B(2) by (simp add: col_def)
  have et: "batched_index_select mpnn_edges (col pos n_current)
              = Inr (map (\<lambda>b. mpnn_edges ! b ! ?p b) [0..<B])"
    using batched_index_select_rows [OF lc lens(1)] rng cn le
    by (simp cong: map_cong)
  have Et: "batched_index_select E_idx (col pos n_current)
              = Inr (map (\<lambda>b. E_idx ! b ! ?p b) [0..<B])"
    using batched_index_select_rows [OF lc lens(2)] rng cn lE
    by (simp cong: map_cong)
  have each: "mapM (\<lambda>b. sample_edge (map (\<lambda>b. mpnn_edges ! b ! ?p b) [0..<B] ! b)
                           (map (\<lambda>b. E_idx ! b ! ?p b) [0..<B] ! b) (pos ! b) n_current)
                   [0..<B]
                = Inr (map (\<lambda>b. neighbour_edge_mean (mpnn_edges ! b ! ?p b) (E_idx ! b ! ?p b)
                                    (pos ! b) n_current) [0..<B])"
  proof (rule mapM_Inr)
    fix b assume "b \<in> set [0..<B]"
    then have b: "b < B" by simp
    have m: "is_mat K C (mpnn_edges ! b ! ?p b)"
      using is_ten4_nth(2) [OF edg b pL [OF b]] .
    have "E_idx ! b ! ?p b \<in> set (E_idx ! b)" using lE [OF b] pL [OF b] by simp
    then have "length (E_idx ! b ! ?p b) = K'"
      using is_ten3_nth(2) [OF Ei(1) b] by blast
    then have K: "length (E_idx ! b ! ?p b) \<le> length (mpnn_edges ! b ! ?p b)"
      using m Ei(2) by (simp add: is_mat_def)
    have o: "\<exists>n_o<length (pos ! b). n_o \<noteq> n_current" using others b by simp
    have "sample_edge (mpnn_edges ! b ! ?p b) (E_idx ! b ! ?p b) (pos ! b) n_current
            = Inr (neighbour_edge_mean (mpnn_edges ! b ! ?p b) (E_idx ! b ! ?p b) (pos ! b) n_current)"
      using K is_mat_ncols_rows [OF m] o by (rule sample_edge_neighbours)
    then show "sample_edge (map (\<lambda>b. mpnn_edges ! b ! ?p b) [0..<B] ! b)
                 (map (\<lambda>b. E_idx ! b ! ?p b) [0..<B] ! b) (pos ! b) n_current
               = Inr (neighbour_edge_mean (mpnn_edges ! b ! ?p b) (E_idx ! b ! ?p b)
                        (pos ! b) n_current)"
      using b by simp
  qed
  have ne: "map (\<lambda>b. neighbour_edge_mean (mpnn_edges ! b ! ?p b) (E_idx ! b ! ?p b)
                                    (pos ! b) n_current) [0..<B] \<noteq> []"
    using B(1) by simp
  show ?thesis
    unfolding edges_for_slot_def et Et
    using each ne by (simp add: torch_stack_def del: upt_Suc)
qed

lemma multi_edges_rows:
  assumes B: "0 < B" and pos: "is_mat B N pos" and N: "1 < N"
      and edg: "is_ten4 B L K C mpnn_edges"
      and Ei: "is_ten3 B L K' E_idx" "K' \<le> K"
      and rng: "\<forall>b<B. \<forall>i<N. in_range (pos ! b ! i) L"
  shows "multi_edges mpnn_edges E_idx pos
           = Inr (map (\<lambda>i. map (\<lambda>b. neighbour_edge_mean
                                       (mpnn_edges ! b ! nat (sint (pos ! b ! i)))
                                       (E_idx ! b ! nat (sint (pos ! b ! i)))
                                       (pos ! b) i) [0..<B]) [0..<N])"
proof -
  have nc: "ncols pos = N" using ncols_is_mat [OF pos B] .
  have lp: "length pos = B" using pos by (simp add: is_mat_def)
  have lr: "length (pos ! b) = N" if "b < B" for b
    using pos that by (simp add: is_mat_def)
  have others: "\<forall>b<B. \<exists>n_o<length (pos ! b). n_o \<noteq> i" for i
  proof (intro allI impI)
    fix b assume "b < B"
    then have "length (pos ! b) = N" by (rule lr)
    then have "(if i = 0 then 1 else 0) < length (pos ! b) \<and> (if i = 0 then 1 else 0) \<noteq> i"
      using N by simp
    then show "\<exists>n_o<length (pos ! b). n_o \<noteq> i"
      by (rule exI)
  qed
  have "mapM (edges_for_slot mpnn_edges E_idx pos) [0..<N]
          = Inr (map (\<lambda>i. map (\<lambda>b. neighbour_edge_mean
                                       (mpnn_edges ! b ! nat (sint (pos ! b ! i)))
                                       (E_idx ! b ! nat (sint (pos ! b ! i)))
                                       (pos ! b) i) [0..<B]) [0..<N])"
  proof (rule mapM_Inr)
    fix i assume "i \<in> set [0..<N]"
    then have "\<forall>b<B. in_range (pos ! b ! i) L" using rng by simp
    then show "edges_for_slot mpnn_edges E_idx pos i
                 = Inr (map (\<lambda>b. neighbour_edge_mean
                                       (mpnn_edges ! b ! nat (sint (pos ! b ! i)))
                                       (E_idx ! b ! nat (sint (pos ! b ! i)))
                                       (pos ! b) i) [0..<B])"
      using B lp edg Ei others by (intro edges_for_slot_rows)
  qed
  moreover have "[0..<N] \<noteq> []" using N by simp
  ultimately show ?thesis
    unfolding multi_edges_def nc by (simp add: torch_stack_def del: upt_Suc)
qed

lemma multi_features_with_edges:
  assumes "edges c" and "0 < num_final_layers c"
      and "cat3_list (take (nat (num_final_layers c)) hid) = Inr h"
      and "multi_edges edg (dist_topk n (map (map (\<lambda>r. r ! 1)) X) rm) pos = Inr l"
      and "0 < ncols mut"
  shows "multi_features c n X rm mut pos hid emb edg
           = Inr (cat3 h emb,
                  (if mutant_embedding c
                   then Some (map (\<lambda>m. W_s n (col mut m)) [0..<ncols mut]) else None),
                  StackedEdges l, None)"
  using assms by (simp add: multi_features_def Let_def torch_stack_def del: upt_Suc)

lemma side_chain_embeds_of_Some:
  "side_chain_embeds_of c n inp X S hid = Inr sce \<Longrightarrow> side_chain_module c \<longleftrightarrow> sce \<noteq> None"
  by (auto simp: side_chain_embeds_of_def ebind_eq_Inr split: if_splits)

lemma cat2_upt:
  "length x = B \<Longrightarrow> length y = B \<Longrightarrow> cat2 x y = map (\<lambda>b. x ! b @ y ! b) [0..<B]"
  by (simp add: cat2_def map_zip_nth)

lemma slot_embed_with_edges:
  assumes e: "edges c" and i: "i < N" and N: "ncols mut = N" "length l = N"
      and lp: "length pos = B"
      and emb: "is_ten3 B L E emb1"
      and rng: "\<forall>b<B. in_range (pos ! b ! i) L"
      and li: "length (l ! i) = B"
      and ws: "mutant_embedding c \<longrightarrow> length (W_s n (col mut i)) = B"
      and sc: "side_chain_module c \<longleftrightarrow> sce \<noteq> None"
      and scs: "\<forall>t. sce = Some t \<longrightarrow> is_ten3 B L Es t"
  shows "slot_embed c n emb1
           (if mutant_embedding c then Some (map (\<lambda>m. W_s n (col mut m)) [0..<ncols mut]) else None)
           (StackedEdges l) None sce pos i
         = Inr (map (\<lambda>b. emb1 ! b ! nat (sint (pos ! b ! i))
                          @ (if mutant_embedding c then W_s n (col mut i) ! b else [])
                          @ l ! i ! b
                          @ (case sce of None \<Rightarrow> [] | Some t \<Rightarrow> t ! b ! nat (sint (pos ! b ! i))))
                     [0..<B])"
proof -
  let ?p = "\<lambda>b. nat (sint (pos ! b ! i))"
  let ?G = "map (\<lambda>b. emb1 ! b ! ?p b) [0..<B]"
  let ?g1 = "map (\<lambda>b. emb1 ! b ! ?p b @ (if mutant_embedding c then W_s n (col mut i) ! b else []))
               [0..<B]"
  let ?g2 = "map (\<lambda>b. emb1 ! b ! ?p b @ (if mutant_embedding c then W_s n (col mut i) ! b else [])
                        @ l ! i ! b) [0..<B]"
  have g: "gather_embed emb1 (col pos i) = Inr ?G"
    using emb lp rng by (rule gather_embed_rows)
  have s1: "(if mutant_embedding c then
               (case (if mutant_embedding c
                      then Some (map (\<lambda>m. W_s n (col mut m)) [0..<ncols mut]) else None) of
                  None \<Rightarrow> Inl UnboundLocalError
                | Some me \<Rightarrow> ebind (nth_err me i) (\<lambda>m. Inr (cat2 ?G m)))
             else Inr ?G) = Inr ?g1"
  proof (cases "mutant_embedding c")
    case True
    then have "cat2 ?G (W_s n (col mut i)) = ?g1"
      using ws by (simp add: cat2_upt [of _ B])
    then show ?thesis using True i N(1) by (simp add: nth_err_def del: upt_Suc)
  next
    case False
    then show ?thesis by simp
  qed
  have s2: "ebind (nth_err l i) (\<lambda>e. Inr (cat2 ?g1 e)) = Inr ?g2"
    using i N(2) li by (simp add: nth_err_def cat2_upt [of _ B])
  have s3: "(if side_chain_module c then
               (case sce of
                  None \<Rightarrow> Inl UnboundLocalError
                | Some t \<Rightarrow> ebind (gather_embed t (col pos i))
                              (\<lambda>side_chain_gathered. Inr (cat2 ?g2 side_chain_gathered)))
             else Inr ?g2)
            = Inr (map (\<lambda>b. emb1 ! b ! ?p b
                          @ (if mutant_embedding c then W_s n (col mut i) ! b else [])
                          @ l ! i ! b
                          @ (case sce of None \<Rightarrow> [] | Some t \<Rightarrow> t ! b ! ?p b))
                     [0..<B])"
  proof (cases sce)
    case None
    then show ?thesis using sc by simp
  next
    case (Some t)
    then have "is_ten3 B L Es t" using scs by simp
    then have "gather_embed t (col pos i) = Inr (map (\<lambda>b. t ! b ! ?p b) [0..<B])"
      using lp rng by (rule gather_embed_rows)
    then show ?thesis using Some sc by (simp add: cat2_upt [of _ B])
  qed
  show ?thesis
    unfolding slot_embed_def Let_def g
    using e by (simp only: ebind_Inr s1 s2 s3 if_True edge_state.case)
qed

text \<open>
  C7. Take a call in multi-mutation mode with both \<open>cfg.model.edges\<close> and
  \<open>cfg.model.dist\<close> enabled, on a batch of \<open>B \<ge> 1\<close> proteins with
  \<open>N \<ge> 2\<close> mutation slots whose positions are residue indices below \<open>L\<close>.
  Let the backbone stage return the coordinates \<open>X\<close> (after \<open>_get_cbeta\<close>), the
  hidden layers, the embedding and an edge tensor of shape \<open>(B, L, K, C)\<close>; let
  \<open>_dist\<close> return neighbour indices of shape \<open>(B, L, K')\<close> with \<open>K' \<le> K\<close>;
  and let the mutant embeddings and the side-chain tensor, where enabled, have \<open>B\<close>
  rows.

  \<^item> The dimensions are those of the same configuration with \<open>dist\<close> off: the
    embedding dimension counts 128 for the edges and nothing for the distances.
  \<^item> \<open>forward\<close> does not depend on the distance computation or on
    \<open>dist_norm\<close>: replacing both by arbitrary functions changes nothing.
  \<^item> When \<open>num_final_layers > 0\<close> and the hidden layers concatenate with the
    embedding to a tensor of shape \<open>(B, L, E)\<close>, the loop over the slots returns, for
    every slot and batch element, the row of \<open>slot_with_edges\<close>: the gathered
    embedding, then the mutant embedding when enabled, then the edge feature of the slot
    (per channel the \<open>nanmean\<close>, passed through \<open>nan_to_num\<close>, of the edges to
    the other slots found among the neighbours of the slot's residue), then the side-chain
    row when enabled; no distance feature is part of it. \<open>forward\<close> is the
    aggregation of exactly these slot embeddings, followed by the head and the indexing
    of its output.
  \<^item> When \<open>num_final_layers \<le> 0\<close> the edge block is skipped, the loop over the
    slots raises, and so does \<open>forward\<close>.
\<close>

theorem edges_take_precedence_over_dist:
  assumes e: "edges c" and d: "dist_flag c" and mm: "multi_mutations c"
      and bb: "backbone c n inp = Inr (X, S, hid, emb, edg)"
      and sc: "side_chain_embeds_of c n inp X S hid = Inr sce"
      and B: "0 < B" and N: "1 < N"
      and mut: "is_mat B N (mut_mutant_AAs inp)" and pos: "is_mat B N (mut_positions inp)"
      and rng: "\<forall>b<B. \<forall>i<N. in_range (mut_positions inp ! b ! i) L"
      and edg: "is_ten4 B L K C edg"
      and Ei: "is_ten3 B L K' (dist_topk n (map (map (\<lambda>r. r ! 1)) X) (mask_arg inp))" "K' \<le> K"
      and ws: "mutant_embedding c \<longrightarrow> (\<forall>i<N. length (W_s n (col (mut_mutant_AAs inp) i)) = B)"
      and scs: "\<forall>t. sce = Some t \<longrightarrow> is_ten3 B L Es t"
  shows "set_model_dims c = set_model_dims (c\<lparr>dist_flag := False\<rparr>)
       \<and> fst (snd (set_model_dims c))
           = fst (snd (set_model_dims (c\<lparr>edges := False, dist_flag := False\<rparr>))) + 128
       \<and> forward c (n\<lparr>dist_norm := f, pair_dist := g\<rparr>) inp = forward c n inp
       \<and> (0 < num_final_layers c
            \<and> cat3_list (take (nat (num_final_layers c)) hid) = Inr h
            \<and> is_ten3 B L E (cat3 h emb) \<longrightarrow>
            multi_slots c n inp X S hid emb edg
              = Inr (slots_with_edges c n (cat3 h emb) edg
                       (dist_topk n (map (map (\<lambda>r. r ! 1)) X) (mask_arg inp)) sce
                       (mut_mutant_AAs inp) (mut_positions inp) B N)
            \<and> forward c n inp
              = ebind (if aggregation c = Some ''mpnn''
                       then learned c n
                              (slots_with_edges c n (cat3 h emb) edg
                                 (dist_topk n (map (map (\<lambda>r. r ! 1)) X) (mask_arg inp)) sce
                                 (mut_mutant_AAs inp) (mut_positions inp) B N)
                              (mut_mutant_AAs inp) (mut_wildtype_AAs inp) (mut_positions inp)
                       else nonlearned c n
                              (slots_with_edges c n (cat3 h emb) edg
                                 (dist_topk n (map (map (\<lambda>r. r ! 1)) X) (mask_arg inp)) sce
                                 (mut_mutant_AAs inp) (mut_positions inp) B N)
                              (mut_mutant_AAs inp) (mut_wildtype_AAs inp) (mut_positions inp))
                  (\<lambda>combined. index_ddg c (ddg_out n combined) (mut_mutant_AAs inp)
                                 (mut_wildtype_AAs inp)))
       \<and> (\<not> 0 < num_final_layers c \<longrightarrow>
            (\<exists>err. multi_slots c n inp X S hid emb edg = Inl err)
            \<and> (\<exists>err. forward c n inp = Inl err))"
proof (intro conjI impI)
  let ?mut = "mut_mutant_AAs inp" and ?pos = "mut_positions inp"
  let ?E = "dist_topk n (map (map (\<lambda>r. r ! 1)) X) (mask_arg inp)"
  have nc: "ncols ?mut = N" using ncols_is_mat [OF mut B] .
  have fw: "forward c n inp
              = ebind (forward_multi c n inp X S hid emb edg)
                  (\<lambda>combined. index_ddg c (ddg_out n combined) ?mut (mut_wildtype_AAs inp))"
    using bb mm by (simp add: forward_def)
  show "set_model_dims c = set_model_dims (c\<lparr>dist_flag := False\<rparr>)"
    using e by (simp add: set_model_dims_def Let_def)
  show "fst (snd (set_model_dims c))
           = fst (snd (set_model_dims (c\<lparr>edges := False, dist_flag := False\<rparr>))) + 128"
    using e by (rule embed_dim_edges)
  show "forward c (n\<lparr>dist_norm := f, pair_dist := g\<rparr>) inp = forward c n inp"
    using e by (rule forward_ignores_dist)
  {
    assume h: "0 < num_final_layers c
               \<and> cat3_list (take (nat (num_final_layers c)) hid) = Inr h
               \<and> is_ten3 B L E (cat3 h emb)"
    let ?emb1 = "cat3 h emb"
    let ?l = "map (\<lambda>i. map (\<lambda>b. neighbour_edge_mean
                                   (edg ! b ! nat (sint (?pos ! b ! i)))
                                   (?E ! b ! nat (sint (?pos ! b ! i)))
                                   (?pos ! b) i) [0..<B]) [0..<N]"
    let ?me = "if mutant_embedding c
               then Some (map (\<lambda>m. W_s n (col ?mut m)) [0..<ncols ?mut]) else None"
    have lp: "length ?pos = B" using pos by (simp add: is_mat_def)
    have me: "multi_edges edg ?E ?pos = Inr ?l"
      using B pos N edg Ei rng by (rule multi_edges_rows)
    have mf: "multi_features c n X (mask_arg inp) ?mut ?pos hid emb edg
                = Inr (?emb1, ?me, StackedEdges ?l, None)"
      using e h me nc N by (intro multi_features_with_edges) simp_all
    have scm: "side_chain_module c \<longleftrightarrow> sce \<noteq> None"
      using sc by (rule side_chain_embeds_of_Some)
    have slots: "mapM (slot_embed c n ?emb1 ?me (StackedEdges ?l) None sce ?pos) [0..<N]
                   = Inr (slots_with_edges c n ?emb1 edg ?E sce ?mut ?pos B N)"
      unfolding slots_with_edges_def
    proof (rule mapM_Inr)
      fix i assume "i \<in> set [0..<N]"
      then have i: "i < N" by simp
      have r: "\<forall>b<B. in_range (?pos ! b ! i) L" using rng i by simp
      have w: "mutant_embedding c \<longrightarrow> length (W_s n (col ?mut i)) = B" using ws i by simp
      have emb1: "is_ten3 B L E ?emb1" using h by simp
      have "slot_embed c n ?emb1 ?me (StackedEdges ?l) None sce ?pos i
              = Inr (map (\<lambda>b. ?emb1 ! b ! nat (sint (?pos ! b ! i))
                          @ (if mutant_embedding c then W_s n (col ?mut i) ! b else [])
                          @ ?l ! i ! b
                          @ (case sce of None \<Rightarrow> []
                             | Some t \<Rightarrow> t ! b ! nat (sint (?pos ! b ! i))))
                     [0..<B])"
        using e i nc _ lp emb1 r _ w scm scs
        by (rule slot_embed_with_edges) (use i in simp_all)
      also have "map (\<lambda>b. ?emb1 ! b ! nat (sint (?pos ! b ! i))
                          @ (if mutant_embedding c then W_s n (col ?mut i) ! b else [])
                          @ ?l ! i ! b
                          @ (case sce of None \<Rightarrow> []
                             | Some t \<Rightarrow> t ! b ! nat (sint (?pos ! b ! i))))
                     [0..<B]
                 = map (slot_with_edges c n ?emb1 edg ?E sce ?mut ?pos i) [0..<B]"
        by (rule map_cong) (use i in \<open>simp_all add: slot_with_edges_def Let_def\<close>)
      finally show "slot_embed c n ?emb1 ?me (StackedEdges ?l) None sce ?pos i
                      = Inr (map (slot_with_edges c n ?emb1 edg ?E sce ?mut ?pos i) [0..<B])" .
    qed
    show ms: "multi_slots c n inp X S hid emb edg
            = Inr (slots_with_edges c n ?emb1 edg ?E sce ?mut ?pos B N)"
    proof -
      have "mapM (slot_embed c n ?emb1 ?me (StackedEdges ?l) None sce ?pos) [0..<ncols ?mut]
              = Inr (slots_with_edges c n ?emb1 edg ?E sce ?mut ?pos B N)"
        using slots by (simp only: nc)
      then show ?thesis
        unfolding multi_slots_def sc mf by (simp only: ebind_Inr prod.case)
    qed
    show "forward c n inp
              = ebind (if aggregation c = Some ''mpnn''
                       then learned c n (slots_with_edges c n ?emb1 edg ?E sce ?mut ?pos B N)
                              ?mut (mut_wildtype_AAs inp) ?pos
                       else nonlearned c n (slots_with_edges c n ?emb1 edg ?E sce ?mut ?pos B N)
                              ?mut (mut_wildtype_AAs inp) ?pos)
                  (\<lambda>combined. index_ddg c (ddg_out n combined) ?mut (mut_wildtype_AAs inp))"
      unfolding fw forward_multi_def ms by simp
  }
  {
    assume nfl: "\<not> 0 < num_final_layers c"
    have "multi_slots c n inp X S hid emb edg \<noteq> Inr embs" for embs
      using multi_slots_needs_final_layers [OF e, of n inp X S hid emb edg embs] nfl nc N by auto
    then show ex: "\<exists>err. multi_slots c n inp X S hid emb edg = Inl err"
      by (cases "multi_slots c n inp X S hid emb edg") auto
    then show "\<exists>err. forward c n inp = Inl err"
      unfolding fw forward_multi_def by auto
  }
qed

theorem edges_take_precedence_over_dist_witness:
  "set_model_dims (example_cfg\<lparr>edges := True, dist_flag := True\<rparr>) = (128, 256, 21)
   \<and> (\<exists>X S hid emb edg.
         backbone (example_cfg\<lparr>edges := True, dist_flag := True\<rparr>) example_nets
           (example_inputs\<lparr>mut_mutant_AAs := [[2, 0], [2, 1]]\<rparr>) = Inr (X, S, hid, emb, edg)
         \<and> multi_slots (example_cfg\<lparr>edges := True, dist_flag := True\<rparr>) example_nets
             (example_inputs\<lparr>mut_mutant_AAs := [[2, 0], [2, 1]]\<rparr>) X S hid emb edg
           = Inr [[[Fin 2, Fin 20, Fin 3], [Fin 5, Fin 50, Fin 10]],
                  [[Fin 1, Fin 10, Fin 1], [Fin 6, Fin 60, Fin 12]]])
   \<and> forward (example_cfg\<lparr>edges := True, dist_flag := True\<rparr>) example_nets
        (example_inputs\<lparr>mut_mutant_AAs := [[2, 0], [2, 1]]\<rparr>)
       = Inr [[Fin 3, Fin 2], [Fin 11, Fin 55]]
   \<and> forward (example_cfg\<lparr>edges := True, dist_flag := True\<rparr>)
        (example_nets\<lparr>dist_norm := (\<lambda>m. []), pair_dist := (\<lambda>a b. NaN)\<rparr>)
        (example_inputs\<lparr>mut_mutant_AAs := [[2, 0], [2, 1]]\<rparr>)
       = Inr [[Fin 3, Fin 2], [Fin 11, Fin 55]]"
proof -
  let ?c = "example_cfg\<lparr>edges := True, dist_flag := True\<rparr>"
  let ?inp = "example_inputs\<lparr>mut_mutant_AAs := [[2, 0], [2, 1]]\<rparr>"
  let ?h = "[[[Fin 1], [Fin 2], [Fin 3]], [[Fin 4], [Fin 5], [Fin 6]]] :: ten3"
  let ?emb = "[[[Fin 10], [Fin 20], [Fin 30]], [[Fin 40], [Fin 50], [Fin 60]]] :: ten3"
  let ?edg = "[[[[Fin 1], [Fin 2]], [[Fin 3], [Fin 4]], [[Fin 5], [Fin 6]]],
               [[[Fin 7], [Fin 8]], [[Fin 9], [Fin 10]], [[Fin 11], [Fin 12]]]] :: ten4"
  have ed: "edges ?c" "dist_flag ?c" "multi_mutations ?c"
    by (simp_all add: multi_mutations_def example_cfg_def)
  have "\<exists>X S. backbone ?c example_nets ?inp = Inr (X, S, [?h], ?emb, ?edg)"
    by (simp add: backbone_def multi_mutations_def example_cfg_def example_nets_def
          example_inputs_def check_sequence_match_def ncols_def col_def gather_last_def
          index_at_def in_range_def broadcast_diff_sum_def scatter1_def scatter_row_def Let_def)
  then obtain X S where bb: "backbone ?c example_nets ?inp = Inr (X, S, [?h], ?emb, ?edg)"
    by blast
  have sc: "side_chain_embeds_of ?c example_nets ?inp X S [?h] = Inr None"
    by (simp add: side_chain_embeds_of_def example_cfg_def)
  have sz: "0 < (2::nat)" "1 < (2::nat)" by simp_all
  have sh: "is_mat 2 2 (mut_mutant_AAs ?inp)" "is_mat 2 2 (mut_positions ?inp)"
    by (simp_all add: is_mat_def example_inputs_def)
  have rng: "\<forall>b<2. \<forall>i<2. in_range (mut_positions ?inp ! b ! i) 3"
    by (simp add: all_less_2 in_range_def example_inputs_def)
  have edg: "is_ten4 2 3 2 1 ?edg"
    by (simp add: is_ten4_def is_ten3_def is_mat_def)
  have Ei: "is_ten3 2 3 2 (dist_topk example_nets (map (map (\<lambda>r. r ! 1)) X) (mask_arg ?inp))"
           "(2::nat) \<le> 2"
    by (simp_all add: example_nets_def is_ten3_def is_mat_def)
  have ws: "mutant_embedding ?c \<longrightarrow> (\<forall>i<2. length (W_s example_nets (col (mut_mutant_AAs ?inp) i)) = 2)"
    by (simp add: example_cfg_def)
  have scs: "\<forall>t. (None :: ten3 option) = Some t \<longrightarrow> is_ten3 2 3 0 t"
    by simp
  have reach: "0 < num_final_layers ?c
               \<and> cat3_list (take (nat (num_final_layers ?c)) [?h]) = Inr ?h
               \<and> is_ten3 2 3 2 (cat3 ?h ?emb)"
    by (simp add: example_cfg_def cat3_list_def cat3_def cat2_def is_ten3_def is_mat_def)
  note t = edges_take_precedence_over_dist [OF ed bb sc sz sh rng edg Ei ws scs,
             where h = ?h and E = 2 and f = "\<lambda>m. []" and g = "\<lambda>a b. NaN"]
  have 1: "set_model_dims ?c = (128, 256, 21)"
    using t by (simp add: set_model_dims_def example_cfg_def)
  have slots: "slots_with_edges ?c example_nets (cat3 ?h ?emb) ?edg
                 (dist_topk example_nets (map (map (\<lambda>r. r ! 1)) X) (mask_arg ?inp)) None
                 (mut_mutant_AAs ?inp) (mut_positions ?inp) 2 2
               = [[[Fin 2, Fin 20, Fin 3], [Fin 5, Fin 50, Fin 10]],
                  [[Fin 1, Fin 10, Fin 1], [Fin 6, Fin 60, Fin 12]]]"
    by (simp add: slots_with_edges_def slot_with_edges_def neighbour_edge_mean_def
          first_match_def ncols_def torch_nanmean_def torch_nansum_def torch_sum_def
          example_cfg_def example_nets_def example_inputs_def cat3_def cat2_def Let_def
          upt_conv_Cons)
  have 2: "multi_slots ?c example_nets ?inp X S [?h] ?emb ?edg
             = Inr [[[Fin 2, Fin 20, Fin 3], [Fin 5, Fin 50, Fin 10]],
                    [[Fin 1, Fin 10, Fin 1], [Fin 6, Fin 60, Fin 12]]]"
    using t reach by (simp only: slots)
  have "forward ?c example_nets ?inp
          = ebind (nonlearned ?c example_nets
                     [[[Fin 2, Fin 20, Fin 3], [Fin 5, Fin 50, Fin 10]],
                      [[Fin 1, Fin 10, Fin 1], [Fin 6, Fin 60, Fin 12]]]
                     (mut_mutant_AAs ?inp) (mut_wildtype_AAs ?inp) (mut_positions ?inp))
              (\<lambda>combined. index_ddg ?c (ddg_out example_nets combined) (mut_mutant_AAs ?inp)
                             (mut_wildtype_AAs ?inp))"
  proof -
    have agg: "aggregation ?c \<noteq> Some ''mpnn''" by (simp add: example_cfg_def)
    show ?thesis
      using t reach by (simp only: slots agg if_False)
  qed
  then have 3: "forward ?c example_nets ?inp = Inr [[Fin 3, Fin 2], [Fin 11, Fin 55]]"
    by (simp add: example_cfg_def example_nets_def example_inputs_def nonlearned_def
          light_attention_all_def unsqueeze_last_def stack_last_def padding_mask_def
          assert_first_visible_def aggregate_def mask_fill_def torch_nanmean_def
          torch_nansum_def torch_sum_def index_ddg_def gather_last_def index_at_def
          in_range_def ncols_def col_def Let_def)
  then have 4: "forward ?c (example_nets\<lparr>dist_norm := (\<lambda>m. []), pair_dist := (\<lambda>a b. NaN)\<rparr>) ?inp
                  = Inr [[Fin 3, Fin 2], [Fin 11, Fin 55]]"
    using t by simp
  show ?thesis
    using 1 2 3 4 bb by blast
qed

end
